theory Spec2Isabelle
  imports Complex_Main "HOL-Library.Word" "HOL-Library.Multiset"
begin

unbundle bit_operations_syntax

section \<open>Clustered lights: the per-frame light update engine\<close>

text \<open>
  A shallow embedding of \<^verbatim>\<open>src/wasm/cluster-lights.c\<close>.

  Conventions of the embedding.
  \<^item> A C \<^verbatim>\<open>float\<close> is a \<^typ>\<open>real\<close>: arithmetic is exact, there is no rounding, no NaN and
    no infinity. Every statement below about numeric values is a statement in exact
    arithmetic; statements about which fields are read and written do not depend on it.
  \<^item> \<^verbatim>\<open>uint8_t\<close> and \<^verbatim>\<open>uint32_t\<close> are \<^typ>\<open>8 word\<close> and \<^typ>\<open>32 word\<close>; \<^verbatim>\<open>int\<close> is \<^typ>\<open>int\<close>.
    While the counts stay within the capacity the only \<^verbatim>\<open>int\<close> expression that can leave the
    32-bit range is the sum \<^verbatim>\<open>pointLightCount + count\<close> of \<^verbatim>\<open>bulkAddPointLights\<close>, whose
    \<^verbatim>\<open>count\<close> is the caller's; it is evaluated in 32 bits (\<open>int32\<close>).
  \<^item> A division is the division of the reals, where \<open>x / 0 = 0\<close>; the float division of the
    source gives an infinity or a NaN there. The level of detail with
    \<^verbatim>\<open>radius * lodBias = 0\<close> and the Linear block with \<^verbatim>\<open>duration = 0\<close> are outside the model.
  \<^item> The global variables are the fields of the record \<open>state\<close>; a function that
    mutates globals takes the state and returns the new one.
  \<^item> An array is a list. The arrays are allocated by \<^verbatim>\<open>init\<close> with \<^verbatim>\<open>maxLights\<close> entries
    whose content is whatever the memory held; a light slot keeps the fields that a
    function does not assign.
\<close>

subsection \<open>Constants\<close>

definition ANIM_NONE :: "32 word" where "ANIM_NONE = 0x00"
definition ANIM_CIRCULAR :: "32 word" where "ANIM_CIRCULAR = 0x01"
definition ANIM_LINEAR :: "32 word" where "ANIM_LINEAR = 0x02"
definition ANIM_WAVE :: "32 word" where "ANIM_WAVE = 0x04"
definition ANIM_FLICKER :: "32 word" where "ANIM_FLICKER = 0x08"
definition ANIM_PULSE :: "32 word" where "ANIM_PULSE = 0x10"
definition ANIM_ROTATE :: "32 word" where "ANIM_ROTATE = 0x20"

definition LINEAR_ONCE :: "8 word" where "LINEAR_ONCE = 0"
definition LINEAR_LOOP :: "8 word" where "LINEAR_LOOP = 1"
definition LINEAR_PINGPONG :: "8 word" where "LINEAR_PINGPONG = 2"

definition PULSE_INTENSITY :: "8 word" where "PULSE_INTENSITY = 0x01"
definition PULSE_RADIUS :: "8 word" where "PULSE_RADIUS = 0x02"

definition ROTATE_CONTINUOUS :: "8 word" where "ROTATE_CONTINUOUS = 0"
definition ROTATE_SWING :: "8 word" where "ROTATE_SWING = 1"

definition LOD_SKIP :: "8 word" where "LOD_SKIP = 0"
definition LOD_SIMPLE :: "8 word" where "LOD_SIMPLE = 1"
definition LOD_MEDIUM :: "8 word" where "LOD_MEDIUM = 2"
definition LOD_FULL :: "8 word" where "LOD_FULL = 3"

definition LOD_SKIP_DISTANCE :: real where "LOD_SKIP_DISTANCE = 30"
definition LOD_SIMPLE_DISTANCE :: real where "LOD_SIMPLE_DISTANCE = 15"
definition LOD_MEDIUM_DISTANCE :: real where "LOD_MEDIUM_DISTANCE = 7"

definition DIRTY_POSITION :: "8 word" where "DIRTY_POSITION = 1"
definition DIRTY_COLOR :: "8 word" where "DIRTY_COLOR = 2"
definition DIRTY_ALL :: "8 word" where "DIRTY_ALL = 7"

subsection \<open>Types and structures\<close>

record Vec4 =
  vx :: real
  vy :: real
  vz :: real
  vw :: real

text \<open>The compound literal \<^verbatim>\<open>(Vec4){a, b, c, d}\<close>.\<close>

definition mkVec4 :: "real \<Rightarrow> real \<Rightarrow> real \<Rightarrow> real \<Rightarrow> Vec4" where
  "mkVec4 a b c d = \<lparr>vx = a, vy = b, vz = c, vw = d\<rparr>"

record CircularParams =
  circ_speed :: real
  circ_radius :: real

record LinearParams =
  lin_targetPos :: Vec4
  lin_duration :: real
  lin_delay :: real
  lin_mode :: "8 word"

record WaveParams =
  wave_axis :: Vec4
  wave_speed :: real
  wave_amplitude :: real
  wave_phase :: real

record FlickerParams =
  flk_speed :: real
  flk_intensity :: real
  flk_seed :: real

record PulseParams =
  pulse_speed :: real
  pulse_amount :: real
  pulse_target :: "8 word"

record RotationParams =
  rot_axis :: Vec4
  rot_speed :: real
  rot_angle :: real
  rot_mode :: "8 word"

record AnimationParams =
  flags :: "32 word"
  circular :: CircularParams
  linear_params :: LinearParams
  wave :: WaveParams
  flicker :: FlickerParams
  pulse :: PulseParams
  rotation :: RotationParams

text \<open>
  The field \<^verbatim>\<open>linear\<close> is \<open>linear_params\<close> here, \<^verbatim>\<open>RectLight.size\<close> is \<open>rsize\<close> and the
  function \<^verbatim>\<open>sort\<close> is \<open>sortLights\<close>: the plain names are constants of the library.
  The three light structs share thirteen fields; the record \<open>Light\<close> holds them and each
  kind extends it, so that the macro-generated functions of the source (one text for the
  three kinds) are one polymorphic function here.
\<close>

record Light =
  baseWorldPos :: Vec4
  animOffset :: Vec4
  worldPos :: Vec4
  color :: Vec4
  viewPos :: Vec4
  anim :: AnimationParams
  decay :: real
  morton :: "32 word"
  dirty :: "8 word"
  visible :: "8 word"
  lodLevel :: "8 word"
  castsShadow :: "8 word"
  shadowIntensity :: real

record PointLight = Light +
  baseColor :: Vec4

record SpotLight = Light +
  direction :: Vec4
  viewDir :: Vec4
  baseDir :: Vec4
  angle :: real
  penumbra :: real

record RectLight = Light +
  rsize :: Vec4
  normal :: Vec4
  tangent :: Vec4
  bitangent :: Vec4
  viewNormal :: Vec4
  viewTangent :: Vec4
  baseNormal :: Vec4
  baseTangent :: Vec4
  baseBitangent :: Vec4

record PointLightDataOptimized =
  p_positionRadius :: Vec4
  p_colorDecayVisible :: Vec4

record SpotLightData =
  s_positionRadius :: Vec4
  s_colorIntensity :: Vec4
  s_direction :: Vec4
  s_angleParams :: Vec4

record RectLightData =
  r_positionRadius :: Vec4
  r_colorIntensity :: Vec4
  r_sizeParams :: Vec4
  r_normal :: Vec4
  r_tangent :: Vec4

subsection \<open>Global state\<close>

record state =
  pointLights :: "PointLight list"
  spotLights :: "SpotLight list"
  rectLights :: "RectLight list"
  pointLightsScratch :: "PointLight list"
  spotLightsScratch :: "SpotLight list"
  rectLightsScratch :: "RectLight list"
  pointLightTexture :: "PointLightDataOptimized list"
  spotLightTexture :: "SpotLightData list"
  rectLightTexture :: "RectLightData list"
  cameraMatrix :: "real list"
  pointLightCount :: int
  spotLightCount :: int
  rectLightCount :: int
  maxLights :: int
  hasAnimatedLights :: int
  needsSort :: int
  hasPointLights :: int
  hasSpotLights :: int
  hasRectLights :: int
  e0 :: real
  e1 :: real
  e2 :: real
  e4 :: real
  e5 :: real
  e6 :: real
  e8 :: real
  e9 :: real
  e10 :: real
  e12 :: real
  e13 :: real
  e14 :: real
  viewNear :: real
  viewFar :: real
  lodBias :: real

subsection \<open>Fast math and helpers\<close>

definition clampf :: "real \<Rightarrow> real \<Rightarrow> real \<Rightarrow> real" where
  "clampf v lo hi = (if v < lo then lo else (if v > hi then hi else v))"

definition lerpf :: "real \<Rightarrow> real \<Rightarrow> real \<Rightarrow> real" where
  "lerpf a b t = a + (b - a) * t"

text \<open>The conversion of a float to an integer type discards the fractional part.\<close>

definition truncf :: "real \<Rightarrow> int" where
  "truncf v = (if 0 \<le> v then \<lfloor>v\<rfloor> else \<lceil>v\<rceil>)"

text \<open>
  \<^verbatim>\<open>(uint32_t)x\<close> and \<^verbatim>\<open>(uint8_t)x\<close>. C leaves the conversion of a value outside the
  target range undefined; here it wraps modulo \<open>2 ^ w\<close>. No statement below depends on the
  value of an out-of-range conversion: the keys enter them as \<open>computeMorton px pz\<close>, whatever
  its value, and the level of detail converts \<open>0\<close>, \<open>1\<close>, \<open>2\<close> or \<open>3\<close>.
\<close>

definition f2u32 :: "real \<Rightarrow> 32 word" where
  "f2u32 v = word_of_int (truncf v)"

definition f2u8 :: "real \<Rightarrow> 8 word" where
  "f2u8 v = word_of_int (truncf v)"

text \<open>\<^verbatim>\<open>fmodf\<close>: the remainder has the sign of the dividend.\<close>

definition fmodf :: "real \<Rightarrow> real \<Rightarrow> real" where
  "fmodf a b = a - of_int (truncf (a / b)) * b"

definition interleaveBits :: "32 word \<Rightarrow> 32 word" where
  "interleaveBits x0 =
    (let x1 = (x0 OR push_bit 8 x0) AND 0x00FF00FF;
         x2 = (x1 OR push_bit 4 x1) AND 0x0F0F0F0F;
         x3 = (x2 OR push_bit 2 x2) AND 0x33333333;
         x4 = (x3 OR push_bit 1 x3) AND 0x55555555
     in x4)"

definition computeMorton :: "real \<Rightarrow> real \<Rightarrow> 32 word" where
  "computeMorton px pz =
    (let xi = f2u32 px; zi = f2u32 pz
     in interleaveBits xi OR push_bit 1 (interleaveBits zi))"

text \<open>\<^verbatim>\<open>worldToView\<close> and \<^verbatim>\<open>worldDirToView\<close> read the cached view matrix elements.\<close>

definition worldToView :: "'a state_scheme \<Rightarrow> real \<Rightarrow> real \<Rightarrow> real \<Rightarrow> real \<Rightarrow> Vec4" where
  "worldToView s px py pz r =
    \<lparr>vx = e0 s * px + e4 s * py + e8 s * pz + e12 s,
     vy = e1 s * px + e5 s * py + e9 s * pz + e13 s,
     vz = e2 s * px + e6 s * py + e10 s * pz + e14 s,
     vw = r\<rparr>"

text \<open>The fourth component of \<^verbatim>\<open>out\<close> is not assigned: it keeps its old value.\<close>

definition worldDirToView :: "'a state_scheme \<Rightarrow> Vec4 \<Rightarrow> Vec4 \<Rightarrow> Vec4" where
  "worldDirToView s v out =
    (let ox = e0 s * vx v + e4 s * vy v + e8 s * vz v;
         oy = e1 s * vx v + e5 s * vy v + e9 s * vz v;
         oz = e2 s * vx v + e6 s * vy v + e10 s * vz v;
         len = sqrt (ox * ox + oy * oy + oz * oz)
     in if len > 0 then
          (let inv = 1 / len in out\<lparr>vx := ox * inv, vy := oy * inv, vz := oz * inv\<rparr>)
        else out\<lparr>vx := ox, vy := oy, vz := oz\<rparr>)"

definition rotateAroundAxis :: "Vec4 \<Rightarrow> Vec4 \<Rightarrow> real \<Rightarrow> Vec4" where
  "rotateAroundAxis v axis ang =
    (let c = cos ang;
         sn = sin ang;
         dot = vx v * vx axis + vy v * vy axis + vz v * vz axis;
         ox = vx v; oy = vy v; oz = vz v
     in v\<lparr>vx := ox * c + (vy axis * oz - vz axis * oy) * sn + vx axis * dot * (1 - c),
           vy := oy * c + (vz axis * ox - vx axis * oz) * sn + vy axis * dot * (1 - c),
           vz := oz * c + (vx axis * oy - vy axis * ox) * sn + vz axis * dot * (1 - c)\<rparr>)"

text \<open>
  \<^verbatim>\<open>buildOrthonormalBasis(normal, tangent, bitangent)\<close>: the result is the pair of the new
  tangent and bitangent; all four components of both are assigned.
\<close>

definition buildOrthonormalBasis :: "Vec4 \<Rightarrow> Vec4 \<times> Vec4" where
  "buildOrthonormalBasis n =
    (let reference = (if \<bar>vy n\<bar> \<ge> 0.999 then mkVec4 1 0 0 0 else mkVec4 0 1 0 0);
         tx = vy reference * vz n - vz reference * vy n;
         ty = vz reference * vx n - vx reference * vz n;
         tz = vx reference * vy n - vy reference * vx n;
         len = sqrt (tx * tx + ty * ty + tz * tz);
         fallback = mkVec4 0 0 1 0;
         tx' = (if len < 1 / 1000000 then vy fallback * vz n - vz fallback * vy n else tx);
         ty' = (if len < 1 / 1000000 then vz fallback * vx n - vx fallback * vz n else ty);
         tz' = (if len < 1 / 1000000 then vx fallback * vy n - vy fallback * vx n else tz);
         len' = (if len < 1 / 1000000 then sqrt (tx' * tx' + ty' * ty' + tz' * tz') else len);
         t = (if len' > 0 then (let inv = 1 / len' in mkVec4 (tx' * inv) (ty' * inv) (tz' * inv) 0)
              else mkVec4 1 0 0 0);
         bx = vy n * vz t - vz n * vy t;
         by = vz n * vx t - vx n * vz t;
         bz = vx n * vy t - vy n * vx t;
         bitLen = sqrt (bx * bx + by * by + bz * bz);
         bt = (if bitLen > 0 then (let invBit = 1 / bitLen in mkVec4 (bx * invBit) (by * invBit) (bz * invBit) 0)
               else mkVec4 bx by bz 0)
     in (t, bt))"

definition calculateLOD :: "'a state_scheme \<Rightarrow> real \<Rightarrow> real \<Rightarrow> 8 word" where
  "calculateLOD s viewZ radius =
    (let distance = - viewZ;
         relativeDistance = distance / (radius * lodBias s)
     in if relativeDistance > LOD_SKIP_DISTANCE then LOD_SKIP
        else if relativeDistance > LOD_SIMPLE_DISTANCE then LOD_SIMPLE
        else if relativeDistance > LOD_MEDIUM_DISTANCE then LOD_MEDIUM
        else LOD_FULL)"

text \<open>
  One lane of \<^verbatim>\<open>calculateLOD_SIMD\<close>: the three comparisons, the three
  \<^verbatim>\<open>wasm_v128_bitselect\<close> steps on a lane that starts at \<^verbatim>\<open>3.0f\<close>, and the conversion of
  the lane to \<^verbatim>\<open>uint8_t\<close>.
\<close>

definition calculateLOD_SIMD :: "'a state_scheme \<Rightarrow> real \<Rightarrow> real \<Rightarrow> 8 word" where
  "calculateLOD_SIMD s viewZ radius =
    (let vzl = - viewZ;
         rad = radius * lodBias s;
         relDist = vzl / rad;
         isSkip = (relDist > LOD_SKIP_DISTANCE);
         isSimple = (relDist > LOD_SIMPLE_DISTANCE);
         isMedium = (relDist > LOD_MEDIUM_DISTANCE);
         lod0 = (3::real);
         lod1 = (if isMedium then 2 else lod0);
         lod2 = (if isSimple then 1 else lod1);
         lod3 = (if isSkip then 0 else lod2)
     in f2u8 lod3)"

definition packLightParams :: "real \<Rightarrow> 8 word \<Rightarrow> 8 word \<Rightarrow> real" where
  "packLightParams dec vis lod = dec * 100 + (if vis \<noteq> 0 then 10 else 0) + real (unat lod)"

definition packVisibleLOD :: "8 word \<Rightarrow> 8 word \<Rightarrow> real" where
  "packVisibleLOD vis lod = real_of_int (if vis \<noteq> 0 then 10 else 0) + real (unat lod)"

subsection \<open>Animation processing\<close>

text \<open>
  The Linear block is the same text in the three animation functions (lines 455-473,
  521-539 and 599-617 of the source); \<open>linear_t\<close> is the interpolation parameter after the
  remapping by mode, \<open>animLinear\<close> the whole block.
\<close>

definition linear_t :: "LinearParams \<Rightarrow> real \<Rightarrow> real" where
  "linear_t lp time =
    (let t = (time - lin_delay lp) / lin_duration lp
     in if lin_mode lp = LINEAR_LOOP then fmodf t 1
        else if lin_mode lp = LINEAR_PINGPONG then
          (let cycle = truncf t; t' = fmodf t 1
           in if cycle AND 1 \<noteq> 0 then 1 - t' else t')
        else clampf t 0 1)"

definition animLinear :: "'a Light_scheme \<Rightarrow> real \<Rightarrow> 'a Light_scheme" where
  "animLinear l time =
    (if flags (anim l) AND ANIM_LINEAR \<noteq> 0 then
       (if time \<ge> lin_delay (linear_params (anim l)) then
          (let t = linear_t (linear_params (anim l)) time;
               target = lin_targetPos (linear_params (anim l))
           in l\<lparr>animOffset := (animOffset l)
                  \<lparr>vx := lerpf 0 (vx target - vx (baseWorldPos l)) t,
                   vy := lerpf 0 (vy target - vy (baseWorldPos l)) t,
                   vz := lerpf 0 (vz target - vz (baseWorldPos l)) t\<rparr>\<rparr>)
        else l)
     else l)"

text \<open>\<^verbatim>\<open>worldPos.xyz = baseWorldPos.xyz + animOffset.xyz\<close>, in the three functions.\<close>

definition applyOffset :: "'a Light_scheme \<Rightarrow> 'a Light_scheme" where
  "applyOffset l =
    l\<lparr>worldPos := (worldPos l)
        \<lparr>vx := vx (baseWorldPos l) + vx (animOffset l),
         vy := vy (baseWorldPos l) + vy (animOffset l),
         vz := vz (baseWorldPos l) + vz (animOffset l)\<rparr>\<rparr>"

text \<open>The local variables \<^verbatim>\<open>flicker\<close>, \<^verbatim>\<open>pulse\<close> and \<^verbatim>\<open>angle\<close> of the three functions.\<close>

definition flickerValue :: "FlickerParams \<Rightarrow> real \<Rightarrow> real" where
  "flickerValue fp time =
    1 + sin (time * flk_speed fp + flk_seed fp) *
        cos (time * flk_speed fp * 1.7 + flk_seed fp * 2.3) * flk_intensity fp"

definition pulseValue :: "PulseParams \<Rightarrow> real \<Rightarrow> real" where
  "pulseValue pp time = 1 + sin (time * pulse_speed pp) * pulse_amount pp"

definition rotationAngle :: "RotationParams \<Rightarrow> real \<Rightarrow> real" where
  "rotationAngle rp time =
    (if rot_mode rp = ROTATE_SWING then sin (time * rot_speed rp) * rot_angle rp
     else fmodf (time * rot_speed rp) (2 * pi))"

text \<open>
  \<^verbatim>\<open>processPointLightAnimation\<close>, block by block in the order of the source: the reset of
  the transient fields (lines 436-440), Circular (448-452), Linear (455-473), Wave
  (476-481), the offset applied (484-486), Flicker (489-494), Pulse (496-504).
\<close>

definition pointReset :: "PointLight \<Rightarrow> PointLight" where
  "pointReset l =
    l\<lparr>animOffset := mkVec4 0 0 0 0,
      color := baseColor l,
      worldPos := (worldPos l)\<lparr>vw := vw (baseWorldPos l)\<rparr>\<rparr>"

definition animCircular :: "PointLight \<Rightarrow> real \<Rightarrow> PointLight" where
  "animCircular l time =
    (if flags (anim l) AND ANIM_CIRCULAR \<noteq> 0 then
       (let phase = time * circ_speed (circular (anim l))
        in l\<lparr>animOffset := (animOffset l)
              \<lparr>vx := sin phase * circ_radius (circular (anim l)),
               vz := cos phase * circ_radius (circular (anim l))\<rparr>\<rparr>)
     else l)"

definition animWave :: "PointLight \<Rightarrow> real \<Rightarrow> PointLight" where
  "animWave l time =
    (if flags (anim l) AND ANIM_WAVE \<noteq> 0 then
       (let wv = sin (time * wave_speed (wave (anim l)) + wave_phase (wave (anim l)))
                  * wave_amplitude (wave (anim l))
        in l\<lparr>animOffset := (animOffset l)
              \<lparr>vx := vx (animOffset l) + vx (wave_axis (wave (anim l))) * wv,
               vy := vy (animOffset l) + vy (wave_axis (wave (anim l))) * wv,
               vz := vz (animOffset l) + vz (wave_axis (wave (anim l))) * wv\<rparr>\<rparr>)
     else l)"

definition pointFlicker :: "PointLight \<Rightarrow> real \<Rightarrow> PointLight" where
  "pointFlicker l time =
    (if flags (anim l) AND ANIM_FLICKER \<noteq> 0 then
       l\<lparr>color := (color l)
            \<lparr>vw := vw (baseColor l) * clampf (flickerValue (flicker (anim l)) time) 0.1 2.0\<rparr>\<rparr>
     else l)"

definition pointPulse :: "PointLight \<Rightarrow> real \<Rightarrow> PointLight" where
  "pointPulse l time =
    (if flags (anim l) AND ANIM_PULSE \<noteq> 0 then
       (let pv = pulseValue (pulse (anim l)) time;
            l1 = (if pulse_target (pulse (anim l)) AND PULSE_INTENSITY \<noteq> 0 then
                    l\<lparr>color := (color l)\<lparr>vw := vw (baseColor l) * pv\<rparr>\<rparr>
                  else l)
        in if pulse_target (pulse (anim l1)) AND PULSE_RADIUS \<noteq> 0 then
             l1\<lparr>worldPos := (worldPos l1)\<lparr>vw := vw (baseWorldPos l1) * pv\<rparr>\<rparr>
           else l1)
     else l)"

definition processPointLightAnimation :: "PointLight \<Rightarrow> real \<Rightarrow> PointLight" where
  "processPointLightAnimation l0 time =
    (let l = pointReset l0
     in if flags (anim l) = ANIM_NONE then l\<lparr>worldPos := baseWorldPos l\<rparr>
        else pointPulse (pointFlicker (applyOffset
               (animWave (animLinear (animCircular l time) time) time)) time) time)"

text \<open>
  \<^verbatim>\<open>processSpotLightAnimation\<close>: the reset (lines 509-513), Linear (521-539), the offset
  applied (542-544), Rotate (547-563), Flicker (566-571), Pulse (574-582). Flicker and the
  intensity part of Pulse are the same text in \<^verbatim>\<open>processRectLightAnimation\<close>.
\<close>

definition spotReset :: "SpotLight \<Rightarrow> SpotLight" where
  "spotReset l =
    l\<lparr>animOffset := mkVec4 0 0 0 0,
      direction := baseDir l,
      worldPos := (worldPos l)\<lparr>vw := vw (baseWorldPos l)\<rparr>\<rparr>"

definition spotRotate :: "SpotLight \<Rightarrow> real \<Rightarrow> SpotLight" where
  "spotRotate l time =
    (if flags (anim l) AND ANIM_ROTATE \<noteq> 0 then
       (let ang = rotationAngle (rotation (anim l)) time;
            dir = rotateAroundAxis (baseDir l) (rot_axis (rotation (anim l))) ang;
            pos = rotateAroundAxis (worldPos l) (rot_axis (rotation (anim l))) ang
        in l\<lparr>direction := dir, worldPos := pos\<rparr>)
     else l)"

definition colorFlicker :: "'a Light_scheme \<Rightarrow> real \<Rightarrow> 'a Light_scheme" where
  "colorFlicker l time =
    (if flags (anim l) AND ANIM_FLICKER \<noteq> 0 then
       l\<lparr>color := (color l)
            \<lparr>vw := vw (color l) * clampf (flickerValue (flicker (anim l)) time) 0.1 2.0\<rparr>\<rparr>
     else l)"

definition spotPulse :: "SpotLight \<Rightarrow> real \<Rightarrow> SpotLight" where
  "spotPulse l time =
    (if flags (anim l) AND ANIM_PULSE \<noteq> 0 then
       (let pv = pulseValue (pulse (anim l)) time;
            l1 = (if pulse_target (pulse (anim l)) AND PULSE_INTENSITY \<noteq> 0 then
                    l\<lparr>color := (color l)\<lparr>vw := vw (color l) * pv\<rparr>\<rparr>
                  else l)
        in if pulse_target (pulse (anim l1)) AND PULSE_RADIUS \<noteq> 0 then
             l1\<lparr>worldPos := (worldPos l1)\<lparr>vw := vw (baseWorldPos l1) * pv\<rparr>\<rparr>
           else l1)
     else l)"

definition processSpotLightAnimation :: "SpotLight \<Rightarrow> real \<Rightarrow> SpotLight" where
  "processSpotLightAnimation l0 time =
    (let l = spotReset l0
     in if flags (anim l) = ANIM_NONE then l\<lparr>worldPos := baseWorldPos l\<rparr>
        else spotPulse (colorFlicker (spotRotate (applyOffset (animLinear l time)) time) time) time)"

text \<open>
  \<^verbatim>\<open>processRectLightAnimation\<close>: the reset (lines 587-591), Linear (599-617), the offset
  applied (620-622), Rotate (625-644), Flicker (647-652), Pulse (655-660).
\<close>

definition rectReset :: "RectLight \<Rightarrow> RectLight" where
  "rectReset l =
    l\<lparr>animOffset := mkVec4 0 0 0 0,
      normal := baseNormal l,
      worldPos := (worldPos l)\<lparr>vw := vw (baseWorldPos l)\<rparr>\<rparr>"

definition rectRotate :: "RectLight \<Rightarrow> real \<Rightarrow> RectLight" where
  "rectRotate l time =
    (if flags (anim l) AND ANIM_ROTATE \<noteq> 0 then
       (let ang = rotationAngle (rotation (anim l)) time;
            norm = rotateAroundAxis (baseNormal l) (rot_axis (rotation (anim l))) ang;
            tang = rotateAroundAxis (baseTangent l) (rot_axis (rotation (anim l))) ang;
            bitang = rotateAroundAxis (baseBitangent l) (rot_axis (rotation (anim l))) ang
        in l\<lparr>normal := norm, tangent := tang, bitangent := bitang\<rparr>)
     else l)"

definition rectPulse :: "RectLight \<Rightarrow> real \<Rightarrow> RectLight" where
  "rectPulse l time =
    (if flags (anim l) AND ANIM_PULSE \<noteq> 0 then
       (let pv = pulseValue (pulse (anim l)) time
        in if pulse_target (pulse (anim l)) AND PULSE_INTENSITY \<noteq> 0 then
             l\<lparr>color := (color l)\<lparr>vw := vw (color l) * pv\<rparr>\<rparr>
           else l)
     else l)"

definition processRectLightAnimation :: "RectLight \<Rightarrow> real \<Rightarrow> RectLight" where
  "processRectLightAnimation l0 time =
    (let l = rectReset l0
     in if flags (anim l) = ANIM_NONE then l\<lparr>worldPos := baseWorldPos l\<rparr>
        else rectPulse (colorFlicker (rectRotate (applyOffset (animLinear l time)) time) time) time)"

subsection \<open>Frame update: the per-light steps\<close>

text \<open>
  The culling test \<^verbatim>\<open>viewPos.z > worldPos.w - viewNear || viewPos.z < -viewFar - worldPos.w\<close>,
  as the \<^verbatim>\<open>uint8_t culled\<close> of the source, and the argument \<^verbatim>\<open>l->visible && !culled\<close> of the
  packing functions.
\<close>

definition culledFlag :: "'a state_scheme \<Rightarrow> 'b Light_scheme \<Rightarrow> 8 word" where
  "culledFlag s l =
    (if vz (viewPos l) > vw (worldPos l) - viewNear s \<or> vz (viewPos l) < - viewFar s - vw (worldPos l)
     then 1 else 0)"

definition visibleAndNotCulled :: "'b Light_scheme \<Rightarrow> 8 word \<Rightarrow> 8 word" where
  "visibleAndNotCulled l culled = (if visible l \<noteq> 0 \<and> \<not> culled \<noteq> 0 then 1 else 0)"

text \<open>The record written to \<^verbatim>\<open>pointLightTexture[i]\<close>, by the scalar and by the batched loop.\<close>

definition pointTexel :: "PointLight \<Rightarrow> 8 word \<Rightarrow> PointLightDataOptimized" where
  "pointTexel l culled =
    \<lparr>p_positionRadius = viewPos l,
     p_colorDecayVisible = mkVec4 (vx (color l) * vw (color l)) (vy (color l) * vw (color l))
        (vz (color l) * vw (color l))
        (packLightParams (decay l) (visibleAndNotCulled l culled) (lodLevel l))\<rparr>"

definition spotTexel :: "SpotLight \<Rightarrow> 8 word \<Rightarrow> SpotLightData" where
  "spotTexel l culled =
    \<lparr>s_positionRadius = viewPos l,
     s_colorIntensity = color l,
     s_direction = viewDir l,
     s_angleParams = mkVec4 (cos (angle l)) (cos (angle l - penumbra l)) (decay l)
        (packVisibleLOD (visibleAndNotCulled l culled) (lodLevel l))\<rparr>"

definition rectTexel :: "RectLight \<Rightarrow> 8 word \<Rightarrow> RectLightData" where
  "rectTexel l culled =
    \<lparr>r_positionRadius = viewPos l,
     r_colorIntensity = color l,
     r_sizeParams = mkVec4 (vx (rsize l)) (vy (rsize l)) (decay l)
        (packVisibleLOD (visibleAndNotCulled l culled) (lodLevel l)),
     r_normal = viewNormal l,
     r_tangent = viewTangent l\<rparr>"

text \<open>
  The body of the scalar point-light loop (lines 1970-2004 and 2101-2131 of \<^verbatim>\<open>update\<close>,
  lines 800-833 of \<^verbatim>\<open>updatePointLightsSIMD\<close>), up to the store of the texture record:
  animate, transform, level of detail. \<open>pointStep\<close> is the light written back, with
  \<^verbatim>\<open>dirty = 0\<close>.
\<close>

definition pointAnimated :: "PointLight \<Rightarrow> real \<Rightarrow> PointLight" where
  "pointAnimated l time =
    (if flags (anim l) \<noteq> ANIM_NONE then processPointLightAnimation l time
     else l\<lparr>worldPos := baseWorldPos l\<rparr>)"

definition pointViewed :: "'a state_scheme \<Rightarrow> PointLight \<Rightarrow> PointLight" where
  "pointViewed s l =
    (let l1 = l\<lparr>viewPos := worldToView s (vx (worldPos l)) (vy (worldPos l)) (vz (worldPos l)) (vw (worldPos l))\<rparr>
     in l1\<lparr>lodLevel := calculateLOD s (vz (viewPos l1)) (vw (worldPos l1))\<rparr>)"

definition pointStep :: "'a state_scheme \<Rightarrow> real \<Rightarrow> PointLight \<Rightarrow> PointLight" where
  "pointStep s time l = (pointViewed s (pointAnimated l time))\<lparr>dirty := 0\<rparr>"

definition updatePointScalar :: "real \<Rightarrow> nat \<Rightarrow> state \<Rightarrow> state" where
  "updatePointScalar time i s =
    (let l = pointViewed s (pointAnimated (pointLights s ! i) time);
         culled = culledFlag s l
     in s\<lparr>pointLightTexture := (pointLightTexture s)[i := pointTexel l culled],
           pointLights := (pointLights s)[i := l\<lparr>dirty := 0\<rparr>]\<rparr>)"

text \<open>The bodies of the spot-light and rect-light loops of \<^verbatim>\<open>update\<close>.\<close>

definition spotViewed :: "'a state_scheme \<Rightarrow> real \<Rightarrow> SpotLight \<Rightarrow> SpotLight" where
  "spotViewed s time l =
    (let l1 = (if flags (anim l) \<noteq> ANIM_NONE then processSpotLightAnimation l time
               else l\<lparr>worldPos := baseWorldPos l\<rparr>);
         l2 = l1\<lparr>viewPos := worldToView s (vx (worldPos l1)) (vy (worldPos l1)) (vz (worldPos l1)) (vw (worldPos l1))\<rparr>;
         l3 = l2\<lparr>viewDir := worldDirToView s (direction l2) (viewDir l2)\<rparr>
     in l3\<lparr>lodLevel := calculateLOD s (vz (viewPos l3)) (vw (worldPos l3))\<rparr>)"

definition updateSpotScalar :: "real \<Rightarrow> nat \<Rightarrow> state \<Rightarrow> state" where
  "updateSpotScalar time i s =
    (let l = spotViewed s time (spotLights s ! i);
         culled = culledFlag s l
     in s\<lparr>spotLightTexture := (spotLightTexture s)[i := spotTexel l culled],
           spotLights := (spotLights s)[i := l\<lparr>dirty := 0\<rparr>]\<rparr>)"

definition rectViewed :: "'a state_scheme \<Rightarrow> real \<Rightarrow> RectLight \<Rightarrow> RectLight" where
  "rectViewed s time l =
    (let l1 = (if flags (anim l) \<noteq> ANIM_NONE then processRectLightAnimation l time
               else l\<lparr>worldPos := baseWorldPos l\<rparr>);
         l2 = l1\<lparr>viewPos := worldToView s (vx (worldPos l1)) (vy (worldPos l1)) (vz (worldPos l1)) (vw (worldPos l1))\<rparr>;
         l3 = l2\<lparr>viewNormal := worldDirToView s (normal l2) (viewNormal l2)\<rparr>;
         l4 = l3\<lparr>viewTangent := worldDirToView s (tangent l3) (viewTangent l3)\<rparr>
     in l4\<lparr>lodLevel := calculateLOD s (vz (viewPos l4)) (vw (worldPos l4))\<rparr>)"

definition updateRectScalar :: "real \<Rightarrow> nat \<Rightarrow> state \<Rightarrow> state" where
  "updateRectScalar time i s =
    (let l = rectViewed s time (rectLights s ! i);
         culled = culledFlag s l
     in s\<lparr>rectLightTexture := (rectLightTexture s)[i := rectTexel l culled],
           rectLights := (rectLights s)[i := l\<lparr>dirty := 0\<rparr>]\<rparr>)"

subsection \<open>The batched path\<close>

text \<open>
  One lane of the four-wide transform of \<^verbatim>\<open>updatePointLightsSIMD\<close>: the sums associate as
  \<^verbatim>\<open>(e0*x + e4*y) + (e8*z + e12)\<close>. Then the lane of \<^verbatim>\<open>calculateLOD_SIMD\<close>.
\<close>

definition simdViewed :: "'a state_scheme \<Rightarrow> PointLight \<Rightarrow> PointLight" where
  "simdViewed s l =
    (let wx = vx (worldPos l); wy = vy (worldPos l); wz = vz (worldPos l);
         l1 = l\<lparr>viewPos := \<lparr>vx = (e0 s * wx + e4 s * wy) + (e8 s * wz + e12 s),
                             vy = (e1 s * wx + e5 s * wy) + (e9 s * wz + e13 s),
                             vz = (e2 s * wx + e6 s * wy) + (e10 s * wz + e14 s),
                             vw = vw (worldPos l)\<rparr>\<rparr>
     in l1\<lparr>lodLevel := calculateLOD_SIMD s (vz (viewPos l1)) (vw (worldPos l1))\<rparr>)"

text \<open>
  One iteration of the four-wide loop, on the lights \<open>i\<close> to \<open>i + 3\<close>. When one of the four
  has an animation, \<^verbatim>\<open>processPointLightAnimation\<close> runs on all four.
\<close>

definition simdBatch :: "real \<Rightarrow> nat \<Rightarrow> state \<Rightarrow> state" where
  "simdBatch time i s =
    (let l0 = pointLights s ! i;
         l1 = pointLights s ! (i + 1);
         l2 = pointLights s ! (i + 2);
         l3 = pointLights s ! (i + 3);
         anyAnim = ((flags (anim l0) OR flags (anim l1) OR flags (anim l2) OR flags (anim l3)) \<noteq> ANIM_NONE);
         prep = (\<lambda>l. if anyAnim then processPointLightAnimation l time
                      else l\<lparr>worldPos := baseWorldPos l\<rparr>);
         m0 = simdViewed s (prep l0);
         m1 = simdViewed s (prep l1);
         m2 = simdViewed s (prep l2);
         m3 = simdViewed s (prep l3)
     in s\<lparr>pointLightTexture := (pointLightTexture s)
             [i := pointTexel m0 (culledFlag s m0),
              i + 1 := pointTexel m1 (culledFlag s m1),
              i + 2 := pointTexel m2 (culledFlag s m2),
              i + 3 := pointTexel m3 (culledFlag s m3)],
           pointLights := (pointLights s)
             [i := m0\<lparr>dirty := 0\<rparr>, i + 1 := m1\<lparr>dirty := 0\<rparr>,
              i + 2 := m2\<lparr>dirty := 0\<rparr>, i + 3 := m3\<lparr>dirty := 0\<rparr>]\<rparr>)"

text \<open>\<^verbatim>\<open>for (; i + 3 < pointLightCount; i += 4)\<close>; the result is the final \<open>i\<close> and the state.\<close>

function simdLoop :: "real \<Rightarrow> nat \<Rightarrow> nat \<Rightarrow> state \<Rightarrow> nat \<times> state" where
  "simdLoop time n i s =
    (if i + 3 < n then simdLoop time n (i + 4) (simdBatch time i s) else (i, s))"
  by pat_completeness auto
termination
  by (relation "measure (\<lambda>(time, n, i, s). n - i)") auto

definition updatePointLightsSIMD :: "real \<Rightarrow> state \<Rightarrow> state" where
  "updatePointLightsSIMD time s =
    (case simdLoop time (nat (pointLightCount s)) 0 s of
       (i, s1) \<Rightarrow> fold (updatePointScalar time) [i..<nat (pointLightCount s)] s1)"

subsection \<open>Frame update\<close>

text \<open>
  \<^verbatim>\<open>update(time)\<close>. The first argument tells which of the two texts under
  \<^verbatim>\<open>#ifdef __wasm_simd128__\<close> is compiled: \<open>True\<close> for the batched path, \<open>False\<close> for the
  scalar loop. The model is the effect on the globals; the \<^verbatim>\<open>int\<close> that \<^verbatim>\<open>update\<close> returns
  (whether a light is animated) is not part of it.
\<close>

definition cacheViewMatrix :: "state \<Rightarrow> state" where
  "cacheViewMatrix s =
    (let e = cameraMatrix s
     in s\<lparr>e0 := e ! 0, e1 := e ! 1, e2 := e ! 2,
           e4 := e ! 4, e5 := e ! 5, e6 := e ! 6,
           e8 := e ! 8, e9 := e ! 9, e10 := e ! 10,
           e12 := e ! 12, e13 := e ! 13, e14 := e ! 14\<rparr>)"

definition updatePoints :: "bool \<Rightarrow> real \<Rightarrow> state \<Rightarrow> state" where
  "updatePoints simd time s =
    (if simd then updatePointLightsSIMD time s
     else fold (updatePointScalar time) [0..<nat (pointLightCount s)] s)"

definition updateSpots :: "real \<Rightarrow> state \<Rightarrow> state" where
  "updateSpots time s = fold (updateSpotScalar time) [0..<nat (spotLightCount s)] s"

definition updateRects :: "real \<Rightarrow> state \<Rightarrow> state" where
  "updateRects time s = fold (updateRectScalar time) [0..<nat (rectLightCount s)] s"

definition update :: "bool \<Rightarrow> real \<Rightarrow> state \<Rightarrow> state" where
  "update simd time s0 =
    (let s = cacheViewMatrix s0
     in if hasPointLights s \<noteq> 0 \<and> \<not> hasSpotLights s \<noteq> 0 \<and> \<not> hasRectLights s \<noteq> 0 then
          updatePoints simd time s
        else if \<not> hasPointLights s \<noteq> 0 \<and> hasSpotLights s \<noteq> 0 \<and> \<not> hasRectLights s \<noteq> 0 then
          updateSpots time s
        else if \<not> hasPointLights s \<noteq> 0 \<and> \<not> hasSpotLights s \<noteq> 0 \<and> hasRectLights s \<noteq> 0 then
          updateRects time s
        else
          (let s1 = (if hasPointLights s \<noteq> 0 then updatePoints simd time s else s);
               s2 = (if hasSpotLights s1 \<noteq> 0 then updateSpots time s1 else s1)
           in if hasRectLights s2 \<noteq> 0 then updateRects time s2 else s2))"

subsection \<open>Light creation\<close>

text \<open>
  Each creation function returns the \<^verbatim>\<open>int\<close> result and the new state. The slot written is
  \<^verbatim>\<open>array[count]\<close>; the fields that the function does not assign keep the slot's content.
\<close>

definition add ::
  "real \<Rightarrow> real \<Rightarrow> real \<Rightarrow> real \<Rightarrow> real \<Rightarrow> real \<Rightarrow> real \<Rightarrow> real \<Rightarrow> real \<Rightarrow> real \<Rightarrow> real \<Rightarrow>
   state \<Rightarrow> int \<times> state" where
  "add px py pz radius r g b dec speed animRadius intensity s =
    (if pointLightCount s \<ge> maxLights s then (- 1, s)
     else
       (let idx = nat (pointLightCount s);
            l0 = pointLights s ! idx;
            l1 = l0\<lparr>baseWorldPos := mkVec4 px py pz radius,
                    animOffset := mkVec4 0 0 0 0,
                    worldPos := mkVec4 px py pz radius,
                    baseColor := mkVec4 r g b intensity,
                    color := mkVec4 r g b intensity,
                    decay := dec,
                    morton := computeMorton px pz,
                    dirty := DIRTY_ALL,
                    visible := 1,
                    lodLevel := LOD_FULL,
                    castsShadow := 0,
                    shadowIntensity := 0.3\<rparr>;
            l2 = l1\<lparr>anim := (anim l1)\<lparr>flags := ANIM_NONE\<rparr>\<rparr>;
            l3 = (if speed \<noteq> 0 then
                    l2\<lparr>anim := (anim l2)\<lparr>flags := flags (anim l2) OR ANIM_CIRCULAR,
                                         circular := \<lparr>circ_speed = speed, circ_radius = animRadius\<rparr>\<rparr>\<rparr>
                  else l2);
            s1 = s\<lparr>pointLights := (pointLights s)[idx := l3],
                   hasAnimatedLights := (if speed \<noteq> 0 then 1 else hasAnimatedLights s),
                   needsSort := 1,
                   hasPointLights := 1\<rparr>
        in (pointLightCount s, s1\<lparr>pointLightCount := pointLightCount s + 1\<rparr>)))"


text \<open>
  The normalisation \<^verbatim>\<open>len = sqrtf(x*x + y*y + z*z); if (len > 0) { axis.x /= len; ... }\<close> of
  an animation axis, as the creation functions and the bulk functions write it.
\<close>

definition normalizeAxis :: "Vec4 \<Rightarrow> Vec4" where
  "normalizeAxis a =
    (let len = sqrt (vx a * vx a + vy a * vy a + vz a * vz a)
     in if len > 0 then a\<lparr>vx := vx a / len, vy := vy a / len, vz := vz a / len\<rparr> else a)"

text \<open>
  \<^verbatim>\<open>len = sqrtf(dx*dx + dy*dy + dz*dz); inv = len > 0.f ? 1.f/len : 0.f;\<close> and the vector
  \<^verbatim>\<open>(Vec4){dx*inv, dy*inv, dz*inv, 0.f}\<close>, of \<^verbatim>\<open>addSpot\<close>, \<^verbatim>\<open>addRect\<close> and their variants.
\<close>

definition normalizedDir :: "real \<Rightarrow> real \<Rightarrow> real \<Rightarrow> Vec4" where
  "normalizedDir dx dy dz =
    (let len = sqrt (dx * dx + dy * dy + dz * dz);
         inv = (if len > 0 then 1 / len else 0)
     in mkVec4 (dx * inv) (dy * inv) (dz * inv) 0)"

definition addPointWithAnimation ::
  "real \<Rightarrow> real \<Rightarrow> real \<Rightarrow> real \<Rightarrow> real \<Rightarrow> real \<Rightarrow> real \<Rightarrow> real \<Rightarrow> real \<Rightarrow> 32 word \<Rightarrow>
   real \<Rightarrow> real \<Rightarrow>
   real \<Rightarrow> real \<Rightarrow> real \<Rightarrow> real \<Rightarrow> real \<Rightarrow> 8 word \<Rightarrow>
   real \<Rightarrow> real \<Rightarrow> real \<Rightarrow> real \<Rightarrow> real \<Rightarrow> real \<Rightarrow>
   real \<Rightarrow> real \<Rightarrow> real \<Rightarrow>
   real \<Rightarrow> real \<Rightarrow> 8 word \<Rightarrow>
   state \<Rightarrow> int \<times> state" where
  "addPointWithAnimation px py pz radius r g b intensity dec animFlags
     circSpeed circRadius
     targetX targetY targetZ duration delay linearMode
     waveAxisX waveAxisY waveAxisZ waveSpeed waveAmplitude wavePhase
     flickerSpeed flickerIntensity flickerSeed
     pulseSpeed pulseAmount pulseTarget s =
    (if pointLightCount s \<ge> maxLights s then (- 1, s)
     else
       (let idx = nat (pointLightCount s);
            l0 = pointLights s ! idx;
            l1 = l0\<lparr>baseWorldPos := mkVec4 px py pz radius,
                    animOffset := mkVec4 0 0 0 0,
                    worldPos := mkVec4 px py pz radius,
                    baseColor := mkVec4 r g b intensity,
                    color := mkVec4 r g b intensity,
                    decay := dec,
                    morton := computeMorton px pz,
                    dirty := DIRTY_ALL,
                    visible := 1,
                    lodLevel := LOD_FULL\<rparr>;
            a0 = (anim l1)\<lparr>flags := animFlags\<rparr>;
            a1 = (if animFlags AND ANIM_CIRCULAR \<noteq> 0 then
                    a0\<lparr>circular := \<lparr>circ_speed = circSpeed, circ_radius = circRadius\<rparr>\<rparr>
                  else a0);
            a2 = (if animFlags AND ANIM_LINEAR \<noteq> 0 then
                    a1\<lparr>linear_params := \<lparr>lin_targetPos = mkVec4 targetX targetY targetZ 0,
                                          lin_duration = duration, lin_delay = delay,
                                          lin_mode = linearMode\<rparr>\<rparr>
                  else a1);
            a3 = (if animFlags AND ANIM_WAVE \<noteq> 0 then
                    a2\<lparr>wave := \<lparr>wave_axis = normalizeAxis (mkVec4 waveAxisX waveAxisY waveAxisZ 0),
                                 wave_speed = waveSpeed, wave_amplitude = waveAmplitude,
                                 wave_phase = wavePhase\<rparr>\<rparr>
                  else a2);
            a4 = (if animFlags AND ANIM_FLICKER \<noteq> 0 then
                    a3\<lparr>flicker := \<lparr>flk_speed = flickerSpeed, flk_intensity = flickerIntensity,
                                    flk_seed = flickerSeed\<rparr>\<rparr>
                  else a3);
            a5 = (if animFlags AND ANIM_PULSE \<noteq> 0 then
                    a4\<lparr>pulse := \<lparr>pulse_speed = pulseSpeed, pulse_amount = pulseAmount,
                                  pulse_target = pulseTarget\<rparr>\<rparr>
                  else a4);
            s1 = s\<lparr>pointLights := (pointLights s)[idx := l1\<lparr>anim := a5\<rparr>],
                   hasAnimatedLights :=
                     (if animFlags AND ANIM_CIRCULAR \<noteq> 0 \<or> animFlags AND ANIM_LINEAR \<noteq> 0 \<or>
                         animFlags AND ANIM_WAVE \<noteq> 0 \<or> animFlags AND ANIM_FLICKER \<noteq> 0 \<or>
                         animFlags AND ANIM_PULSE \<noteq> 0
                      then 1 else hasAnimatedLights s),
                   needsSort := 1,
                   hasPointLights := 1\<rparr>
        in (pointLightCount s, s1\<lparr>pointLightCount := pointLightCount s + 1\<rparr>)))"

definition addSpot ::
  "real \<Rightarrow> real \<Rightarrow> real \<Rightarrow> real \<Rightarrow> real \<Rightarrow> real \<Rightarrow> real \<Rightarrow> real \<Rightarrow> real \<Rightarrow> real \<Rightarrow>
   real \<Rightarrow> real \<Rightarrow> real \<Rightarrow> real \<Rightarrow> state \<Rightarrow> int \<times> state" where
  "addSpot px py pz radius r g b dx dy dz ang pen dec intensity s =
    (if spotLightCount s \<ge> maxLights s then (- 1, s)
     else
       (let idx = nat (spotLightCount s);
            l0 = spotLights s ! idx;
            l1 = l0\<lparr>baseWorldPos := mkVec4 px py pz radius,
                    animOffset := mkVec4 0 0 0 0,
                    worldPos := mkVec4 px py pz radius,
                    color := mkVec4 r g b intensity,
                    direction := normalizedDir dx dy dz,
                    baseDir := normalizedDir dx dy dz,
                    decay := dec,
                    angle := ang,
                    penumbra := pen,
                    morton := computeMorton px pz,
                    dirty := DIRTY_ALL,
                    visible := 1,
                    lodLevel := LOD_FULL,
                    castsShadow := 0,
                    shadowIntensity := 0.3\<rparr>;
            l2 = l1\<lparr>anim := (anim l1)\<lparr>flags := ANIM_NONE\<rparr>\<rparr>;
            s1 = s\<lparr>spotLights := (spotLights s)[idx := l2],
                   needsSort := 1,
                   hasSpotLights := 1\<rparr>
        in (spotLightCount s, s1\<lparr>spotLightCount := spotLightCount s + 1\<rparr>)))"

text \<open>
  The animation set-up shared by \<^verbatim>\<open>addSpotWithAnimation\<close> and \<^verbatim>\<open>addRectWithAnimation\<close>
  (the same text in both): linear, rotation with its axis normalised, flicker, pulse.
\<close>

definition setupSpotRectAnim ::
  "AnimationParams \<Rightarrow> 32 word \<Rightarrow>
   real \<Rightarrow> real \<Rightarrow> real \<Rightarrow> real \<Rightarrow> real \<Rightarrow> 8 word \<Rightarrow>
   real \<Rightarrow> real \<Rightarrow> real \<Rightarrow> real \<Rightarrow> real \<Rightarrow> 8 word \<Rightarrow>
   real \<Rightarrow> real \<Rightarrow> real \<Rightarrow>
   real \<Rightarrow> real \<Rightarrow> 8 word \<Rightarrow> AnimationParams" where
  "setupSpotRectAnim a animFlags
     targetX targetY targetZ duration delay linearMode
     rotAxisX rotAxisY rotAxisZ rotSpeed rotAngle rotMode
     flickerSpeed flickerIntensity flickerSeed
     pulseSpeed pulseAmount pulseTarget =
    (let a0 = a\<lparr>flags := animFlags\<rparr>;
         a1 = (if animFlags AND ANIM_LINEAR \<noteq> 0 then
                 a0\<lparr>linear_params := \<lparr>lin_targetPos = mkVec4 targetX targetY targetZ 0,
                                       lin_duration = duration, lin_delay = delay,
                                       lin_mode = linearMode\<rparr>\<rparr>
               else a0);
         a2 = (if animFlags AND ANIM_ROTATE \<noteq> 0 then
                 a1\<lparr>rotation := \<lparr>rot_axis = normalizeAxis (mkVec4 rotAxisX rotAxisY rotAxisZ 0),
                                  rot_speed = rotSpeed, rot_angle = rotAngle, rot_mode = rotMode\<rparr>\<rparr>
               else a1);
         a3 = (if animFlags AND ANIM_FLICKER \<noteq> 0 then
                 a2\<lparr>flicker := \<lparr>flk_speed = flickerSpeed, flk_intensity = flickerIntensity,
                                 flk_seed = flickerSeed\<rparr>\<rparr>
               else a2)
     in if animFlags AND ANIM_PULSE \<noteq> 0 then
          a3\<lparr>pulse := \<lparr>pulse_speed = pulseSpeed, pulse_amount = pulseAmount,
                        pulse_target = pulseTarget\<rparr>\<rparr>
        else a3)"

definition spotRectAnimated :: "32 word \<Rightarrow> int \<Rightarrow> int" where
  "spotRectAnimated animFlags old =
    (if animFlags AND ANIM_LINEAR \<noteq> 0 \<or> animFlags AND ANIM_ROTATE \<noteq> 0 \<or>
        animFlags AND ANIM_FLICKER \<noteq> 0 \<or> animFlags AND ANIM_PULSE \<noteq> 0
     then 1 else old)"

definition addSpotWithAnimation ::
  "real \<Rightarrow> real \<Rightarrow> real \<Rightarrow> real \<Rightarrow> real \<Rightarrow> real \<Rightarrow> real \<Rightarrow> real \<Rightarrow> real \<Rightarrow> real \<Rightarrow>
   real \<Rightarrow> real \<Rightarrow> real \<Rightarrow> real \<Rightarrow> 32 word \<Rightarrow>
   real \<Rightarrow> real \<Rightarrow> real \<Rightarrow> real \<Rightarrow> real \<Rightarrow> 8 word \<Rightarrow>
   real \<Rightarrow> real \<Rightarrow> real \<Rightarrow> real \<Rightarrow> real \<Rightarrow> 8 word \<Rightarrow>
   real \<Rightarrow> real \<Rightarrow> real \<Rightarrow>
   real \<Rightarrow> real \<Rightarrow> 8 word \<Rightarrow>
   state \<Rightarrow> int \<times> state" where
  "addSpotWithAnimation px py pz radius r g b dx dy dz ang pen dec intensity animFlags
     targetX targetY targetZ duration delay linearMode
     rotAxisX rotAxisY rotAxisZ rotSpeed rotAngle rotMode
     flickerSpeed flickerIntensity flickerSeed
     pulseSpeed pulseAmount pulseTarget s =
    (if spotLightCount s \<ge> maxLights s then (- 1, s)
     else
       (let idx = nat (spotLightCount s);
            l0 = spotLights s ! idx;
            l1 = l0\<lparr>baseWorldPos := mkVec4 px py pz radius,
                    animOffset := mkVec4 0 0 0 0,
                    worldPos := mkVec4 px py pz radius,
                    color := mkVec4 r g b intensity,
                    direction := normalizedDir dx dy dz,
                    baseDir := normalizedDir dx dy dz,
                    decay := dec,
                    angle := ang,
                    penumbra := pen,
                    morton := computeMorton px pz,
                    dirty := DIRTY_ALL,
                    visible := 1,
                    lodLevel := LOD_FULL\<rparr>;
            l2 = l1\<lparr>anim := setupSpotRectAnim (anim l1) animFlags
                    targetX targetY targetZ duration delay linearMode
                    rotAxisX rotAxisY rotAxisZ rotSpeed rotAngle rotMode
                    flickerSpeed flickerIntensity flickerSeed
                    pulseSpeed pulseAmount pulseTarget\<rparr>;
            s1 = s\<lparr>spotLights := (spotLights s)[idx := l2],
                   hasAnimatedLights := spotRectAnimated animFlags (hasAnimatedLights s),
                   needsSort := 1,
                   hasSpotLights := 1\<rparr>
        in (spotLightCount s, s1\<lparr>spotLightCount := spotLightCount s + 1\<rparr>)))"


definition addRectWithAnimation ::
  "real \<Rightarrow> real \<Rightarrow> real \<Rightarrow> real \<Rightarrow> real \<Rightarrow> real \<Rightarrow> real \<Rightarrow> real \<Rightarrow> real \<Rightarrow> real \<Rightarrow>
   real \<Rightarrow> real \<Rightarrow> real \<Rightarrow> real \<Rightarrow> 32 word \<Rightarrow>
   real \<Rightarrow> real \<Rightarrow> real \<Rightarrow> real \<Rightarrow> real \<Rightarrow> 8 word \<Rightarrow>
   real \<Rightarrow> real \<Rightarrow> real \<Rightarrow> real \<Rightarrow> real \<Rightarrow> 8 word \<Rightarrow>
   real \<Rightarrow> real \<Rightarrow> real \<Rightarrow>
   real \<Rightarrow> real \<Rightarrow> 8 word \<Rightarrow>
   state \<Rightarrow> int \<times> state" where
  "addRectWithAnimation px py pz width height nx ny nz r g b intensity dec radius animFlags
     targetX targetY targetZ duration delay linearMode
     rotAxisX rotAxisY rotAxisZ rotSpeed rotAngle rotMode
     flickerSpeed flickerIntensity flickerSeed
     pulseSpeed pulseAmount pulseTarget s =
    (if rectLightCount s \<ge> maxLights s then (- 1, s)
     else
       (let idx = nat (rectLightCount s);
            l0 = rectLights s ! idx;
            nrm = normalizedDir nx ny nz;
            basis = buildOrthonormalBasis nrm;
            l1 = l0\<lparr>baseWorldPos := mkVec4 px py pz radius,
                    animOffset := mkVec4 0 0 0 0,
                    worldPos := mkVec4 px py pz radius,
                    color := mkVec4 r g b intensity,
                    rsize := mkVec4 width height 0 0,
                    normal := nrm,
                    baseNormal := nrm,
                    tangent := fst basis,
                    bitangent := snd basis,
                    baseTangent := fst basis,
                    baseBitangent := snd basis,
                    decay := dec,
                    morton := computeMorton px pz,
                    dirty := DIRTY_ALL,
                    visible := 1,
                    lodLevel := LOD_FULL\<rparr>;
            l2 = l1\<lparr>anim := setupSpotRectAnim (anim l1) animFlags
                    targetX targetY targetZ duration delay linearMode
                    rotAxisX rotAxisY rotAxisZ rotSpeed rotAngle rotMode
                    flickerSpeed flickerIntensity flickerSeed
                    pulseSpeed pulseAmount pulseTarget\<rparr>;
            s1 = s\<lparr>rectLights := (rectLights s)[idx := l2],
                   hasAnimatedLights := spotRectAnimated animFlags (hasAnimatedLights s),
                   needsSort := 1,
                   hasRectLights := 1\<rparr>
        in (rectLightCount s, s1\<lparr>rectLightCount := rectLightCount s + 1\<rparr>)))"

subsection \<open>Bulk light initialisation\<close>

text \<open>
  The caller's buffers are lists, read at the indices the layout gives (\<^verbatim>\<open>pi = i * 4\<close>,
  \<^verbatim>\<open>ai = i * 14\<close>, \<^verbatim>\<open>si = spotIdx * 6\<close>, \<^verbatim>\<open>ri = rectIdx * 6\<close>). A read beyond a buffer is
  undefined in C; the model means something only for buffers as long as the layout requires.
  The pointer \<^verbatim>\<open>animFlags\<close> may be null: an option.

  The initialisation of a point light is the same text in \<^verbatim>\<open>bulkAddPointLights\<close> (lines
  1498-1567) and in \<^verbatim>\<open>bulkAddLights\<close> (lines 1610-1670).
\<close>

definition bulkFlags :: "32 word list option \<Rightarrow> nat \<Rightarrow> 32 word" where
  "bulkFlags animFlags i = (case animFlags of None \<Rightarrow> ANIM_NONE | Some fl \<Rightarrow> fl ! i)"

definition bulkPointAnim :: "nat \<Rightarrow> 32 word list option \<Rightarrow> real list \<Rightarrow> AnimationParams \<Rightarrow> AnimationParams" where
  "bulkPointAnim i animFlags animParams a =
    (let a0 = a\<lparr>flags := bulkFlags animFlags i\<rparr>
     in if flags a0 \<noteq> ANIM_NONE then
          (let ai = i * 14;
               a1 = (if flags a0 AND ANIM_CIRCULAR \<noteq> 0 then
                       a0\<lparr>circular := \<lparr>circ_speed = animParams ! ai,
                                       circ_radius = animParams ! (ai + 1)\<rparr>\<rparr>
                     else a0);
               a2 = (if flags a1 AND ANIM_WAVE \<noteq> 0 then
                       a1\<lparr>wave := \<lparr>wave_axis = normalizeAxis ((wave_axis (wave a1))
                                       \<lparr>vx := animParams ! (ai + 2), vy := animParams ! (ai + 3),
                                        vz := animParams ! (ai + 4)\<rparr>),
                                    wave_speed = animParams ! (ai + 5),
                                    wave_amplitude = animParams ! (ai + 6),
                                    wave_phase = animParams ! (ai + 7)\<rparr>\<rparr>
                     else a1);
               a3 = (if flags a2 AND ANIM_FLICKER \<noteq> 0 then
                       a2\<lparr>flicker := \<lparr>flk_speed = animParams ! (ai + 8),
                                       flk_intensity = animParams ! (ai + 9),
                                       flk_seed = animParams ! (ai + 10)\<rparr>\<rparr>
                     else a2)
           in if flags a3 AND ANIM_PULSE \<noteq> 0 then
                a3\<lparr>pulse := \<lparr>pulse_speed = animParams ! (ai + 11),
                              pulse_amount = animParams ! (ai + 12),
                              pulse_target = f2u8 (animParams ! (ai + 13))\<rparr>\<rparr>
              else a3)
        else a0)"

definition bulkPointAnimated :: "32 word \<Rightarrow> int \<Rightarrow> int" where
  "bulkPointAnimated fl old =
    (if fl \<noteq> ANIM_NONE \<and>
        (fl AND ANIM_CIRCULAR \<noteq> 0 \<or> fl AND ANIM_WAVE \<noteq> 0 \<or>
         fl AND ANIM_FLICKER \<noteq> 0 \<or> fl AND ANIM_PULSE \<noteq> 0)
     then 1 else old)"

definition bulkPointLight ::
  "nat \<Rightarrow> real list \<Rightarrow> real list \<Rightarrow> real list \<Rightarrow> 32 word list option \<Rightarrow> real list \<Rightarrow>
   PointLight \<Rightarrow> PointLight" where
  "bulkPointLight i positions colors decays animFlags animParams l =
    (let pi = i * 4;
         l1 = l\<lparr>baseWorldPos := mkVec4 (positions ! pi) (positions ! (pi + 1)) (positions ! (pi + 2)) (positions ! (pi + 3)),
                animOffset := mkVec4 0 0 0 0,
                worldPos := mkVec4 (positions ! pi) (positions ! (pi + 1)) (positions ! (pi + 2)) (positions ! (pi + 3)),
                baseColor := mkVec4 (colors ! pi) (colors ! (pi + 1)) (colors ! (pi + 2)) (colors ! (pi + 3)),
                color := mkVec4 (colors ! pi) (colors ! (pi + 1)) (colors ! (pi + 2)) (colors ! (pi + 3)),
                decay := decays ! i,
                morton := computeMorton (positions ! pi) (positions ! (pi + 2)),
                dirty := DIRTY_ALL,
                visible := 1,
                lodLevel := LOD_FULL\<rparr>
     in l1\<lparr>anim := bulkPointAnim i animFlags animParams (anim l1)\<rparr>)"




text \<open>
  The animation set-up of a spot light and of a rect light in \<^verbatim>\<open>bulkAddLights\<close> (the same
  text in both branches): linear, pulse, rotation. The components \<^verbatim>\<open>w\<close> of the target and
  of the axis are not assigned, the axis is stored as given, and the flicker parameters are
  not read.
\<close>

definition bulkSpotRectAnim :: "nat \<Rightarrow> 32 word list option \<Rightarrow> real list \<Rightarrow> AnimationParams \<Rightarrow> AnimationParams" where
  "bulkSpotRectAnim i animFlags animParams a =
    (let a0 = a\<lparr>flags := bulkFlags animFlags i\<rparr>
     in if flags a0 \<noteq> ANIM_NONE then
          (let ai = i * 14;
               a1 = (if flags a0 AND ANIM_LINEAR \<noteq> 0 then
                       a0\<lparr>linear_params :=
                            \<lparr>lin_targetPos = (lin_targetPos (linear_params a0))
                               \<lparr>vx := animParams ! ai, vy := animParams ! (ai + 1),
                                vz := animParams ! (ai + 2)\<rparr>,
                             lin_duration = animParams ! (ai + 3),
                             lin_delay = animParams ! (ai + 4),
                             lin_mode = f2u8 (animParams ! (ai + 5))\<rparr>\<rparr>
                     else a0);
               a2 = (if flags a1 AND ANIM_PULSE \<noteq> 0 then
                       a1\<lparr>pulse := \<lparr>pulse_speed = animParams ! (ai + 11),
                                     pulse_amount = animParams ! (ai + 12),
                                     pulse_target = f2u8 (animParams ! (ai + 13))\<rparr>\<rparr>
                     else a1)
           in if flags a2 AND ANIM_ROTATE \<noteq> 0 then
                a2\<lparr>rotation :=
                     \<lparr>rot_axis = (rot_axis (rotation a2))
                        \<lparr>vx := animParams ! (ai + 6), vy := animParams ! (ai + 7),
                         vz := animParams ! (ai + 8)\<rparr>,
                      rot_speed = animParams ! (ai + 9),
                      rot_angle = animParams ! (ai + 10),
                      rot_mode = f2u8 (animParams ! (ai + 5))\<rparr>\<rparr>
              else a2)
        else a0)"

definition bulkSpotRectAnimated :: "32 word \<Rightarrow> int \<Rightarrow> int" where
  "bulkSpotRectAnimated fl old =
    (if fl \<noteq> ANIM_NONE \<and>
        (fl AND ANIM_LINEAR \<noteq> 0 \<or> fl AND ANIM_PULSE \<noteq> 0 \<or> fl AND ANIM_ROTATE \<noteq> 0)
     then 1 else old)"

definition bulkSpotLight ::
  "nat \<Rightarrow> nat \<Rightarrow> real list \<Rightarrow> real list \<Rightarrow> real list \<Rightarrow> 32 word list option \<Rightarrow> real list \<Rightarrow>
   real list \<Rightarrow> SpotLight \<Rightarrow> SpotLight" where
  "bulkSpotLight i spotIdx positions colors decays animFlags animParams spotParams l =
    (let pi = i * 4;
         si = spotIdx * 6;
         l1 = l\<lparr>baseWorldPos := mkVec4 (positions ! pi) (positions ! (pi + 1)) (positions ! (pi + 2)) (positions ! (pi + 3)),
                animOffset := mkVec4 0 0 0 0,
                worldPos := mkVec4 (positions ! pi) (positions ! (pi + 1)) (positions ! (pi + 2)) (positions ! (pi + 3)),
                color := mkVec4 (colors ! pi) (colors ! (pi + 1)) (colors ! (pi + 2)) (colors ! (pi + 3)),
                direction := mkVec4 (spotParams ! si) (spotParams ! (si + 1)) (spotParams ! (si + 2)) 0,
                baseDir := mkVec4 (spotParams ! si) (spotParams ! (si + 1)) (spotParams ! (si + 2)) 0,
                angle := spotParams ! (si + 3),
                penumbra := spotParams ! (si + 4),
                decay := decays ! i,
                morton := computeMorton (positions ! pi) (positions ! (pi + 2)),
                dirty := DIRTY_ALL,
                visible := 1,
                lodLevel := LOD_FULL\<rparr>
     in l1\<lparr>anim := bulkSpotRectAnim i animFlags animParams (anim l1)\<rparr>)"

definition bulkRectLight ::
  "nat \<Rightarrow> nat \<Rightarrow> real list \<Rightarrow> real list \<Rightarrow> real list \<Rightarrow> 32 word list option \<Rightarrow> real list \<Rightarrow>
   real list \<Rightarrow> RectLight \<Rightarrow> RectLight" where
  "bulkRectLight i rectIdx positions colors decays animFlags animParams rectParams l =
    (let pi = i * 4;
         ri = rectIdx * 6;
         nrm = normalizedDir (rectParams ! (ri + 2)) (rectParams ! (ri + 3)) (rectParams ! (ri + 4));
         basis = buildOrthonormalBasis nrm;
         l1 = l\<lparr>baseWorldPos := mkVec4 (positions ! pi) (positions ! (pi + 1)) (positions ! (pi + 2)) (positions ! (pi + 3)),
                animOffset := mkVec4 0 0 0 0,
                worldPos := mkVec4 (positions ! pi) (positions ! (pi + 1)) (positions ! (pi + 2)) (positions ! (pi + 3)),
                color := mkVec4 (colors ! pi) (colors ! (pi + 1)) (colors ! (pi + 2)) (colors ! (pi + 3)),
                rsize := mkVec4 (rectParams ! ri) (rectParams ! (ri + 1)) 0 0,
                normal := nrm,
                baseNormal := nrm,
                tangent := fst basis,
                bitangent := snd basis,
                baseTangent := fst basis,
                baseBitangent := snd basis,
                decay := decays ! i,
                morton := computeMorton (positions ! pi) (positions ! (pi + 2)),
                dirty := DIRTY_ALL,
                visible := 1,
                lodLevel := LOD_FULL\<rparr>
     in l1\<lparr>anim := bulkSpotRectAnim i animFlags animParams (anim l1)\<rparr>)"

text \<open>The local counters of \<^verbatim>\<open>bulkAddLights\<close>.\<close>

record bulkLocals =
  pointAdded :: int
  spotAdded :: int
  rectAdded :: int
  spotIdx :: int
  rectIdx :: int

text \<open>One iteration of the loop of \<^verbatim>\<open>bulkAddLights\<close>; \<^verbatim>\<open>continue\<close> leaves everything as it is.\<close>

definition bulkAddLightsStep ::
  "8 word list \<Rightarrow> real list \<Rightarrow> real list \<Rightarrow> real list \<Rightarrow> 32 word list option \<Rightarrow> real list \<Rightarrow>
   real list \<Rightarrow> real list \<Rightarrow> nat \<Rightarrow> state \<times> bulkLocals \<Rightarrow> state \<times> bulkLocals" where
  "bulkAddLightsStep types positions colors decays animFlags animParams spotParams rectParams i =
    (\<lambda>(s, loc).
      let type = types ! i
      in if type = 0 then
           (if pointLightCount s \<ge> maxLights s then (s, loc)
            else
              (let idx = nat (pointLightCount s)
               in (s\<lparr>pointLights := (pointLights s)
                        [idx := bulkPointLight i positions colors decays animFlags animParams (pointLights s ! idx)],
                      hasAnimatedLights := bulkPointAnimated (bulkFlags animFlags i) (hasAnimatedLights s),
                      pointLightCount := pointLightCount s + 1,
                      hasPointLights := 1\<rparr>,
                   loc\<lparr>pointAdded := pointAdded loc + 1\<rparr>)))
         else if type = 1 then
           (if spotLightCount s \<ge> maxLights s then (s, loc)
            else
              (let idx = nat (spotLightCount s)
               in (s\<lparr>spotLights := (spotLights s)
                        [idx := bulkSpotLight i (nat (spotIdx loc)) positions colors decays animFlags
                                  animParams spotParams (spotLights s ! idx)],
                      hasAnimatedLights := bulkSpotRectAnimated (bulkFlags animFlags i) (hasAnimatedLights s),
                      spotLightCount := spotLightCount s + 1,
                      hasSpotLights := 1\<rparr>,
                   loc\<lparr>spotAdded := spotAdded loc + 1, spotIdx := spotIdx loc + 1\<rparr>)))
         else if type = 2 then
           (if rectLightCount s \<ge> maxLights s then (s, loc)
            else
              (let idx = nat (rectLightCount s)
               in (s\<lparr>rectLights := (rectLights s)
                        [idx := bulkRectLight i (nat (rectIdx loc)) positions colors decays animFlags
                                  animParams rectParams (rectLights s ! idx)],
                      hasAnimatedLights := bulkSpotRectAnimated (bulkFlags animFlags i) (hasAnimatedLights s),
                      rectLightCount := rectLightCount s + 1,
                      hasRectLights := 1\<rparr>,
                   loc\<lparr>rectAdded := rectAdded loc + 1, rectIdx := rectIdx loc + 1\<rparr>)))
         else (s, loc))"

definition bulkAddLights ::
  "int \<Rightarrow> 8 word list \<Rightarrow> real list \<Rightarrow> real list \<Rightarrow> real list \<Rightarrow> 32 word list option \<Rightarrow> real list \<Rightarrow>
   real list \<Rightarrow> real list \<Rightarrow> state \<Rightarrow> int \<times> state" where
  "bulkAddLights cnt types positions colors decays animFlags animParams spotParams rectParams s =
    (case fold (bulkAddLightsStep types positions colors decays animFlags animParams spotParams rectParams)
            [0..<nat cnt]
            (s, \<lparr>pointAdded = 0, spotAdded = 0, rectAdded = 0, spotIdx = 0, rectIdx = 0\<rparr>) of
       (s1, loc) \<Rightarrow> (pointAdded loc + spotAdded loc + rectAdded loc, s1\<lparr>needsSort := 1\<rparr>))"

subsection \<open>Property updates\<close>

text \<open>
  The macros \<^verbatim>\<open>UPDATE_POSITION\<close>, \<^verbatim>\<open>UPDATE_COLOR\<close>, \<^verbatim>\<open>UPDATE_INTENSITY\<close> and \<^verbatim>\<open>UPDATE_RADIUS\<close>:
  first the assignments to \<^verbatim>\<open>array[idx]\<close>, one text for the three kinds, then the functions
  that the macros generate, with the bounds check.
\<close>

definition UPDATE_POSITION :: "real \<Rightarrow> real \<Rightarrow> real \<Rightarrow> 'a Light_scheme \<Rightarrow> 'a Light_scheme" where
  "UPDATE_POSITION px py pz l =
    l\<lparr>baseWorldPos := (baseWorldPos l)\<lparr>vx := px, vy := py, vz := pz\<rparr>,
      worldPos := (worldPos l)\<lparr>vx := px, vy := py, vz := pz\<rparr>,
      morton := computeMorton px pz,
      dirty := dirty l OR DIRTY_POSITION\<rparr>"

definition UPDATE_COLOR :: "real \<Rightarrow> real \<Rightarrow> real \<Rightarrow> 'a Light_scheme \<Rightarrow> 'a Light_scheme" where
  "UPDATE_COLOR r g b l =
    l\<lparr>color := (color l)\<lparr>vx := r, vy := g, vz := b\<rparr>, dirty := dirty l OR DIRTY_COLOR\<rparr>"

definition UPDATE_INTENSITY :: "real \<Rightarrow> 'a Light_scheme \<Rightarrow> 'a Light_scheme" where
  "UPDATE_INTENSITY intensity l =
    l\<lparr>color := (color l)\<lparr>vw := intensity\<rparr>, dirty := dirty l OR DIRTY_COLOR\<rparr>"

definition UPDATE_RADIUS :: "real \<Rightarrow> 'a Light_scheme \<Rightarrow> 'a Light_scheme" where
  "UPDATE_RADIUS radius l =
    l\<lparr>baseWorldPos := (baseWorldPos l)\<lparr>vw := radius\<rparr>,
      worldPos := (worldPos l)\<lparr>vw := radius\<rparr>,
      dirty := dirty l OR DIRTY_POSITION\<rparr>"

definition updatePointLightPosition :: "int \<Rightarrow> real \<Rightarrow> real \<Rightarrow> real \<Rightarrow> state \<Rightarrow> state" where
  "updatePointLightPosition idx px py pz s =
    (if idx \<ge> 0 \<and> idx < pointLightCount s then
       s\<lparr>pointLights := (pointLights s)[nat idx := UPDATE_POSITION px py pz (pointLights s ! nat idx)],
         needsSort := 1\<rparr>
     else s)"

definition updateSpotLightPosition :: "int \<Rightarrow> real \<Rightarrow> real \<Rightarrow> real \<Rightarrow> state \<Rightarrow> state" where
  "updateSpotLightPosition idx px py pz s =
    (if idx \<ge> 0 \<and> idx < spotLightCount s then
       s\<lparr>spotLights := (spotLights s)[nat idx := UPDATE_POSITION px py pz (spotLights s ! nat idx)],
         needsSort := 1\<rparr>
     else s)"

definition updateRectLightPosition :: "int \<Rightarrow> real \<Rightarrow> real \<Rightarrow> real \<Rightarrow> state \<Rightarrow> state" where
  "updateRectLightPosition idx px py pz s =
    (if idx \<ge> 0 \<and> idx < rectLightCount s then
       s\<lparr>rectLights := (rectLights s)[nat idx := UPDATE_POSITION px py pz (rectLights s ! nat idx)],
         needsSort := 1\<rparr>
     else s)"

definition updatePointLightColor :: "int \<Rightarrow> real \<Rightarrow> real \<Rightarrow> real \<Rightarrow> state \<Rightarrow> state" where
  "updatePointLightColor idx r g b s =
    (if idx \<ge> 0 \<and> idx < pointLightCount s then
       s\<lparr>pointLights := (pointLights s)[nat idx := UPDATE_COLOR r g b (pointLights s ! nat idx)]\<rparr>
     else s)"

definition updatePointLightIntensity :: "int \<Rightarrow> real \<Rightarrow> state \<Rightarrow> state" where
  "updatePointLightIntensity idx intensity s =
    (if idx \<ge> 0 \<and> idx < pointLightCount s then
       s\<lparr>pointLights := (pointLights s)[nat idx := UPDATE_INTENSITY intensity (pointLights s ! nat idx)]\<rparr>
     else s)"

definition updatePointLightRadius :: "int \<Rightarrow> real \<Rightarrow> state \<Rightarrow> state" where
  "updatePointLightRadius idx radius s =
    (if idx \<ge> 0 \<and> idx < pointLightCount s then
       s\<lparr>pointLights := (pointLights s)[nat idx := UPDATE_RADIUS radius (pointLights s ! nat idx)]\<rparr>
     else s)"

definition updateSpotLightRadius :: "int \<Rightarrow> real \<Rightarrow> state \<Rightarrow> state" where
  "updateSpotLightRadius idx radius s =
    (if idx \<ge> 0 \<and> idx < spotLightCount s then
       s\<lparr>spotLights := (spotLights s)[nat idx := UPDATE_RADIUS radius (spotLights s ! nat idx)]\<rparr>
     else s)"

definition updateRectLightRadius :: "int \<Rightarrow> real \<Rightarrow> state \<Rightarrow> state" where
  "updateRectLightRadius idx radius s =
    (if idx \<ge> 0 \<and> idx < rectLightCount s then
       s\<lparr>rectLights := (rectLights s)[nat idx := UPDATE_RADIUS radius (rectLights s ! nat idx)]\<rparr>
     else s)"





subsection \<open>Generic radix sort\<close>

text \<open>
  \<^verbatim>\<open>RADIX_SORT_IMPL(TYPE, src_array, dst_array, count)\<close>. The macro is one text for the
  three light types and reads only the \<^verbatim>\<open>morton\<close> field; the model takes the key
  function as a parameter. \<open>radix_digit shift m\<close> is \<^verbatim>\<open>(m >> shift) & 0xFFu\<close>.
\<close>

definition radix_digit :: "nat \<Rightarrow> 32 word \<Rightarrow> nat" where
  "radix_digit shift m = unat (drop_bit shift m AND 0xFF)"

text \<open>\<^verbatim>\<open>memset(hist, 0, sizeof(hist)); for (i < count) hist[digit(src[i])]++;\<close>\<close>

definition radix_count :: "('a \<Rightarrow> 32 word) \<Rightarrow> nat \<Rightarrow> 'a list \<Rightarrow> nat \<Rightarrow> nat list" where
  "radix_count key shift src n =
    fold (\<lambda>i hist. hist[radix_digit shift (key (src ! i)) :=
                        hist ! radix_digit shift (key (src ! i)) + 1])
      [0..<n] (replicate 256 0)"

text \<open>\<^verbatim>\<open>sum = 0; for (i < R) { c = hist[i]; hist[i] = sum; sum += c; }\<close>\<close>

definition radix_prefix :: "nat list \<Rightarrow> nat list" where
  "radix_prefix hist0 =
    fst (fold (\<lambda>i (hist, sum). (hist[i := sum], sum + hist ! i)) [0..<256] (hist0, 0))"

text \<open>\<^verbatim>\<open>for (i < count) { b = digit(src[i]); dst[hist[b]++] = src[i]; }\<close>\<close>

definition radix_scatter ::
  "('a \<Rightarrow> 32 word) \<Rightarrow> nat \<Rightarrow> 'a list \<Rightarrow> nat \<Rightarrow> nat list \<Rightarrow> 'a list \<Rightarrow> 'a list" where
  "radix_scatter key shift src n hist0 dst0 =
    snd (fold (\<lambda>i (hist, dst).
                 let b = radix_digit shift (key (src ! i))
                 in (hist[b := hist ! b + 1], dst[hist ! b := src ! i]))
          [0..<n] (hist0, dst0))"

text \<open>
  One pass of the outer loop. The two buffers are the memory of \<^verbatim>\<open>src_array\<close> (first
  component) and of \<^verbatim>\<open>dst_array\<close> (second component); the flag tells whether the pointer
  \<^verbatim>\<open>src\<close> currently is \<^verbatim>\<open>src_array\<close>. The pass ends with the pointer swap.
\<close>

definition radix_pass ::
  "('a \<Rightarrow> 32 word) \<Rightarrow> nat \<Rightarrow> nat \<Rightarrow> 'a list \<times> 'a list \<times> bool \<Rightarrow> 'a list \<times> 'a list \<times> bool" where
  "radix_pass key n pass = (\<lambda>(A, B, src_is_A).
    let shift = 8 * pass;
        src = (if src_is_A then A else B);
        dst = (if src_is_A then B else A);
        hist = radix_prefix (radix_count key shift src n);
        dst' = radix_scatter key shift src n hist dst
    in if src_is_A then (A, dst', False) else (dst', B, True))"

text \<open>
  Four passes, then \<^verbatim>\<open>if (src != src_array) memcpy(src_array, src, count * sizeof(TYPE))\<close>.
  The result is the pair of the two buffers.
\<close>

definition RADIX_SORT_IMPL ::
  "('a \<Rightarrow> 32 word) \<Rightarrow> 'a list \<Rightarrow> 'a list \<Rightarrow> nat \<Rightarrow> 'a list \<times> 'a list" where
  "RADIX_SORT_IMPL key src_array dst_array n =
    (case fold (radix_pass key n) [0..<4] (src_array, dst_array, True) of
       (A, B, src_is_A) \<Rightarrow>
         if \<not> src_is_A then (take n B @ drop n A, B) else (A, B))"

definition radixSortPointLights :: "int \<Rightarrow> 'a state_scheme \<Rightarrow> 'a state_scheme" where
  "radixSortPointLights n s =
    (case RADIX_SORT_IMPL morton (pointLights s) (pointLightsScratch s) (nat n) of
       (A, B) \<Rightarrow> s\<lparr>pointLights := A, pointLightsScratch := B\<rparr>)"

definition radixSortSpotLights :: "int \<Rightarrow> 'a state_scheme \<Rightarrow> 'a state_scheme" where
  "radixSortSpotLights n s =
    (case RADIX_SORT_IMPL morton (spotLights s) (spotLightsScratch s) (nat n) of
       (A, B) \<Rightarrow> s\<lparr>spotLights := A, spotLightsScratch := B\<rparr>)"

definition radixSortRectLights :: "int \<Rightarrow> 'a state_scheme \<Rightarrow> 'a state_scheme" where
  "radixSortRectLights n s =
    (case RADIX_SORT_IMPL morton (rectLights s) (rectLightsScratch s) (nat n) of
       (A, B) \<Rightarrow> s\<lparr>rectLights := A, rectLightsScratch := B\<rparr>)"

definition sortLights :: "state \<Rightarrow> state" where
  "sortLights s =
    (if needsSort s \<noteq> 0 then
       let s1 = (if pointLightCount s > 1 then radixSortPointLights (pointLightCount s) s else s);
           s2 = (if spotLightCount s1 > 1 then radixSortSpotLights (spotLightCount s1) s1 else s1);
           s3 = (if rectLightCount s2 > 1 then radixSortRectLights (rectLightCount s2) s2 else s2)
       in s3\<lparr>needsSort := 0\<rparr>
     else s)"

text \<open>
  What \<^verbatim>\<open>sort\<close> has to establish for one array with \<open>n\<close> live lights: the live part is in
  non-decreasing key order, it is a permutation of what it was, lights with equal keys keep
  their relative order, the slots beyond the live part are untouched, and an array whose
  live part was in order already is left as it was.
\<close>

definition radixSorted :: "('a \<Rightarrow> 32 word) \<Rightarrow> nat \<Rightarrow> 'a list \<Rightarrow> 'a list \<Rightarrow> bool" where
  "radixSorted key n before after \<longleftrightarrow>
     sorted (map key (take n after)) \<and>
     mset (take n after) = mset (take n before) \<and>
     (\<forall>k. filter (\<lambda>l. key l = k) (take n after) = filter (\<lambda>l. key l = k) (take n before)) \<and>
     drop n after = drop n before \<and>
     (sorted (map key (take n before)) \<longrightarrow> after = before)"

subsection \<open>A state to run the functions on\<close>

text \<open>
  \<^verbatim>\<open>init(cap)\<close> allocates the arrays and leaves their content to the allocator;
  \<open>initState cap\<close> is the state after \<^verbatim>\<open>init(cap)\<close> when the memory happens to be zero, with the
  identity as camera matrix. The initial values of \<^verbatim>\<open>viewNear\<close>, \<^verbatim>\<open>viewFar\<close> and \<^verbatim>\<open>lodBias\<close> are
  those of their declarations.
\<close>

definition zeroVec4 :: Vec4 where
  "zeroVec4 = mkVec4 0 0 0 0"

definition zeroAnim :: AnimationParams where
  "zeroAnim =
    \<lparr>flags = 0,
     circular = \<lparr>circ_speed = 0, circ_radius = 0\<rparr>,
     linear_params = \<lparr>lin_targetPos = zeroVec4, lin_duration = 0, lin_delay = 0, lin_mode = 0\<rparr>,
     wave = \<lparr>wave_axis = zeroVec4, wave_speed = 0, wave_amplitude = 0, wave_phase = 0\<rparr>,
     flicker = \<lparr>flk_speed = 0, flk_intensity = 0, flk_seed = 0\<rparr>,
     pulse = \<lparr>pulse_speed = 0, pulse_amount = 0, pulse_target = 0\<rparr>,
     rotation = \<lparr>rot_axis = zeroVec4, rot_speed = 0, rot_angle = 0, rot_mode = 0\<rparr>\<rparr>"

definition zeroPoint :: PointLight where
  "zeroPoint =
    \<lparr>baseWorldPos = zeroVec4, animOffset = zeroVec4, worldPos = zeroVec4, color = zeroVec4,
     viewPos = zeroVec4, anim = zeroAnim, decay = 0, morton = 0, dirty = 0, visible = 0,
     lodLevel = 0, castsShadow = 0, shadowIntensity = 0, baseColor = zeroVec4\<rparr>"

definition zeroSpot :: SpotLight where
  "zeroSpot =
    \<lparr>baseWorldPos = zeroVec4, animOffset = zeroVec4, worldPos = zeroVec4, color = zeroVec4,
     viewPos = zeroVec4, anim = zeroAnim, decay = 0, morton = 0, dirty = 0, visible = 0,
     lodLevel = 0, castsShadow = 0, shadowIntensity = 0,
     direction = zeroVec4, viewDir = zeroVec4, baseDir = zeroVec4, angle = 0, penumbra = 0\<rparr>"

definition zeroRect :: RectLight where
  "zeroRect =
    \<lparr>baseWorldPos = zeroVec4, animOffset = zeroVec4, worldPos = zeroVec4, color = zeroVec4,
     viewPos = zeroVec4, anim = zeroAnim, decay = 0, morton = 0, dirty = 0, visible = 0,
     lodLevel = 0, castsShadow = 0, shadowIntensity = 0,
     rsize = zeroVec4, normal = zeroVec4, tangent = zeroVec4, bitangent = zeroVec4,
     viewNormal = zeroVec4, viewTangent = zeroVec4, baseNormal = zeroVec4,
     baseTangent = zeroVec4, baseBitangent = zeroVec4\<rparr>"

definition initState :: "nat \<Rightarrow> state" where
  "initState cap =
    \<lparr>pointLights = replicate cap zeroPoint,
     spotLights = replicate cap zeroSpot,
     rectLights = replicate cap zeroRect,
     pointLightsScratch = replicate cap zeroPoint,
     spotLightsScratch = replicate cap zeroSpot,
     rectLightsScratch = replicate cap zeroRect,
     pointLightTexture = replicate cap \<lparr>p_positionRadius = zeroVec4, p_colorDecayVisible = zeroVec4\<rparr>,
     spotLightTexture = replicate cap
       \<lparr>s_positionRadius = zeroVec4, s_colorIntensity = zeroVec4, s_direction = zeroVec4,
        s_angleParams = zeroVec4\<rparr>,
     rectLightTexture = replicate cap
       \<lparr>r_positionRadius = zeroVec4, r_colorIntensity = zeroVec4, r_sizeParams = zeroVec4,
        r_normal = zeroVec4, r_tangent = zeroVec4\<rparr>,
     cameraMatrix = [1, 0, 0, 0, 0, 1, 0, 0, 0, 0, 1, 0, 0, 0, 0, 1],
     pointLightCount = 0, spotLightCount = 0, rectLightCount = 0,
     maxLights = int cap,
     hasAnimatedLights = 0, needsSort = 0,
     hasPointLights = 0, hasSpotLights = 0, hasRectLights = 0,
     e0 = 0, e1 = 0, e2 = 0, e4 = 0, e5 = 0, e6 = 0, e8 = 0, e9 = 0, e10 = 0,
     e12 = 0, e13 = 0, e14 = 0,
     viewNear = 0.1, viewFar = 1000, lodBias = 1\<rparr>"

text \<open>Three point lights at \<open>x = 3, 1, 2\<close> (keys 5, 1, 4), and three at \<open>x = 1, 2, 3\<close>.\<close>

definition unsortedPoints :: state where
  "unsortedPoints =
    snd (add 2 0 0 5 1 1 1 2 0 0 1
      (snd (add 1 0 0 5 1 1 1 2 0 0 1
        (snd (add 3 0 0 5 1 1 1 2 0 0 1 (initState 4))))))"

definition sortedPoints :: state where
  "sortedPoints =
    snd (add 3 0 0 5 1 1 1 2 0 0 1
      (snd (add 2 0 0 5 1 1 1 2 0 0 1
        (snd (add 1 0 0 5 1 1 1 2 0 0 1 (initState 4))))))"

text \<open>
  One point light at \<open>z = 4.9\<close> with radius 5: under the identity camera its view-space
  \<open>z\<close> is \<open>radius - near\<close> for the initial \<open>near = 0.1\<close>.
\<close>

definition nearBoundaryPoint :: state where
  "nearBoundaryPoint = snd (add 0 0 4.9 5 1 1 1 2 0 0 1 (initState 1))"

text \<open>
  One point light with Flicker and Pulse (flags \<open>0x18\<close>), pulse target intensity, authored
  intensity 1; flicker speed 0, flicker intensity 1, seed 0.25; pulse speed 1, amount 1.
\<close>

definition flickerPulsePoint :: state where
  "flickerPulsePoint =
    snd (addPointWithAnimation 0 0 0 5 1 1 1 1 2 0x18
           0 0
           0 0 0 0 0 0
           0 0 0 0 0 0
           0 1 0.25
           1 1 1 (initState 1))"

text \<open>One spot light with Pulse (flags \<open>0x10\<close>) on its intensity: speed 1, amount 1.\<close>

definition pulsingSpot :: state where
  "pulsingSpot =
    snd (addSpotWithAnimation 0 0 0 5 1 1 1 0 0 (- 1) 0.5 0.1 2 1 0x10
           0 0 0 0 0 0
           0 0 0 0 0 0
           0 0 0
           1 1 1 (initState 1))"

text \<open>
  One point light with Linear and Wave (flags \<open>0x06\<close>): target \<open>(10, 0, 0)\<close>, duration 2,
  delay 0, mode Once; wave along \<open>x\<close> with speed 0, amplitude 1, phase 1. And the same light
  with Linear alone (flags \<open>0x02\<close>), a spot light and a rect light with Linear alone.
\<close>

definition linearWavePoint :: state where
  "linearWavePoint =
    snd (addPointWithAnimation 0 0 0 5 1 1 1 1 2 0x06
           0 0
           10 0 0 2 0 0
           1 0 0 0 1 1
           0 0 0
           0 0 0 (initState 1))"

definition linearPoint :: state where
  "linearPoint =
    snd (addPointWithAnimation 0 0 0 5 1 1 1 1 2 0x02
           0 0
           10 0 0 2 0 0
           0 0 0 0 0 0
           0 0 0
           0 0 0 (initState 1))"

definition linearSpot :: state where
  "linearSpot =
    snd (addSpotWithAnimation 0 0 0 5 1 1 1 0 0 (- 1) 0.5 0.1 2 1 0x02
           10 0 0 2 0 0
           0 0 0 0 0 0
           0 0 0
           0 0 0 (initState 1))"

definition linearRect :: state where
  "linearRect =
    snd (addRectWithAnimation 0 0 0 2 1 0 0 1 1 1 1 1 2 5 0x02
           10 0 0 2 0 1
           0 0 0 0 0 0
           0 0 0
           0 0 0 (initState 1))"

text \<open>
  The endpoints of a Linear animation, for a light \<open>l\<close> and its animation function \<open>f\<close>
  (\<open>f t\<close> is the light after the evaluation at time \<open>t\<close>): no offset at \<open>time = delay\<close>; with
  mode Once the offset \<open>target - base\<close> at \<open>time = delay + duration\<close>; with mode Loop the
  same offset at \<open>time = delay + duration\<close> as at \<open>time = delay\<close>.
\<close>

definition linearEndpoints :: "'a Light_scheme \<Rightarrow> (real \<Rightarrow> 'a Light_scheme) \<Rightarrow> bool" where
  "linearEndpoints l f \<longleftrightarrow>
    (let lp = linear_params (anim l); d = lin_delay lp; T = lin_duration lp
     in animOffset (f d) = mkVec4 0 0 0 0 \<and>
        (lin_mode lp = LINEAR_ONCE \<longrightarrow>
           animOffset (f (d + T)) =
             mkVec4 (vx (lin_targetPos lp) - vx (baseWorldPos l))
                    (vy (lin_targetPos lp) - vy (baseWorldPos l))
                    (vz (lin_targetPos lp) - vz (baseWorldPos l)) 0) \<and>
        (lin_mode lp = LINEAR_LOOP \<longrightarrow> animOffset (f (d + T)) = animOffset (f d)))"

text \<open>The lights of these states, at index 0.\<close>

definition flickerPulseLight :: PointLight where
  "flickerPulseLight = pointLights flickerPulsePoint ! 0"

definition pulsingSpotLight :: SpotLight where
  "pulsingSpotLight = spotLights pulsingSpot ! 0"

definition linearWaveLight :: PointLight where
  "linearWaveLight = pointLights linearWavePoint ! 0"

definition linearPointLight :: PointLight where
  "linearPointLight = pointLights linearPoint ! 0"

definition linearSpotLight :: SpotLight where
  "linearSpotLight = spotLights linearSpot ! 0"

definition linearRectLight :: RectLight where
  "linearRectLight = rectLights linearRect ! 0"

text \<open>
  The authored position with radius and the morton key of a light, and these two fields of
  every slot of the three arrays.
\<close>

definition staticFields :: "'a Light_scheme \<Rightarrow> Vec4 \<times> 32 word" where
  "staticFields l = (baseWorldPos l, morton l)"

definition staticView ::
  "state \<Rightarrow> (Vec4 \<times> 32 word) list \<times> (Vec4 \<times> 32 word) list \<times> (Vec4 \<times> 32 word) list" where
  "staticView s =
    (map staticFields (pointLights s), map staticFields (spotLights s), map staticFields (rectLights s))"

text \<open>
  The output record at index \<open>i\<close> is the record packed from the light at index \<open>i\<close> as it
  stands: view position with radius, colour, and the packed float built from the decay, the
  visible flag, the culling test on the light's view position, and the level of detail.
\<close>

definition pointRecordWritten :: "state \<Rightarrow> nat \<Rightarrow> bool" where
  "pointRecordWritten s i \<longleftrightarrow>
     pointLightTexture s ! i = pointTexel (pointLights s ! i) (culledFlag s (pointLights s ! i))"

definition spotRecordWritten :: "state \<Rightarrow> nat \<Rightarrow> bool" where
  "spotRecordWritten s i \<longleftrightarrow>
     spotLightTexture s ! i = spotTexel (spotLights s ! i) (culledFlag s (spotLights s ! i))"

definition rectRecordWritten :: "state \<Rightarrow> nat \<Rightarrow> bool" where
  "rectRecordWritten s i \<longleftrightarrow>
     rectLightTexture s ! i = rectTexel (rectLights s ! i) (culledFlag s (rectLights s ! i))"


text \<open>The number of entries of the given type among the first \<open>cnt\<close> entries of a batch.\<close>

definition batchCount :: "8 word list \<Rightarrow> 8 word \<Rightarrow> nat \<Rightarrow> nat" where
  "batchCount types ty cnt = length (filter (\<lambda>i. types ! i = ty) [0..<cnt])"


text \<open>
  One spot light with direction \<open>(0, 0, 2)\<close>, ingested by \<^verbatim>\<open>bulkAddLights\<close>, created by
  \<^verbatim>\<open>addSpot\<close>, and created by \<^verbatim>\<open>addSpotWithAnimation\<close> without animation, from the same
  parameters.
\<close>

definition bulkSpotStore :: state where
  "bulkSpotStore =
    snd (bulkAddLights 1 [1] [0, 0, 0, 5] [1, 1, 1, 1] [2] None [] [0, 0, 2, 0.5, 0.1, 0] []
           (initState 1))"

definition singleSpotStore :: state where
  "singleSpotStore = snd (addSpot 0 0 0 5 1 1 1 0 0 2 0.5 0.1 2 1 (initState 1))"

definition singleSpotAnimStore :: state where
  "singleSpotAnimStore =
    snd (addSpotWithAnimation 0 0 0 5 1 1 1 0 0 2 0.5 0.1 2 1 0
           0 0 0 0 0 0
           0 0 0 0 0 0
           0 0 0
           0 0 0 (initState 1))"

text \<open>
  Four point lights at \<open>(0, 0, -10)\<close> with radius 5, white, intensity 1, decay 2: the first
  with a circular animation, the others without; then the colour of the second is set to
  \<open>(0.5, 0.5, 0.5)\<close> by \<^verbatim>\<open>updatePointLightColor\<close>.
\<close>

definition mixedBatch :: state where
  "mixedBatch =
    updatePointLightColor 1 0.5 0.5 0.5
      (snd (add 0 0 (- 10) 5 1 1 1 2 0 0 1
        (snd (add 0 0 (- 10) 5 1 1 1 2 0 0 1
          (snd (add 0 0 (- 10) 5 1 1 1 2 0 0 1
            (snd (add 0 0 (- 10) 5 1 1 1 2 1 1 1 (initState 4)))))))))"

subsection \<open>What a frame writes\<close>

text \<open>
  What the per-light steps of \<^verbatim>\<open>update\<close> read of the globals: the cached view matrix
  elements, the level-of-detail bias and the two frustum distances.
\<close>

definition viewGlobals ::
  "'a state_scheme \<Rightarrow> (real \<times> real \<times> real) \<times> (real \<times> real \<times> real) \<times> (real \<times> real \<times> real) \<times>
     (real \<times> real \<times> real) \<times> real \<times> real \<times> real" where
  "viewGlobals s =
    ((e0 s, e1 s, e2 s), (e4 s, e5 s, e6 s), (e8 s, e9 s, e10 s), (e12 s, e13 s, e14 s),
     lodBias s, viewNear s, viewFar s)"

text \<open>
  The view-space position of a world position under the camera matrix \<open>m\<close> (sixteen floats,
  column by column), with the radius carried along; and the view-space direction of a world
  direction: the rotation part of \<open>m\<close> applied, then the vector normalised when its length is
  positive. The fourth component of a direction is the one the slot held.
\<close>

definition viewSpace :: "real list \<Rightarrow> Vec4 \<Rightarrow> Vec4" where
  "viewSpace m p =
    \<lparr>vx = m ! 0 * vx p + m ! 4 * vy p + m ! 8 * vz p + m ! 12,
     vy = m ! 1 * vx p + m ! 5 * vy p + m ! 9 * vz p + m ! 13,
     vz = m ! 2 * vx p + m ! 6 * vy p + m ! 10 * vz p + m ! 14,
     vw = vw p\<rparr>"

definition viewDirection :: "real list \<Rightarrow> Vec4 \<Rightarrow> Vec4 \<Rightarrow> Vec4" where
  "viewDirection m d old =
    (let ox = m ! 0 * vx d + m ! 4 * vy d + m ! 8 * vz d;
         oy = m ! 1 * vx d + m ! 5 * vy d + m ! 9 * vz d;
         oz = m ! 2 * vx d + m ! 6 * vy d + m ! 10 * vz d;
         len = sqrt (ox * ox + oy * oy + oz * oz)
     in if len > 0 then \<lparr>vx = ox / len, vy = oy / len, vz = oz / len, vw = vw old\<rparr>
        else \<lparr>vx = ox, vy = oy, vz = oz, vw = vw old\<rparr>)"

text \<open>
  The light at index \<open>i\<close> as \<^verbatim>\<open>update(time)\<close> animates it, before the transform. A spot or
  rect light, and a point light in the scalar loops: the animation function when the light
  has an animation flag, the authored position otherwise. A point light in the four-wide
  loop (\<open>simd\<close>, and the four lights \<open>4 * (i div 4)\<close> to \<open>4 * (i div 4) + 3\<close> all live): the
  animation function when one of the four has an animation flag.
\<close>

definition batchFlags :: "state \<Rightarrow> nat \<Rightarrow> 32 word" where
  "batchFlags s i =
    (let b = 4 * (i div 4)
     in flags (anim (pointLights s ! b)) OR flags (anim (pointLights s ! (b + 1))) OR
        flags (anim (pointLights s ! (b + 2))) OR flags (anim (pointLights s ! (b + 3))))"

definition inBatch :: "state \<Rightarrow> nat \<Rightarrow> bool" where
  "inBatch s i \<longleftrightarrow> 4 * (i div 4) + 3 < nat (pointLightCount s)"

definition framePoint :: "bool \<Rightarrow> real \<Rightarrow> state \<Rightarrow> nat \<Rightarrow> PointLight" where
  "framePoint simd time s i =
    (if simd \<and> inBatch s i \<and> batchFlags s i \<noteq> ANIM_NONE
     then processPointLightAnimation (pointLights s ! i) time
     else pointAnimated (pointLights s ! i) time)"

definition frameSpot :: "real \<Rightarrow> state \<Rightarrow> nat \<Rightarrow> SpotLight" where
  "frameSpot time s i =
    (if flags (anim (spotLights s ! i)) \<noteq> ANIM_NONE
     then processSpotLightAnimation (spotLights s ! i) time
     else (spotLights s ! i)\<lparr>worldPos := baseWorldPos (spotLights s ! i)\<rparr>)"

definition frameRect :: "real \<Rightarrow> state \<Rightarrow> nat \<Rightarrow> RectLight" where
  "frameRect time s i =
    (if flags (anim (rectLights s ! i)) \<noteq> ANIM_NONE
     then processRectLightAnimation (rectLights s ! i) time
     else (rectLights s ! i)\<lparr>worldPos := baseWorldPos (rectLights s ! i)\<rparr>)"




section \<open>Proofs\<close>

lemmas anim_consts =
  ANIM_NONE_def ANIM_CIRCULAR_def ANIM_LINEAR_def ANIM_WAVE_def ANIM_FLICKER_def
  ANIM_PULSE_def ANIM_ROTATE_def LINEAR_ONCE_def LINEAR_LOOP_def LINEAR_PINGPONG_def
  PULSE_INTENSITY_def PULSE_RADIUS_def ROTATE_CONTINUOUS_def ROTATE_SWING_def

subsection \<open>The radix sort\<close>

text \<open>The loops over \<open>i < count\<close> read \<open>src[i]\<close>: they are folds over the live part.\<close>

lemma fold_nth_upt:
  "n \<le> length src \<Longrightarrow> fold (\<lambda>i. g (src ! i)) [0..<n] = fold g (take n src)"
proof -
  assume "n \<le> length src"
  then have "map ((!) src) [0..<n] = take n src"
    by (simp add: list_eq_iff_nth_eq)
  then have "fold g (take n src) = fold g (map ((!) src) [0..<n])" by simp
  also have "\<dots> = fold (g \<circ> (!) src) [0..<n]" by (simp add: fold_map)
  finally show ?thesis by (simp add: comp_def)
qed

lemma count_fold_length:
  "length (fold (\<lambda>x h. h[d x := h ! d x + 1]) xs h) = length h"
  by (induction xs arbitrary: h) auto

lemma count_fold_nth:
  "b < length h \<Longrightarrow>
   fold (\<lambda>x h. h[d x := h ! d x + 1]) xs h ! b = h ! b + length (filter (\<lambda>x. d x = b) xs)"
proof (induction xs arbitrary: h)
  case Nil
  then show ?case by simp
next
  case (Cons a xs)
  let ?h = "h[d a := h ! d a + 1]"
  have "fold (\<lambda>x h. h[d x := h ! d x + 1]) xs ?h ! b = ?h ! b + length (filter (\<lambda>x. d x = b) xs)"
    using Cons.prems by (intro Cons.IH) simp
  then show ?case using Cons.prems by (auto simp: nth_list_update)
qed

lemma prefix_fold:
  "k \<le> length h0 \<Longrightarrow>
   fold (\<lambda>i (hist, sum). (hist[i := sum], sum + hist ! i)) [0..<k] (h0, 0::nat) = (h, sm) \<Longrightarrow>
   length h = length h0 \<and> sm = (\<Sum>l<k. h0 ! l) \<and>
   (\<forall>j<k. h ! j = (\<Sum>l<j. h0 ! l)) \<and> (\<forall>j\<ge>k. j < length h0 \<longrightarrow> h ! j = h0 ! j)"
proof (induction k arbitrary: h sm)
  case 0
  then show ?case by simp
next
  case (Suc k)
  obtain h1 s1 where f: "fold (\<lambda>i (hist, sum). (hist[i := sum], sum + hist ! i)) [0..<k] (h0, 0::nat) = (h1, s1)"
    by (cases "fold (\<lambda>i (hist, sum). (hist[i := sum], sum + hist ! i)) [0..<k] (h0, 0::nat)")
  have ih: "length h1 = length h0 \<and> s1 = (\<Sum>l<k. h0 ! l) \<and>
   (\<forall>j<k. h1 ! j = (\<Sum>l<j. h0 ! l)) \<and> (\<forall>j\<ge>k. j < length h0 \<longrightarrow> h1 ! j = h0 ! j)"
    using Suc.IH[OF _ f] Suc.prems(1) by simp
  have hs: "h = h1[k := s1]" "sm = s1 + h1 ! k"
    using Suc.prems(2) f by auto
  show ?case using ih Suc.prems(1) unfolding hs
    by (auto simp: nth_list_update less_Suc_eq)
qed

lemma sum_bucket_lengths:
  "(\<Sum>l<k. length (filter (\<lambda>x. d x = l) xs)) = length (filter (\<lambda>x. d x < (k::nat)) xs)"
proof (induction k)
  case 0
  then show ?case by simp
next
  case (Suc k)
  have "length (filter (\<lambda>x. d x < Suc k) xs) =
        length (filter (\<lambda>x. d x < k) xs) + length (filter (\<lambda>x. d x = k) xs)"
    by (induction xs) (auto simp: less_Suc_eq)
  with Suc show ?case by simp
qed

lemma scatter_fold:
  fixes d :: "'a \<Rightarrow> nat"
  assumes "\<forall>x\<in>set (ys @ zs). d x < length h"
    and "\<forall>b<length h. h ! b = st b + length (filter (\<lambda>x. d x = b) ys)"
    and "\<forall>b<length h. \<forall>j<length (filter (\<lambda>x. d x = b) ys). dst ! (st b + j) = filter (\<lambda>x. d x = b) ys ! j"
    and "\<forall>b. st (Suc b) = st b + length (filter (\<lambda>x. d x = b) (ys @ zs))"
    and "\<forall>b<length h. st b + length (filter (\<lambda>x. d x = b) (ys @ zs)) \<le> length dst"
    and "fold (\<lambda>x (hist, dst). let b = d x in (hist[b := hist ! b + 1], dst[hist ! b := x])) zs (h, dst) = (h', dst')"
  shows "length dst' = length dst \<and>
    (\<forall>b<length h. \<forall>j<length (filter (\<lambda>x. d x = b) (ys @ zs)).
        dst' ! (st b + j) = filter (\<lambda>x. d x = b) (ys @ zs) ! j) \<and>
    (\<forall>p. (\<forall>b<length h. \<forall>j<length (filter (\<lambda>x. d x = b) (ys @ zs)). p \<noteq> st b + j) \<longrightarrow> dst' ! p = dst ! p)"
  using assms
proof (induction zs arbitrary: ys h dst)
  case Nil
  then show ?case by simp
next
  case (Cons z zs)
  let ?b = "d z"
  let ?c = "\<lambda>b l. length (filter (\<lambda>x. d x = b) l)"
  let ?h1 = "h[?b := h ! ?b + 1]"
  let ?d1 = "dst[h ! ?b := z]"
  have bz: "?b < length h" using Cons.prems(1) by simp
  have mono: "st a \<le> st b" if "a \<le> b" for a b
    using that
  proof (induction b)
    case 0 then show ?case by simp
  next
    case (Suc b)
    then show ?case using Cons.prems(4) by (cases "a = Suc b") (auto simp: le_Suc_eq)
  qed
  have wpos: "h ! ?b = st ?b + ?c ?b ys" using Cons.prems(2) bz by simp
  have cz: "?c ?b ys < ?c ?b (ys @ z # zs)" by simp
  have wlt: "h ! ?b < length dst"
    using Cons.prems(5) bz wpos cz by (metis add_less_cancel_left less_le_trans)
  have ys1: "(ys @ [z]) @ zs = ys @ z # zs" by simp
  have p1: "\<forall>x\<in>set ((ys @ [z]) @ zs). d x < length ?h1" using Cons.prems(1) by simp
  have p2: "\<forall>b<length ?h1. ?h1 ! b = st b + ?c b (ys @ [z])"
    using Cons.prems(2) bz by (auto simp: nth_list_update)
  have disj: "st b + j \<noteq> h ! ?b" if "b < length h" "j < ?c b ys" for b j
  proof (cases "b = ?b")
    case True
    then show ?thesis using wpos that by simp
  next
    case False
    then consider "b < ?b" | "?b < b" by linarith
    then show ?thesis
    proof cases
      case 1
      have "st b + j < st b + ?c b (ys @ z # zs)" using that by simp
      also have "\<dots> = st (Suc b)" using Cons.prems(4) by simp
      also have "\<dots> \<le> st ?b" using 1 by (intro mono) simp
      finally show ?thesis using wpos by simp
    next
      case 2
      have "h ! ?b < st ?b + ?c ?b (ys @ z # zs)" using wpos cz by simp
      also have "\<dots> = st (Suc ?b)" using Cons.prems(4) by simp
      also have "\<dots> \<le> st b" using 2 by (intro mono) simp
      finally show ?thesis by simp
    qed
  qed
  have p3: "\<forall>b<length ?h1. \<forall>j<?c b (ys @ [z]). ?d1 ! (st b + j) = filter (\<lambda>x. d x = b) (ys @ [z]) ! j"
  proof (intro allI impI)
    fix b j assume b: "b < length ?h1" and j: "j < ?c b (ys @ [z])"
    show "?d1 ! (st b + j) = filter (\<lambda>x. d x = b) (ys @ [z]) ! j"
    proof (cases "b = ?b \<and> j = ?c ?b ys")
      case True
      then show ?thesis using wpos wlt by (simp add: nth_append)
    next
      case False
      then have j': "j < ?c b ys" using j by (auto split: if_splits)
      then have "st b + j \<noteq> h ! ?b" using disj b by simp
      then have "?d1 ! (st b + j) = dst ! (st b + j)" by simp
      also have "\<dots> = filter (\<lambda>x. d x = b) ys ! j" using Cons.prems(3) b j' by simp
      finally show ?thesis using j' by (simp add: nth_append)
    qed
  qed
  have p4: "\<forall>b. st (Suc b) = st b + ?c b ((ys @ [z]) @ zs)" using Cons.prems(4) by simp
  have p5: "\<forall>b<length ?h1. st b + ?c b ((ys @ [z]) @ zs) \<le> length ?d1" using Cons.prems(5) by simp
  have p6: "fold (\<lambda>x (hist, dst). let b = d x in (hist[b := hist ! b + 1], dst[hist ! b := x])) zs (?h1, ?d1) = (h', dst')"
    using Cons.prems(6) by (simp add: Let_def)
  note ih = Cons.IH[OF p1 p2 p3 p4 p5 p6]
  have frame: "dst' ! p = dst ! p"
    if "\<forall>b<length h. \<forall>j<?c b (ys @ z # zs). p \<noteq> st b + j" for p
  proof -
    have "dst' ! p = ?d1 ! p" using ih that by (simp add: ys1)
    moreover have "p \<noteq> h ! ?b" using that bz wpos cz by metis
    ultimately show ?thesis by simp
  qed
  show ?case using ih frame by (simp add: ys1)
qed

text \<open>The concatenation of the 256 buckets is the stable sort by the digit.\<close>

lemma buckets_mset:
  "mset (concat (map (\<lambda>b. filter (\<lambda>x. d x = b) xs) [0..<k])) = mset (filter (\<lambda>x. d x < (k::nat)) xs)"
proof (induction k)
  case 0
  then show ?case by simp
next
  case (Suc k)
  have "mset (filter (\<lambda>x. d x < Suc k) xs) =
        mset (filter (\<lambda>x. d x < k) xs) + mset (filter (\<lambda>x. d x = k) xs)"
    by (induction xs) (auto simp: less_Suc_eq)
  with Suc show ?case by simp
qed

lemma buckets_filter:
  "filter (\<lambda>x. d x = b) (concat (map (\<lambda>b. filter (\<lambda>x. d x = b) xs) [0..<k])) =
   (if b < (k::nat) then filter (\<lambda>x. d x = b) xs else [])"
proof (induction k)
  case 0
  then show ?case by simp
next
  case (Suc k)
  have "filter (\<lambda>x. d x = b) (filter (\<lambda>x. d x = k) xs) = (if b = k then filter (\<lambda>x. d x = b) xs else [])"
    by (induction xs) auto
  with Suc show ?case by (auto simp: less_Suc_eq)
qed

lemma buckets_sorted:
  "sorted (map d (concat (map (\<lambda>b. filter (\<lambda>x. d x = b) xs) [0..<(k::nat)])))"
proof (induction k)
  case 0
  then show ?case by simp
next
  case (Suc k)
  have "sorted (map d (filter (\<lambda>x. d x = k) xs))"
    by (induction xs) auto
  with Suc show ?case by (auto simp: sorted_append)
qed

lemma buckets_sort_key:
  assumes "\<forall>x\<in>set xs. d x < (k::nat)"
  shows "concat (map (\<lambda>b. filter (\<lambda>x. d x = b) xs) [0..<k]) = sort_key d xs"
proof (rule properties_for_sort_key [symmetric])
  have "filter (\<lambda>x. d x < k) xs = xs" using assms by (simp add: filter_id_conv)
  then show "mset (concat (map (\<lambda>b. filter (\<lambda>x. d x = b) xs) [0..<k])) = mset xs"
    by (simp add: buckets_mset)
next
  fix a assume "a \<in> set (concat (map (\<lambda>b. filter (\<lambda>x. d x = b) xs) [0..<k]))"
  then have "a \<in> set xs" by auto
  then have "d a < k" using assms by simp
  then have "filter (\<lambda>x. d x = d a) (concat (map (\<lambda>b. filter (\<lambda>x. d x = b) xs) [0..<k])) =
             filter (\<lambda>x. d x = d a) xs"
    by (simp add: buckets_filter)
  moreover have "(\<lambda>x. d a = d x) = (\<lambda>x. d x = d a)" by auto
  ultimately show "filter (\<lambda>x. d a = d x) (concat (map (\<lambda>b. filter (\<lambda>x. d x = b) xs) [0..<k])) =
             filter (\<lambda>x. d a = d x) xs"
    by simp
next
  show "sorted (map d (concat (map (\<lambda>b. filter (\<lambda>x. d x = b) xs) [0..<k])))"
    by (rule buckets_sorted)
qed

lemma buckets_length:
  "length (concat (map (\<lambda>b. filter (\<lambda>x. d x = b) xs) [0..<k])) = length (filter (\<lambda>x. d x < (k::nat)) xs)"
  using buckets_mset [of d xs k] by (metis size_mset)

lemma buckets_nth:
  "b < k \<Longrightarrow> j < length (filter (\<lambda>x. d x = b) xs) \<Longrightarrow>
   concat (map (\<lambda>b. filter (\<lambda>x. d x = b) xs) [0..<k]) ! (length (filter (\<lambda>x. d x < b) xs) + j) =
   filter (\<lambda>x. d x = b) xs ! j"
proof (induction k)
  case 0
  then show ?case by simp
next
  case (Suc k)
  show ?case
  proof (cases "b = k")
    case True
    then show ?thesis using Suc.prems by (simp add: nth_append buckets_length)
  next
    case False
    then have bk: "b < k" using Suc.prems by simp
    have "length (filter (\<lambda>x. d x < b) xs) + length (filter (\<lambda>x. d x = b) xs) = length (filter (\<lambda>x. d x < Suc b) xs)"
      using sum_bucket_lengths [of d xs "Suc b"] sum_bucket_lengths [of d xs b] by simp
    also have "\<dots> \<le> length (filter (\<lambda>x. d x < k) xs)"
      using bk by (induction xs) auto
    finally have "length (filter (\<lambda>x. d x < b) xs) + j < length (filter (\<lambda>x. d x < k) xs)"
      using Suc.prems(2) by simp
    then show ?thesis using Suc.IH [OF bk Suc.prems(2)] by (simp add: nth_append buckets_length)
  qed
qed

lemma buckets_cover:
  "p < length (filter (\<lambda>x. d x < (k::nat)) xs) \<Longrightarrow>
   \<exists>b<k. \<exists>j<length (filter (\<lambda>x. d x = b) xs). p = length (filter (\<lambda>x. d x < b) xs) + j"
proof (induction k)
  case 0
  then show ?case by simp
next
  case (Suc k)
  have split: "length (filter (\<lambda>x. d x < Suc k) xs) =
      length (filter (\<lambda>x. d x < k) xs) + length (filter (\<lambda>x. d x = k) xs)"
    using sum_bucket_lengths [of d xs "Suc k"] sum_bucket_lengths [of d xs k] by simp
  show ?case
  proof (cases "p < length (filter (\<lambda>x. d x < k) xs)")
    case True
    then show ?thesis using Suc.IH by (meson less_Suc_eq)
  next
    case False
    then have "p - length (filter (\<lambda>x. d x < k) xs) < length (filter (\<lambda>x. d x = k) xs)"
      using Suc.prems split by simp
    moreover have "p = length (filter (\<lambda>x. d x < k) xs) + (p - length (filter (\<lambda>x. d x < k) xs))"
      using False by simp
    ultimately show ?thesis by blast
  qed
qed

lemma radix_digit_less: "radix_digit shift m < 256"
proof -
  have "unat (drop_bit shift m AND 0xFF) \<le> unat (0xFF :: 32 word)"
    by (rule word_and_le1 [THEN word_le_nat_alt [THEN iffD1]])
  then show ?thesis by (simp add: radix_digit_def)
qed

lemma radix_count_eq:
  assumes "n \<le> length src"
  shows "length (radix_count key shift src n) = 256"
    and "b < 256 \<Longrightarrow> radix_count key shift src n ! b =
          length (filter (\<lambda>x. radix_digit shift (key x) = b) (take n src))"
proof -
  have eq: "radix_count key shift src n =
     fold (\<lambda>x h. h[radix_digit shift (key x) := h ! radix_digit shift (key x) + 1]) (take n src) (replicate 256 0)"
    unfolding radix_count_def
    by (rule fun_cong [OF fold_nth_upt [OF assms,
          of "\<lambda>x h. h[radix_digit shift (key x) := h ! radix_digit shift (key x) + 1]"]])
  show "length (radix_count key shift src n) = 256"
    unfolding eq count_fold_length by simp
  show "b < 256 \<Longrightarrow> radix_count key shift src n ! b =
          length (filter (\<lambda>x. radix_digit shift (key x) = b) (take n src))"
    unfolding eq by (subst count_fold_nth) simp_all
qed

lemma radix_prefix_eq:
  assumes "length h0 = 256"
  shows "length (radix_prefix h0) = 256"
    and "b < 256 \<Longrightarrow> radix_prefix h0 ! b = (\<Sum>l<b. h0 ! l)"
proof -
  obtain h sm where f: "fold (\<lambda>i (hist, sum). (hist[i := sum], sum + hist ! i)) [0..<256] (h0, 0::nat) = (h, sm)"
    by (cases "fold (\<lambda>i (hist, sum). (hist[i := sum], sum + hist ! i)) [0..<256] (h0, 0::nat)")
  have "256 \<le> length h0" using assms by simp
  from prefix_fold [OF this f]
  have "length h = length h0" "\<forall>j<256. h ! j = (\<Sum>l<j. h0 ! l)" by auto
  moreover have "radix_prefix h0 = h" unfolding radix_prefix_def using f by simp
  ultimately show "length (radix_prefix h0) = 256"
    and "b < 256 \<Longrightarrow> radix_prefix h0 ! b = (\<Sum>l<b. h0 ! l)"
    using assms by auto
qed

text \<open>One pass writes the stable sort by its digit into the live part of the destination.\<close>

lemma radix_scatter_sort_key:
  assumes n: "n \<le> length src" "n \<le> length dst"
  shows "radix_scatter key shift src n (radix_prefix (radix_count key shift src n)) dst =
         sort_key (\<lambda>x. radix_digit shift (key x)) (take n src) @ drop n dst"
proof -
  let ?d = "\<lambda>x. radix_digit shift (key x)"
  let ?xs = "take n src"
  let ?h = "radix_prefix (radix_count key shift src n)"
  let ?st = "\<lambda>b. length (filter (\<lambda>x. ?d x < b) ?xs)"
  let ?c = "\<lambda>b. length (filter (\<lambda>x. ?d x = b) ?xs)"
  let ?f = "\<lambda>x (hist, dst). let b = ?d x in (hist[b := hist ! b + 1], dst[hist ! b := x])"
  have len_h: "length ?h = 256"
    by (simp add: radix_prefix_eq(1) radix_count_eq(1) [OF n(1)])
  have h_nth: "?h ! b = ?st b" if "b < 256" for b
  proof -
    have "?h ! b = (\<Sum>l<b. radix_count key shift src n ! l)"
      using that by (simp add: radix_prefix_eq(2) radix_count_eq(1) [OF n(1)])
    also have "\<dots> = (\<Sum>l<b. ?c l)"
      using that by (intro sum.cong) (simp_all add: radix_count_eq(2) [OF n(1)])
    also have "\<dots> = ?st b" by (rule sum_bucket_lengths)
    finally show ?thesis .
  qed
  have all: "filter (\<lambda>x. ?d x < 256) ?xs = ?xs"
    by (simp add: filter_id_conv radix_digit_less)
  have st_le: "?st b + ?c b \<le> n" for b
  proof -
    have "?st b + ?c b = ?st (Suc b)"
      using sum_bucket_lengths [of ?d ?xs "Suc b"] sum_bucket_lengths [of ?d ?xs b] by simp
    also have "\<dots> \<le> length ?xs" by (rule length_filter_le)
    finally show ?thesis using n by simp
  qed
  have scat: "radix_scatter key shift src n ?h dst = snd (fold ?f ?xs (?h, dst))"
    unfolding radix_scatter_def
    by (rule arg_cong [where f = snd], rule fun_cong [OF fold_nth_upt [OF n(1), of ?f]])
  obtain h' dst' where f: "fold ?f ?xs (?h, dst) = (h', dst')"
    by (cases "fold ?f ?xs (?h, dst)")
  have inv: "length dst' = length dst \<and>
    (\<forall>b<length ?h. \<forall>j<length (filter (\<lambda>x. ?d x = b) ([] @ ?xs)).
        dst' ! (?st b + j) = filter (\<lambda>x. ?d x = b) ([] @ ?xs) ! j) \<and>
    (\<forall>p. (\<forall>b<length ?h. \<forall>j<length (filter (\<lambda>x. ?d x = b) ([] @ ?xs)). p \<noteq> ?st b + j) \<longrightarrow> dst' ! p = dst ! p)"
  proof (rule scatter_fold [where d = ?d and ys = "[]" and zs = ?xs and h = ?h and dst = dst and st = ?st])
    show "\<forall>x\<in>set ([] @ ?xs). ?d x < length ?h" by (simp add: len_h radix_digit_less)
    show "\<forall>b<length ?h. ?h ! b = ?st b + length (filter (\<lambda>x. ?d x = b) [])"
      using h_nth by (simp add: len_h)
    show "\<forall>b<length ?h. \<forall>j<length (filter (\<lambda>x. ?d x = b) []). dst ! (?st b + j) = filter (\<lambda>x. ?d x = b) [] ! j"
      by simp
    show "\<forall>b. ?st (Suc b) = ?st b + length (filter (\<lambda>x. ?d x = b) ([] @ ?xs))"
      using sum_bucket_lengths [of ?d ?xs] by (metis append_Nil sum.lessThan_Suc)
    show "\<forall>b<length ?h. ?st b + length (filter (\<lambda>x. ?d x = b) ([] @ ?xs)) \<le> length dst"
      using st_le n(2) by (auto intro: order_trans)
    show "fold ?f ?xs (?h, dst) = (h', dst')" by (rule f)
  qed
  have srt: "sort_key ?d ?xs = concat (map (\<lambda>b. filter (\<lambda>x. ?d x = b) ?xs) [0..<256])"
    by (rule buckets_sort_key [symmetric]) (simp add: radix_digit_less)
  have len_srt: "length (sort_key ?d ?xs) = n" using n by simp
  have "dst' = sort_key ?d ?xs @ drop n dst"
  proof (rule nth_equalityI)
    show "length dst' = length (sort_key ?d ?xs @ drop n dst)"
      using inv n by simp
  next
    fix p assume "p < length dst'"
    then have p: "p < length dst" using inv by simp
    show "dst' ! p = (sort_key ?d ?xs @ drop n dst) ! p"
    proof (cases "p < n")
      case True
      then have "p < length (filter (\<lambda>x. ?d x < 256) ?xs)" using all n by simp
      from buckets_cover [OF this]
      obtain b j where bj: "b < 256" "j < ?c b" "p = ?st b + j" by blast
      have "dst' ! p = filter (\<lambda>x. ?d x = b) ?xs ! j"
        using inv bj by (simp add: len_h)
      also have "\<dots> = sort_key ?d ?xs ! p"
        unfolding srt bj(3) by (rule buckets_nth [symmetric]) (use bj in simp_all)
      finally show ?thesis using True n by (simp add: nth_append)
    next
      case False
      have "p \<noteq> ?st b + j" if "j < ?c b" for b j
        using st_le [of b] that False by simp
      then have "dst' ! p = dst ! p" using inv by simp
      then show ?thesis using False p n by (simp add: nth_append)
    qed
  qed
  then show ?thesis unfolding scat f by simp
qed

text \<open>Four passes, from the least significant byte: the stable sort by the whole key.\<close>

lemma radix_digit_unat: "radix_digit s m = (unat m div 2 ^ s) mod 256"
proof -
  have "(0xFF :: 32 word) = mask 8" by (simp add: mask_eq_exp_minus_1)
  then have eq: "drop_bit s m AND 0xFF = take_bit 8 (drop_bit s m)"
    by (simp only: take_bit_eq_mask)
  have small: "unat m mod 4294967296 = unat m"
    using unsigned_less [of m, where 'a = nat] by simp
  show ?thesis
    unfolding radix_digit_def eq unsigned_take_bit_eq unsigned_drop_bit_eq
    by (simp add: take_bit_eq_mod drop_bit_eq_div small)
qed

lemma sort_key_const: "\<forall>x\<in>set l. f x = c \<Longrightarrow> sort_key f l = l"
proof (rule sort_key_id_if_sorted)
  assume "\<forall>x\<in>set l. f x = c"
  then have "map f l = replicate (length l) c"
    by (simp add: map_replicate_const [symmetric] cong: map_cong)
  then show "sorted (map f l)" by (simp add: sorted_replicate)
qed

lemma insort_key_lex:
  fixes d :: "'a \<Rightarrow> nat" and low :: "'a \<Rightarrow> nat"
  assumes "sorted_wrt (\<lambda>a b. d a < d b \<or> (d a = d b \<and> low a \<le> low b)) zs"
    and "\<forall>z\<in>set zs. low y \<le> low z"
  shows "sorted_wrt (\<lambda>a b. d a < d b \<or> (d a = d b \<and> low a \<le> low b)) (insort_key d y zs)"
  using assms
proof (induction zs)
  case Nil
  then show ?case by simp
next
  case (Cons z zs)
  show ?case
  proof (cases "d y \<le> d z")
    case True
    have "d y < d w \<or> (d y = d w \<and> low y \<le> low w)" if "w \<in> set (z # zs)" for w
    proof -
      have "d z \<le> d w" using Cons.prems(1) that by auto
      then have "d y \<le> d w" using True by simp
      moreover have "low y \<le> low w" using Cons.prems(2) that by auto
      ultimately show ?thesis by auto
    qed
    then show ?thesis using True Cons.prems(1) by simp
  next
    case False
    then have "sorted_wrt (\<lambda>a b. d a < d b \<or> (d a = d b \<and> low a \<le> low b)) (insort_key d y zs)"
      using Cons by simp
    then show ?thesis using False Cons.prems(1) by (auto simp: set_insort_key)
  qed
qed

lemma sort_key_lex:
  fixes d :: "'a \<Rightarrow> nat" and low :: "'a \<Rightarrow> nat"
  assumes "sorted (map low ys)"
  shows "sorted_wrt (\<lambda>a b. d a < d b \<or> (d a = d b \<and> low a \<le> low b)) (sort_key d ys)"
  using assms
proof (induction ys)
  case Nil
  then show ?case by simp
next
  case (Cons y ys)
  then show ?case by (auto intro!: insort_key_lex)
qed

lemma lsd_step:
  fixes d :: "'a \<Rightarrow> nat" and low :: "'a \<Rightarrow> nat"
  assumes low: "\<And>x. low x < M"
  shows "sort_key d (sort_key low xs) = sort_key (\<lambda>x. d x * M + low x) xs"
proof (rule properties_for_sort_key [symmetric])
  show "mset (sort_key d (sort_key low xs)) = mset xs" by simp
next
  fix k
  let ?P = "\<lambda>x. d k * M + low k = d x * M + low x"
  have same: "d x = d k \<and> low x = low k" if "?P x" for x
  proof -
    have "(d k * M + low k) div M = (d x * M + low x) div M" using that by simp
    moreover have "(d k * M + low k) mod M = (d x * M + low x) mod M" using that by simp
    ultimately show ?thesis using low [of x] low [of k] by simp
  qed
  have "filter ?P (sort_key d (sort_key low xs)) = sort_key d (sort_key low (filter ?P xs))"
    by (simp add: filter_sort)
  also have "sort_key low (filter ?P xs) = filter ?P xs"
    by (rule sort_key_const [where c = "low k"]) (use same in auto)
  also have "sort_key d (filter ?P xs) = filter ?P xs"
    by (rule sort_key_const [where c = "d k"]) (use same in auto)
  finally show "filter ?P (sort_key d (sort_key low xs)) = filter ?P xs" .
next
  have "sorted_wrt (\<lambda>a b. d a < d b \<or> (d a = d b \<and> low a \<le> low b)) (sort_key d (sort_key low xs))"
    by (rule sort_key_lex) simp
  moreover have "d a * M + low a \<le> d b * M + low b"
    if "d a < d b \<or> (d a = d b \<and> low a \<le> low b)" for a b
  proof (cases "d a < d b")
    case True
    then have "Suc (d a) * M \<le> d b * M" by (intro mult_le_mono1) simp
    moreover have "d a * M + low a < Suc (d a) * M" using low [of a] by simp
    ultimately show ?thesis by simp
  next
    case False
    then show ?thesis using that by simp
  qed
  ultimately have "sorted_wrt (\<lambda>a b. d a * M + low a \<le> d b * M + low b) (sort_key d (sort_key low xs))"
    by (rule sorted_wrt_mono_rel [rotated]) simp
  then show "sorted (map (\<lambda>x. d x * M + low x) (sort_key d (sort_key low xs)))"
    by (simp add: sorted_map)
qed

lemma low_bits_step:
  "radix_digit (8 * i) m * 2 ^ (8 * i) + unat m mod 2 ^ (8 * i) = unat m mod 2 ^ (8 * Suc i)"
proof -
  have "unat m mod (2 ^ (8 * i) * 256) = 2 ^ (8 * i) * (unat m div 2 ^ (8 * i) mod 256) + unat m mod 2 ^ (8 * i)"
    by (rule mod_mult2_eq)
  moreover have "(2::nat) ^ (8 * Suc i) = 2 ^ (8 * i) * 256" by (simp add: power_add)
  ultimately show ?thesis by (simp add: radix_digit_unat mult.commute)
qed

lemma lsd_pass:
  "sort_key (\<lambda>x. radix_digit (8 * i) (key x)) (sort_key (\<lambda>x. unat (key x) mod 2 ^ (8 * i)) xs) =
   sort_key (\<lambda>x. unat (key x) mod 2 ^ (8 * Suc i)) xs"
proof -
  have "sort_key (\<lambda>x. radix_digit (8 * i) (key x)) (sort_key (\<lambda>x. unat (key x) mod 2 ^ (8 * i)) xs) =
        sort_key (\<lambda>x. radix_digit (8 * i) (key x) * 2 ^ (8 * i) + unat (key x) mod 2 ^ (8 * i)) xs"
    by (rule lsd_step) simp
  then show ?thesis by (simp only: low_bits_step)
qed

lemma sort_key_unat:
  fixes key :: "'a \<Rightarrow> 32 word"
  shows "sort_key (\<lambda>x. unat (key x) mod 2 ^ (8 * 4)) xs = sort_key key xs"
proof -
  have m: "unat (key x) mod 2 ^ (8 * 4) = unat (key x)" for x
    using unsigned_less [of "key x", where 'a = nat] by simp
  have "sort_key (\<lambda>x. unat (key x)) xs = sort_key key xs"
  proof (rule properties_for_sort_key [symmetric])
    show "mset (sort_key (\<lambda>x. unat (key x)) xs) = mset xs" by simp
    show "sorted (map key (sort_key (\<lambda>x. unat (key x)) xs))"
      using sorted_sort_key [of "\<lambda>x. unat (key x)" xs]
      by (simp add: sorted_map word_le_nat_alt)
    fix k
    have "(\<lambda>x. key k = key x) = (\<lambda>x. unat (key x) = unat (key k))"
      by (auto simp: fun_eq_iff word_unat_eq_iff)
    then show "filter (\<lambda>x. key k = key x) (sort_key (\<lambda>x. unat (key x)) xs) = filter (\<lambda>x. key k = key x) xs"
      by (simp add: sort_key_stable)
  qed
  then show ?thesis by (simp only: m)
qed

lemma radix_pass_from_A:
  assumes "length S = n" "n \<le> length B"
  shows "radix_pass key n i (S @ R, B, True) =
         (S @ R, sort_key (\<lambda>x. radix_digit (8 * i) (key x)) S @ drop n B, False)"
  using assms by (simp add: radix_pass_def Let_def radix_scatter_sort_key)

lemma radix_pass_from_B:
  assumes "length S = n" "n \<le> length A"
  shows "radix_pass key n i (A, S @ R, False) =
         (sort_key (\<lambda>x. radix_digit (8 * i) (key x)) S @ drop n A, S @ R, True)"
  using assms by (simp add: radix_pass_def Let_def radix_scatter_sort_key)

lemma lsd_pass':
  "j = Suc i \<Longrightarrow>
   sort_key (\<lambda>x. radix_digit (8 * i) (key x)) (sort_key (\<lambda>x. unat (key x) mod 2 ^ (8 * i)) xs) =
   sort_key (\<lambda>x. unat (key x) mod 2 ^ (8 * j)) xs"
  by (simp only: lsd_pass)

lemma RADIX_SORT_IMPL_sort_key:
  assumes n: "n \<le> length A" "n \<le> length B"
  shows "RADIX_SORT_IMPL key A B n =
    (sort_key key (take n A) @ drop n A,
     sort_key (\<lambda>x. unat (key x) mod 2 ^ (8 * 3)) (take n A) @ drop n B)"
proof -
  define xs where "xs = take n A"
  define L where "L i = sort_key (\<lambda>x. unat (key x) mod 2 ^ (8 * i)) xs" for i :: nat
  have len: "length (L i) = n" for i using n by (simp add: L_def xs_def)
  have L0: "L 0 = xs" unfolding L_def by (rule sort_key_const [where c = 0]) simp
  have L4: "L 4 = sort_key key xs" unfolding L_def by (rule sort_key_unat)
  have step: "sort_key (\<lambda>x. radix_digit (8 * i) (key x)) (L i) = L j" if "j = Suc i" for i j
    unfolding L_def using that by (rule lsd_pass')
  have A: "A = L 0 @ drop n A" by (simp add: L0 xs_def)
  have f: "fold (radix_pass key n) [0..<4] st =
       radix_pass key n 3 (radix_pass key n 2 (radix_pass key n 1 (radix_pass key n 0 st)))" for st
    by (simp add: upt_rec numeral_eq_Suc)
  have s0: "sort_key (\<lambda>x. radix_digit (8 * 0) (key x)) (L 0) = L 1" by (rule step) simp
  have s1: "sort_key (\<lambda>x. radix_digit (8 * 1) (key x)) (L 1) = L 2" by (rule step) simp
  have s2: "sort_key (\<lambda>x. radix_digit (8 * 2) (key x)) (L 2) = L 3" by (rule step) simp
  have s3: "sort_key (\<lambda>x. radix_digit (8 * 3) (key x)) (L 3) = L 4" by (rule step) simp
  have lenA: "n \<le> length (L i @ drop n A)" for i by (simp add: len)
  have lenB: "n \<le> length (L i @ drop n B)" for i by (simp add: len)
  have dA: "drop n (L i @ drop n A) = drop n A" for i by (simp add: len)
  have dB: "drop n (L i @ drop n B) = drop n B" for i by (simp add: len)
  have p0: "radix_pass key n 0 (L 0 @ drop n A, B, True) = (L 0 @ drop n A, L 1 @ drop n B, False)"
    by (simp only: radix_pass_from_A [OF len n(2)] s0)
  have p1: "radix_pass key n 1 (L 0 @ drop n A, L 1 @ drop n B, False) =
            (L 2 @ drop n A, L 1 @ drop n B, True)"
    by (simp only: radix_pass_from_B [OF len lenA] s1 dA)
  have p2: "radix_pass key n 2 (L 2 @ drop n A, L 1 @ drop n B, True) =
            (L 2 @ drop n A, L 3 @ drop n B, False)"
    by (simp only: radix_pass_from_A [OF len lenB] s2 dB)
  have p3: "radix_pass key n 3 (L 2 @ drop n A, L 3 @ drop n B, False) =
            (L 4 @ drop n A, L 3 @ drop n B, True)"
    by (simp only: radix_pass_from_B [OF len lenA] s3 dA)
  have "fold (radix_pass key n) [0..<4] (A, B, True) = (L 4 @ drop n A, L 3 @ drop n B, True)"
    unfolding f by (subst A) (simp only: p0 p1 p2 p3)
  then show ?thesis
    by (simp add: RADIX_SORT_IMPL_def L4) (simp add: L_def xs_def)
qed

lemma radixSorted_sort_key:
  assumes "n \<le> length A"
  shows "radixSorted key n A (sort_key key (take n A) @ drop n A)"
proof -
  have len: "length (sort_key key (take n A)) = n" using assms by simp
  have t: "take n (sort_key key (take n A) @ drop n A) = sort_key key (take n A)"
    using len by simp
  have d: "drop n (sort_key key (take n A) @ drop n A) = drop n A"
    using len by simp
  have "sort_key key (take n A) @ drop n A = A" if "sorted (map key (take n A))"
    using that by (simp add: sort_key_id_if_sorted)
  then show ?thesis
    unfolding radixSorted_def t d by (simp add: sort_key_stable)
qed

lemma radixSorted_small:
  assumes "n \<le> 1"
  shows "radixSorted key n A A"
proof -
  have "length (take n A) \<le> 1" using assms by simp
  then have "sorted (map key (take n A))"
    by (cases "take n A") (auto simp: le_Suc_eq)
  then show ?thesis by (simp add: radixSorted_def)
qed

lemma radixSorted_RADIX_SORT_IMPL:
  assumes "n \<le> length A" "n \<le> length B"
  shows "radixSorted key n A (fst (RADIX_SORT_IMPL key A B n))"
  using assms by (simp add: RADIX_SORT_IMPL_sort_key radixSorted_sort_key)

lemma sortLights_points:
  assumes "needsSort s \<noteq> 0"
    and "nat (pointLightCount s) \<le> length (pointLights s)"
    and "nat (pointLightCount s) \<le> length (pointLightsScratch s)"
  shows "radixSorted morton (nat (pointLightCount s)) (pointLights s) (pointLights (sortLights s))"
proof (cases "pointLightCount s > 1")
  case True
  then show ?thesis
    using assms radixSorted_RADIX_SORT_IMPL [OF assms(2,3), of morton]
    by (simp add: sortLights_def Let_def radixSortPointLights_def radixSortSpotLights_def
        radixSortRectLights_def split_beta)
next
  case False
  then have "nat (pointLightCount s) \<le> 1" by simp
  from radixSorted_small [OF this] show ?thesis
    using assms False
    by (simp add: sortLights_def Let_def radixSortPointLights_def radixSortSpotLights_def
        radixSortRectLights_def split_beta)
qed

lemma sortLights_spots:
  assumes "needsSort s \<noteq> 0"
    and "nat (spotLightCount s) \<le> length (spotLights s)"
    and "nat (spotLightCount s) \<le> length (spotLightsScratch s)"
  shows "radixSorted morton (nat (spotLightCount s)) (spotLights s) (spotLights (sortLights s))"
proof (cases "spotLightCount s > 1")
  case True
  then show ?thesis
    using assms radixSorted_RADIX_SORT_IMPL [OF assms(2,3), of morton]
    by (simp add: sortLights_def Let_def radixSortPointLights_def radixSortSpotLights_def
        radixSortRectLights_def split_beta)
next
  case False
  then have "nat (spotLightCount s) \<le> 1" by simp
  from radixSorted_small [OF this] show ?thesis
    using assms False
    by (simp add: sortLights_def Let_def radixSortPointLights_def radixSortSpotLights_def
        radixSortRectLights_def split_beta)
qed

lemma sortLights_rects:
  assumes "needsSort s \<noteq> 0"
    and "nat (rectLightCount s) \<le> length (rectLights s)"
    and "nat (rectLightCount s) \<le> length (rectLightsScratch s)"
  shows "radixSorted morton (nat (rectLightCount s)) (rectLights s) (rectLights (sortLights s))"
proof (cases "rectLightCount s > 1")
  case True
  then show ?thesis
    using assms radixSorted_RADIX_SORT_IMPL [OF assms(2,3), of morton]
    by (simp add: sortLights_def Let_def radixSortPointLights_def radixSortSpotLights_def
        radixSortRectLights_def split_beta)
next
  case False
  then have "nat (rectLightCount s) \<le> 1" by simp
  from radixSorted_small [OF this] show ?thesis
    using assms False
    by (simp add: sortLights_def Let_def radixSortPointLights_def radixSortSpotLights_def
        radixSortRectLights_def split_beta)
qed

text \<open>
  Claim C1. When the ordering-stale flag is set, \<^verbatim>\<open>sort()\<close> rearranges the live part of
  each of the three arrays into non-decreasing order of the 32-bit morton keys; the result is
  a permutation of the input, lights with equal keys keep their relative order, and an
  array that was in order already is left unchanged. The live counts are assumed to lie
  within the arrays and their scratch twins.
\<close>

theorem sortLights_sorts:
  assumes "needsSort s \<noteq> 0"
    and "nat (pointLightCount s) \<le> length (pointLights s)"
    and "nat (pointLightCount s) \<le> length (pointLightsScratch s)"
    and "nat (spotLightCount s) \<le> length (spotLights s)"
    and "nat (spotLightCount s) \<le> length (spotLightsScratch s)"
    and "nat (rectLightCount s) \<le> length (rectLights s)"
    and "nat (rectLightCount s) \<le> length (rectLightsScratch s)"
  shows "radixSorted morton (nat (pointLightCount s)) (pointLights s) (pointLights (sortLights s)) \<and>
         radixSorted morton (nat (spotLightCount s)) (spotLights s) (spotLights (sortLights s)) \<and>
         radixSorted morton (nat (rectLightCount s)) (rectLights s) (rectLights (sortLights s))"
  using assms by (intro conjI sortLights_points sortLights_spots sortLights_rects)

lemma morton_values:
  "computeMorton 1 0 = 1" "computeMorton 2 0 = 4" "computeMorton 3 0 = 5"
  by (simp_all add: computeMorton_def interleaveBits_def f2u32_def truncf_def Let_def)

lemma unsortedPoints_facts:
  "needsSort unsortedPoints = 1" "pointLightCount unsortedPoints = 3"
  "spotLightCount unsortedPoints = 0" "rectLightCount unsortedPoints = 0"
  "length (pointLights unsortedPoints) = 4" "length (pointLightsScratch unsortedPoints) = 4"
  "length (spotLights unsortedPoints) = 4" "length (spotLightsScratch unsortedPoints) = 4"
  "length (rectLights unsortedPoints) = 4" "length (rectLightsScratch unsortedPoints) = 4"
  "map morton (take 3 (pointLights unsortedPoints)) = [5, 1, 4]"
  by (simp_all add: unsortedPoints_def add_def initState_def Let_def morton_values eval_nat_numeral)

lemma sortedPoints_facts:
  "needsSort sortedPoints = 1" "pointLightCount sortedPoints = 3"
  "spotLightCount sortedPoints = 0" "rectLightCount sortedPoints = 0"
  "length (pointLights sortedPoints) = 4" "length (pointLightsScratch sortedPoints) = 4"
  "length (spotLights sortedPoints) = 4" "length (spotLightsScratch sortedPoints) = 4"
  "length (rectLights sortedPoints) = 4" "length (rectLightsScratch sortedPoints) = 4"
  "map morton (take 3 (pointLights sortedPoints)) = [1, 4, 5]"
  by (simp_all add: sortedPoints_def add_def initState_def Let_def morton_values eval_nat_numeral)

theorem sortLights_sorts_witness:
  "needsSort unsortedPoints \<noteq> 0 \<and>
   nat (pointLightCount unsortedPoints) \<le> length (pointLights unsortedPoints) \<and>
   nat (pointLightCount unsortedPoints) \<le> length (pointLightsScratch unsortedPoints) \<and>
   nat (spotLightCount unsortedPoints) \<le> length (spotLights unsortedPoints) \<and>
   nat (spotLightCount unsortedPoints) \<le> length (spotLightsScratch unsortedPoints) \<and>
   nat (rectLightCount unsortedPoints) \<le> length (rectLights unsortedPoints) \<and>
   nat (rectLightCount unsortedPoints) \<le> length (rectLightsScratch unsortedPoints) \<and>
   map morton (take 3 (pointLights unsortedPoints)) = [5, 1, 4] \<and>
   map morton (take 3 (pointLights (sortLights unsortedPoints))) = [1, 4, 5] \<and>
   sorted (map morton (take 3 (pointLights sortedPoints))) \<and>
   pointLights (sortLights sortedPoints) = pointLights sortedPoints"
proof -
  have hyps: "needsSort unsortedPoints \<noteq> 0"
    "nat (pointLightCount unsortedPoints) \<le> length (pointLights unsortedPoints)"
    "nat (pointLightCount unsortedPoints) \<le> length (pointLightsScratch unsortedPoints)"
    "nat (spotLightCount unsortedPoints) \<le> length (spotLights unsortedPoints)"
    "nat (spotLightCount unsortedPoints) \<le> length (spotLightsScratch unsortedPoints)"
    "nat (rectLightCount unsortedPoints) \<le> length (rectLights unsortedPoints)"
    "nat (rectLightCount unsortedPoints) \<le> length (rectLightsScratch unsortedPoints)"
    by (simp_all add: unsortedPoints_facts)
  have hyps': "needsSort sortedPoints \<noteq> 0"
    "nat (pointLightCount sortedPoints) \<le> length (pointLights sortedPoints)"
    "nat (pointLightCount sortedPoints) \<le> length (pointLightsScratch sortedPoints)"
    "nat (spotLightCount sortedPoints) \<le> length (spotLights sortedPoints)"
    "nat (spotLightCount sortedPoints) \<le> length (spotLightsScratch sortedPoints)"
    "nat (rectLightCount sortedPoints) \<le> length (rectLights sortedPoints)"
    "nat (rectLightCount sortedPoints) \<le> length (rectLightsScratch sortedPoints)"
    by (simp_all add: sortedPoints_facts)
  let ?ys = "take 3 (pointLights (sortLights unsortedPoints))"
  have u: "radixSorted morton 3 (pointLights unsortedPoints) (pointLights (sortLights unsortedPoints))"
    using sortLights_sorts [OF hyps] by (simp add: unsortedPoints_facts)
  then have "sorted (map morton ?ys)"
    and "mset ?ys = mset (take 3 (pointLights unsortedPoints))"
    by (simp_all add: radixSorted_def)
  then have "sorted (map morton ?ys)"
    and "mset (map morton ?ys) = mset (map morton (take 3 (pointLights unsortedPoints)))"
    by (simp_all only: mset_map)
  then have "sorted (map morton ?ys)" and "mset (map morton ?ys) = mset [5, 1, 4 :: 32 word]"
    by (simp_all only: unsortedPoints_facts(11))
  then have "sort [5, 1, 4 :: 32 word] = map morton ?ys"
    by (intro properties_for_sort) simp_all
  moreover have "sort [5, 1, 4 :: 32 word] = [1, 4, 5]" by (simp add: word_le_nat_alt)
  ultimately have keys: "map morton ?ys = [1, 4, 5]" by simp
  have srt: "sorted (map morton (take 3 (pointLights sortedPoints)))"
    by (simp add: sortedPoints_facts)
  have "radixSorted morton 3 (pointLights sortedPoints) (pointLights (sortLights sortedPoints))"
    using sortLights_sorts [OF hyps'] by (simp add: sortedPoints_facts)
  then have same: "pointLights (sortLights sortedPoints) = pointLights sortedPoints"
    using srt by (simp add: radixSorted_def)
  show ?thesis using hyps keys srt same unsortedPoints_facts(11) by simp
qed

subsection \<open>What each block of the animation functions leaves alone\<close>

lemma pointReset_frame [simp]:
  "baseWorldPos (pointReset l) = baseWorldPos l"
  "viewPos (pointReset l) = viewPos l"
  "anim (pointReset l) = anim l"
  "decay (pointReset l) = decay l"
  "morton (pointReset l) = morton l"
  "dirty (pointReset l) = dirty l"
  "visible (pointReset l) = visible l"
  "lodLevel (pointReset l) = lodLevel l"
  "castsShadow (pointReset l) = castsShadow l"
  "shadowIntensity (pointReset l) = shadowIntensity l"
  "baseColor (pointReset l) = baseColor l"
  by (simp_all add: pointReset_def Let_def)

lemma animCircular_frame [simp]:
  "baseWorldPos (animCircular l time) = baseWorldPos l"
  "worldPos (animCircular l time) = worldPos l"
  "color (animCircular l time) = color l"
  "viewPos (animCircular l time) = viewPos l"
  "anim (animCircular l time) = anim l"
  "decay (animCircular l time) = decay l"
  "morton (animCircular l time) = morton l"
  "dirty (animCircular l time) = dirty l"
  "visible (animCircular l time) = visible l"
  "lodLevel (animCircular l time) = lodLevel l"
  "castsShadow (animCircular l time) = castsShadow l"
  "shadowIntensity (animCircular l time) = shadowIntensity l"
  "baseColor (animCircular l time) = baseColor l"
  by (simp_all add: animCircular_def Let_def)

lemma animWave_frame [simp]:
  "baseWorldPos (animWave l time) = baseWorldPos l"
  "worldPos (animWave l time) = worldPos l"
  "color (animWave l time) = color l"
  "viewPos (animWave l time) = viewPos l"
  "anim (animWave l time) = anim l"
  "decay (animWave l time) = decay l"
  "morton (animWave l time) = morton l"
  "dirty (animWave l time) = dirty l"
  "visible (animWave l time) = visible l"
  "lodLevel (animWave l time) = lodLevel l"
  "castsShadow (animWave l time) = castsShadow l"
  "shadowIntensity (animWave l time) = shadowIntensity l"
  "baseColor (animWave l time) = baseColor l"
  by (simp_all add: animWave_def Let_def)

lemma pointFlicker_frame [simp]:
  "baseWorldPos (pointFlicker l time) = baseWorldPos l"
  "animOffset (pointFlicker l time) = animOffset l"
  "worldPos (pointFlicker l time) = worldPos l"
  "viewPos (pointFlicker l time) = viewPos l"
  "anim (pointFlicker l time) = anim l"
  "decay (pointFlicker l time) = decay l"
  "morton (pointFlicker l time) = morton l"
  "dirty (pointFlicker l time) = dirty l"
  "visible (pointFlicker l time) = visible l"
  "lodLevel (pointFlicker l time) = lodLevel l"
  "castsShadow (pointFlicker l time) = castsShadow l"
  "shadowIntensity (pointFlicker l time) = shadowIntensity l"
  "baseColor (pointFlicker l time) = baseColor l"
  by (simp_all add: pointFlicker_def Let_def)

lemma pointPulse_frame [simp]:
  "baseWorldPos (pointPulse l time) = baseWorldPos l"
  "animOffset (pointPulse l time) = animOffset l"
  "viewPos (pointPulse l time) = viewPos l"
  "anim (pointPulse l time) = anim l"
  "decay (pointPulse l time) = decay l"
  "morton (pointPulse l time) = morton l"
  "dirty (pointPulse l time) = dirty l"
  "visible (pointPulse l time) = visible l"
  "lodLevel (pointPulse l time) = lodLevel l"
  "castsShadow (pointPulse l time) = castsShadow l"
  "shadowIntensity (pointPulse l time) = shadowIntensity l"
  "baseColor (pointPulse l time) = baseColor l"
  by (simp_all add: pointPulse_def Let_def)

lemma spotReset_frame [simp]:
  "baseWorldPos (spotReset l) = baseWorldPos l"
  "color (spotReset l) = color l"
  "viewPos (spotReset l) = viewPos l"
  "anim (spotReset l) = anim l"
  "decay (spotReset l) = decay l"
  "morton (spotReset l) = morton l"
  "dirty (spotReset l) = dirty l"
  "visible (spotReset l) = visible l"
  "lodLevel (spotReset l) = lodLevel l"
  "castsShadow (spotReset l) = castsShadow l"
  "shadowIntensity (spotReset l) = shadowIntensity l"
  "viewDir (spotReset l) = viewDir l"
  "baseDir (spotReset l) = baseDir l"
  "angle (spotReset l) = angle l"
  "penumbra (spotReset l) = penumbra l"
  by (simp_all add: spotReset_def Let_def)

lemma spotRotate_frame [simp]:
  "baseWorldPos (spotRotate l time) = baseWorldPos l"
  "animOffset (spotRotate l time) = animOffset l"
  "color (spotRotate l time) = color l"
  "viewPos (spotRotate l time) = viewPos l"
  "anim (spotRotate l time) = anim l"
  "decay (spotRotate l time) = decay l"
  "morton (spotRotate l time) = morton l"
  "dirty (spotRotate l time) = dirty l"
  "visible (spotRotate l time) = visible l"
  "lodLevel (spotRotate l time) = lodLevel l"
  "castsShadow (spotRotate l time) = castsShadow l"
  "shadowIntensity (spotRotate l time) = shadowIntensity l"
  "viewDir (spotRotate l time) = viewDir l"
  "baseDir (spotRotate l time) = baseDir l"
  "angle (spotRotate l time) = angle l"
  "penumbra (spotRotate l time) = penumbra l"
  by (simp_all add: spotRotate_def Let_def)

lemma spotPulse_frame [simp]:
  "baseWorldPos (spotPulse l time) = baseWorldPos l"
  "animOffset (spotPulse l time) = animOffset l"
  "viewPos (spotPulse l time) = viewPos l"
  "anim (spotPulse l time) = anim l"
  "decay (spotPulse l time) = decay l"
  "morton (spotPulse l time) = morton l"
  "dirty (spotPulse l time) = dirty l"
  "visible (spotPulse l time) = visible l"
  "lodLevel (spotPulse l time) = lodLevel l"
  "castsShadow (spotPulse l time) = castsShadow l"
  "shadowIntensity (spotPulse l time) = shadowIntensity l"
  "direction (spotPulse l time) = direction l"
  "viewDir (spotPulse l time) = viewDir l"
  "baseDir (spotPulse l time) = baseDir l"
  "angle (spotPulse l time) = angle l"
  "penumbra (spotPulse l time) = penumbra l"
  by (simp_all add: spotPulse_def Let_def)

lemma rectReset_frame [simp]:
  "baseWorldPos (rectReset l) = baseWorldPos l"
  "color (rectReset l) = color l"
  "viewPos (rectReset l) = viewPos l"
  "anim (rectReset l) = anim l"
  "decay (rectReset l) = decay l"
  "morton (rectReset l) = morton l"
  "dirty (rectReset l) = dirty l"
  "visible (rectReset l) = visible l"
  "lodLevel (rectReset l) = lodLevel l"
  "castsShadow (rectReset l) = castsShadow l"
  "shadowIntensity (rectReset l) = shadowIntensity l"
  "rsize (rectReset l) = rsize l"
  "tangent (rectReset l) = tangent l"
  "bitangent (rectReset l) = bitangent l"
  "viewNormal (rectReset l) = viewNormal l"
  "viewTangent (rectReset l) = viewTangent l"
  "baseNormal (rectReset l) = baseNormal l"
  "baseTangent (rectReset l) = baseTangent l"
  "baseBitangent (rectReset l) = baseBitangent l"
  by (simp_all add: rectReset_def Let_def)

lemma rectRotate_frame [simp]:
  "baseWorldPos (rectRotate l time) = baseWorldPos l"
  "animOffset (rectRotate l time) = animOffset l"
  "worldPos (rectRotate l time) = worldPos l"
  "color (rectRotate l time) = color l"
  "viewPos (rectRotate l time) = viewPos l"
  "anim (rectRotate l time) = anim l"
  "decay (rectRotate l time) = decay l"
  "morton (rectRotate l time) = morton l"
  "dirty (rectRotate l time) = dirty l"
  "visible (rectRotate l time) = visible l"
  "lodLevel (rectRotate l time) = lodLevel l"
  "castsShadow (rectRotate l time) = castsShadow l"
  "shadowIntensity (rectRotate l time) = shadowIntensity l"
  "rsize (rectRotate l time) = rsize l"
  "viewNormal (rectRotate l time) = viewNormal l"
  "viewTangent (rectRotate l time) = viewTangent l"
  "baseNormal (rectRotate l time) = baseNormal l"
  "baseTangent (rectRotate l time) = baseTangent l"
  "baseBitangent (rectRotate l time) = baseBitangent l"
  by (simp_all add: rectRotate_def Let_def)

lemma rectPulse_frame [simp]:
  "baseWorldPos (rectPulse l time) = baseWorldPos l"
  "animOffset (rectPulse l time) = animOffset l"
  "worldPos (rectPulse l time) = worldPos l"
  "viewPos (rectPulse l time) = viewPos l"
  "anim (rectPulse l time) = anim l"
  "decay (rectPulse l time) = decay l"
  "morton (rectPulse l time) = morton l"
  "dirty (rectPulse l time) = dirty l"
  "visible (rectPulse l time) = visible l"
  "lodLevel (rectPulse l time) = lodLevel l"
  "castsShadow (rectPulse l time) = castsShadow l"
  "shadowIntensity (rectPulse l time) = shadowIntensity l"
  "rsize (rectPulse l time) = rsize l"
  "normal (rectPulse l time) = normal l"
  "tangent (rectPulse l time) = tangent l"
  "bitangent (rectPulse l time) = bitangent l"
  "viewNormal (rectPulse l time) = viewNormal l"
  "viewTangent (rectPulse l time) = viewTangent l"
  "baseNormal (rectPulse l time) = baseNormal l"
  "baseTangent (rectPulse l time) = baseTangent l"
  "baseBitangent (rectPulse l time) = baseBitangent l"
  by (simp_all add: rectPulse_def Let_def)

lemma animLinear_frame [simp]:
  "baseWorldPos (animLinear l time) = baseWorldPos l"
  "worldPos (animLinear l time) = worldPos l"
  "color (animLinear l time) = color l"
  "viewPos (animLinear l time) = viewPos l"
  "anim (animLinear l time) = anim l"
  "decay (animLinear l time) = decay l"
  "morton (animLinear l time) = morton l"
  "dirty (animLinear l time) = dirty l"
  "visible (animLinear l time) = visible l"
  "lodLevel (animLinear l time) = lodLevel l"
  "castsShadow (animLinear l time) = castsShadow l"
  "shadowIntensity (animLinear l time) = shadowIntensity l"
  "Light.more (animLinear l time) = Light.more l"
  by (simp_all add: animLinear_def Let_def)

lemma animLinear_frame_PointLight [simp]:
  "baseColor (animLinear (l :: PointLight) time) = baseColor l"
  by (simp_all add: animLinear_def Let_def)

lemma animLinear_frame_SpotLight [simp]:
  "direction (animLinear (l :: SpotLight) time) = direction l"
  "viewDir (animLinear (l :: SpotLight) time) = viewDir l"
  "baseDir (animLinear (l :: SpotLight) time) = baseDir l"
  "angle (animLinear (l :: SpotLight) time) = angle l"
  "penumbra (animLinear (l :: SpotLight) time) = penumbra l"
  by (simp_all add: animLinear_def Let_def)

lemma animLinear_frame_RectLight [simp]:
  "rsize (animLinear (l :: RectLight) time) = rsize l"
  "normal (animLinear (l :: RectLight) time) = normal l"
  "tangent (animLinear (l :: RectLight) time) = tangent l"
  "bitangent (animLinear (l :: RectLight) time) = bitangent l"
  "viewNormal (animLinear (l :: RectLight) time) = viewNormal l"
  "viewTangent (animLinear (l :: RectLight) time) = viewTangent l"
  "baseNormal (animLinear (l :: RectLight) time) = baseNormal l"
  "baseTangent (animLinear (l :: RectLight) time) = baseTangent l"
  "baseBitangent (animLinear (l :: RectLight) time) = baseBitangent l"
  by (simp_all add: animLinear_def Let_def)

lemma applyOffset_frame [simp]:
  "baseWorldPos (applyOffset l) = baseWorldPos l"
  "animOffset (applyOffset l) = animOffset l"
  "color (applyOffset l) = color l"
  "viewPos (applyOffset l) = viewPos l"
  "anim (applyOffset l) = anim l"
  "decay (applyOffset l) = decay l"
  "morton (applyOffset l) = morton l"
  "dirty (applyOffset l) = dirty l"
  "visible (applyOffset l) = visible l"
  "lodLevel (applyOffset l) = lodLevel l"
  "castsShadow (applyOffset l) = castsShadow l"
  "shadowIntensity (applyOffset l) = shadowIntensity l"
  "Light.more (applyOffset l) = Light.more l"
  by (simp_all add: applyOffset_def Let_def)

lemma applyOffset_frame_PointLight [simp]:
  "baseColor (applyOffset (l :: PointLight)) = baseColor l"
  by (simp_all add: applyOffset_def Let_def)

lemma applyOffset_frame_SpotLight [simp]:
  "direction (applyOffset (l :: SpotLight)) = direction l"
  "viewDir (applyOffset (l :: SpotLight)) = viewDir l"
  "baseDir (applyOffset (l :: SpotLight)) = baseDir l"
  "angle (applyOffset (l :: SpotLight)) = angle l"
  "penumbra (applyOffset (l :: SpotLight)) = penumbra l"
  by (simp_all add: applyOffset_def Let_def)

lemma applyOffset_frame_RectLight [simp]:
  "rsize (applyOffset (l :: RectLight)) = rsize l"
  "normal (applyOffset (l :: RectLight)) = normal l"
  "tangent (applyOffset (l :: RectLight)) = tangent l"
  "bitangent (applyOffset (l :: RectLight)) = bitangent l"
  "viewNormal (applyOffset (l :: RectLight)) = viewNormal l"
  "viewTangent (applyOffset (l :: RectLight)) = viewTangent l"
  "baseNormal (applyOffset (l :: RectLight)) = baseNormal l"
  "baseTangent (applyOffset (l :: RectLight)) = baseTangent l"
  "baseBitangent (applyOffset (l :: RectLight)) = baseBitangent l"
  by (simp_all add: applyOffset_def Let_def)

lemma colorFlicker_frame [simp]:
  "baseWorldPos (colorFlicker l time) = baseWorldPos l"
  "animOffset (colorFlicker l time) = animOffset l"
  "worldPos (colorFlicker l time) = worldPos l"
  "viewPos (colorFlicker l time) = viewPos l"
  "anim (colorFlicker l time) = anim l"
  "decay (colorFlicker l time) = decay l"
  "morton (colorFlicker l time) = morton l"
  "dirty (colorFlicker l time) = dirty l"
  "visible (colorFlicker l time) = visible l"
  "lodLevel (colorFlicker l time) = lodLevel l"
  "castsShadow (colorFlicker l time) = castsShadow l"
  "shadowIntensity (colorFlicker l time) = shadowIntensity l"
  "Light.more (colorFlicker l time) = Light.more l"
  by (simp_all add: colorFlicker_def Let_def)

lemma colorFlicker_frame_PointLight [simp]:
  "baseColor (colorFlicker (l :: PointLight) time) = baseColor l"
  by (simp_all add: colorFlicker_def Let_def)

lemma colorFlicker_frame_SpotLight [simp]:
  "direction (colorFlicker (l :: SpotLight) time) = direction l"
  "viewDir (colorFlicker (l :: SpotLight) time) = viewDir l"
  "baseDir (colorFlicker (l :: SpotLight) time) = baseDir l"
  "angle (colorFlicker (l :: SpotLight) time) = angle l"
  "penumbra (colorFlicker (l :: SpotLight) time) = penumbra l"
  by (simp_all add: colorFlicker_def Let_def)

lemma colorFlicker_frame_RectLight [simp]:
  "rsize (colorFlicker (l :: RectLight) time) = rsize l"
  "normal (colorFlicker (l :: RectLight) time) = normal l"
  "tangent (colorFlicker (l :: RectLight) time) = tangent l"
  "bitangent (colorFlicker (l :: RectLight) time) = bitangent l"
  "viewNormal (colorFlicker (l :: RectLight) time) = viewNormal l"
  "viewTangent (colorFlicker (l :: RectLight) time) = viewTangent l"
  "baseNormal (colorFlicker (l :: RectLight) time) = baseNormal l"
  "baseTangent (colorFlicker (l :: RectLight) time) = baseTangent l"
  "baseBitangent (colorFlicker (l :: RectLight) time) = baseBitangent l"
  by (simp_all add: colorFlicker_def Let_def)

lemma flag_bits:
  "(0x18 :: 32 word) AND ANIM_FLICKER \<noteq> 0" "(0x18 :: 32 word) AND ANIM_PULSE \<noteq> 0"
  "(0x18 :: 32 word) AND ANIM_CIRCULAR = 0" "(0x18 :: 32 word) AND ANIM_LINEAR = 0"
  "(0x18 :: 32 word) AND ANIM_WAVE = 0" "(0x18 :: 32 word) \<noteq> ANIM_NONE"
  "(0x10 :: 32 word) AND ANIM_PULSE \<noteq> 0" "(0x10 :: 32 word) AND ANIM_FLICKER = 0"
  "(0x10 :: 32 word) AND ANIM_LINEAR = 0" "(0x10 :: 32 word) AND ANIM_ROTATE = 0"
  "(0x10 :: 32 word) \<noteq> ANIM_NONE"
  "(0x06 :: 32 word) AND ANIM_LINEAR \<noteq> 0" "(0x06 :: 32 word) AND ANIM_WAVE \<noteq> 0"
  "(0x06 :: 32 word) AND ANIM_CIRCULAR = 0" "(0x06 :: 32 word) AND ANIM_FLICKER = 0"
  "(0x06 :: 32 word) AND ANIM_PULSE = 0" "(0x06 :: 32 word) \<noteq> ANIM_NONE"
  "(0x02 :: 32 word) AND ANIM_LINEAR \<noteq> 0" "(0x02 :: 32 word) AND ANIM_WAVE = 0"
  "(0x02 :: 32 word) AND ANIM_CIRCULAR = 0" "(0x02 :: 32 word) AND ANIM_FLICKER = 0"
  "(0x02 :: 32 word) AND ANIM_PULSE = 0" "(0x02 :: 32 word) AND ANIM_ROTATE = 0"
  "(0x02 :: 32 word) \<noteq> ANIM_NONE"
  "(1 :: 8 word) AND PULSE_INTENSITY \<noteq> 0" "(1 :: 8 word) AND PULSE_RADIUS = 0"
  by (simp_all add: anim_consts)

lemma flag_not_none: "fl AND b \<noteq> 0 \<Longrightarrow> fl \<noteq> ANIM_NONE"
  by (auto simp: ANIM_NONE_def)

subsection \<open>Flicker then pulse on a point light\<close>

lemma flickerPulseLight_fields:
  "flags (anim flickerPulseLight) = 0x18"
  "flicker (anim flickerPulseLight) = \<lparr>flk_speed = 0, flk_intensity = 1, flk_seed = 0.25\<rparr>"
  "pulse (anim flickerPulseLight) = \<lparr>pulse_speed = 1, pulse_amount = 1, pulse_target = 1\<rparr>"
  "baseColor flickerPulseLight = mkVec4 1 1 1 1"
  by (simp_all add: flickerPulseLight_def flickerPulsePoint_def addPointWithAnimation_def
      initState_def Let_def flag_bits)

lemma point_pulse_intensity:
  assumes "flags (anim l) AND ANIM_PULSE \<noteq> 0"
    and "pulse_target (pulse (anim l)) AND PULSE_INTENSITY \<noteq> 0"
  shows "vw (color (processPointLightAnimation l time)) = vw (baseColor l) * pulseValue (pulse (anim l)) time"
proof -
  have "vw (color (pointPulse m time)) = vw (baseColor m) * pulseValue (pulse (anim m)) time"
    if "flags (anim m) AND ANIM_PULSE \<noteq> 0" "pulse_target (pulse (anim m)) AND PULSE_INTENSITY \<noteq> 0" for m
    using that by (simp add: pointPulse_def Let_def)
  then show ?thesis
    using assms flag_not_none [OF assms(1)]
    by (simp add: processPointLightAnimation_def Let_def)
qed

lemma flicker_sample: "1 < flickerValue \<lparr>flk_speed = 0, flk_intensity = 1, flk_seed = 0.25\<rparr> 0"
  and flicker_sample_le: "flickerValue \<lparr>flk_speed = 0, flk_intensity = 1, flk_seed = 0.25\<rparr> 0 \<le> 2"
proof -
  have s: "0 < sin (0.25 :: real)" by (rule sin_gt_zero_02) simp_all
  have "(0.575 :: real) < pi / 2" using pi_ge_two by simp
  then have c: "0 < cos (0.575 :: real)" by (intro cos_gt_zero) simp_all
  have "0 < sin (0.25 :: real) * cos (0.575 :: real)" using s c by simp
  then show "1 < flickerValue \<lparr>flk_speed = 0, flk_intensity = 1, flk_seed = 0.25\<rparr> 0"
    by (simp add: flickerValue_def)
  have "sin (0.25 :: real) * cos (0.575 :: real) \<le> 1 * 1"
    using s c by (intro mult_mono) simp_all
  then show "flickerValue \<lparr>flk_speed = 0, flk_intensity = 1, flk_seed = 0.25\<rparr> 0 \<le> 2"
    by (simp add: flickerValue_def)
qed

text \<open>
  Claim C6, evaluated at a point light with Flicker and Pulse on the intensity, at
  \<open>time = 0\<close>: the intensity after the animation is the authored intensity times the pulse
  multiplier (here 1); the value that the claim states, authored intensity times the clamped
  flicker factor times the pulse multiplier, is larger than 1.
\<close>

theorem point_pulse_replaces_flicker:
  "flags (anim flickerPulseLight) AND ANIM_FLICKER \<noteq> 0 \<and>
   flags (anim flickerPulseLight) AND ANIM_PULSE \<noteq> 0 \<and>
   pulse_target (pulse (anim flickerPulseLight)) AND PULSE_INTENSITY \<noteq> 0 \<and>
   vw (color (processPointLightAnimation flickerPulseLight 0)) = 1 \<and>
   vw (baseColor flickerPulseLight)
     * clampf (flickerValue (flicker (anim flickerPulseLight)) 0) 0.1 2.0
     * pulseValue (pulse (anim flickerPulseLight)) 0 > 1"
proof -
  have "vw (color (processPointLightAnimation flickerPulseLight 0)) = 1"
    by (subst point_pulse_intensity)
       (simp_all add: flickerPulseLight_fields flag_bits pulseValue_def mkVec4_def)
  moreover have "clampf (flickerValue (flicker (anim flickerPulseLight)) 0) 0.1 2.0 > 1"
    using flicker_sample flicker_sample_le
    by (simp add: flickerPulseLight_fields clampf_def)
  ultimately show ?thesis
    by (simp add: flickerPulseLight_fields flag_bits pulseValue_def mkVec4_def)
qed

subsection \<open>Evaluating the animation of a spot light twice\<close>

lemma pulsingSpotLight_fields:
  "flags (anim pulsingSpotLight) = 0x10"
  "pulse (anim pulsingSpotLight) = \<lparr>pulse_speed = 1, pulse_amount = 1, pulse_target = 1\<rparr>"
  "color pulsingSpotLight = mkVec4 1 1 1 1"
  by (simp_all add: pulsingSpotLight_def pulsingSpot_def addSpotWithAnimation_def
      setupSpotRectAnim_def initState_def Let_def flag_bits)

lemma spot_pulse_only:
  assumes "flags (anim l) = 0x10"
    and "pulse_target (pulse (anim l)) = 1"
  shows "color (processSpotLightAnimation l time) =
         (color l)\<lparr>vw := vw (color l) * pulseValue (pulse (anim l)) time\<rparr>"
    and "anim (processSpotLightAnimation l time) = anim l"
  using assms
  by (simp_all add: processSpotLightAnimation_def Let_def flag_bits spotPulse_def colorFlicker_def)

text \<open>
  Claim C2, evaluated at a spot light with Pulse on the intensity, at \<open>time = 1\<close>: the
  second evaluation with the same time multiplies the intensity again.
\<close>

theorem spot_animation_accumulates:
  "vw (color (processSpotLightAnimation pulsingSpotLight 1)) = 1 + sin 1 \<and>
   vw (color (processSpotLightAnimation (processSpotLightAnimation pulsingSpotLight 1) 1))
     = (1 + sin 1) * (1 + sin 1) \<and>
   vw (color (processSpotLightAnimation (processSpotLightAnimation pulsingSpotLight 1) 1))
     \<noteq> vw (color (processSpotLightAnimation pulsingSpotLight 1))"
proof -
  have s: "0 < sin (1 :: real)" by (rule sin_gt_zero_02) simp_all
  have one: "color (processSpotLightAnimation pulsingSpotLight 1) = mkVec4 1 1 1 (1 + sin 1)"
    by (subst spot_pulse_only)
       (simp_all add: pulsingSpotLight_fields pulseValue_def mkVec4_def)
  have two: "color (processSpotLightAnimation (processSpotLightAnimation pulsingSpotLight 1) 1) =
             mkVec4 1 1 1 ((1 + sin 1) * (1 + sin 1))"
    by (subst spot_pulse_only)
       (simp_all add: spot_pulse_only(2) one pulsingSpotLight_fields pulseValue_def mkVec4_def)
  have "(1 + sin (1::real)) * (1 + sin 1) \<noteq> 1 + sin 1"
    using s by simp
  then show ?thesis by (simp add: one two mkVec4_def)
qed

subsection \<open>The Linear block\<close>

lemma vec4_upd_xyz: "v\<lparr>vx := a, vy := b, vz := c\<rparr> = \<lparr>vx = a, vy = b, vz = c, vw = vw v\<rparr>"
  by (cases v) simp

lemma linear_t_at_delay: "linear_t lp (lin_delay lp) = 0"
  by (simp add: linear_t_def fmodf_def truncf_def clampf_def Let_def)

lemma linear_t_once_end:
  "0 < lin_duration lp \<Longrightarrow> lin_mode lp = LINEAR_ONCE \<Longrightarrow>
   linear_t lp (lin_delay lp + lin_duration lp) = 1"
  by (simp add: linear_t_def clampf_def Let_def anim_consts)

lemma linear_t_loop_end:
  "0 < lin_duration lp \<Longrightarrow> lin_mode lp = LINEAR_LOOP \<Longrightarrow>
   linear_t lp (lin_delay lp + lin_duration lp) = 0"
  by (simp add: linear_t_def fmodf_def truncf_def Let_def)

lemma animLinear_offset:
  assumes "flags (anim l) AND ANIM_LINEAR \<noteq> 0"
    and "lin_delay (linear_params (anim l)) \<le> time"
  shows "animOffset (animLinear l time) =
    \<lparr>vx = lerpf 0 (vx (lin_targetPos (linear_params (anim l))) - vx (baseWorldPos l))
            (linear_t (linear_params (anim l)) time),
     vy = lerpf 0 (vy (lin_targetPos (linear_params (anim l))) - vy (baseWorldPos l))
            (linear_t (linear_params (anim l)) time),
     vz = lerpf 0 (vz (lin_targetPos (linear_params (anim l))) - vz (baseWorldPos l))
            (linear_t (linear_params (anim l)) time),
     vw = vw (animOffset l)\<rparr>"
  using assms by (simp add: animLinear_def Let_def vec4_upd_xyz)

lemma animLinear_endpoints:
  assumes "flags (anim l) AND ANIM_LINEAR \<noteq> 0"
    and "0 < lin_duration (linear_params (anim l))"
    and "vw (animOffset l) = 0"
  shows "animOffset (animLinear l (lin_delay (linear_params (anim l)))) = mkVec4 0 0 0 0"
    and "lin_mode (linear_params (anim l)) = LINEAR_ONCE \<Longrightarrow>
         animOffset (animLinear l (lin_delay (linear_params (anim l)) + lin_duration (linear_params (anim l)))) =
         mkVec4 (vx (lin_targetPos (linear_params (anim l))) - vx (baseWorldPos l))
                (vy (lin_targetPos (linear_params (anim l))) - vy (baseWorldPos l))
                (vz (lin_targetPos (linear_params (anim l))) - vz (baseWorldPos l)) 0"
    and "lin_mode (linear_params (anim l)) = LINEAR_LOOP \<Longrightarrow>
         animOffset (animLinear l (lin_delay (linear_params (anim l)) + lin_duration (linear_params (anim l)))) =
         mkVec4 0 0 0 0"
  using assms
  by (simp_all add: animLinear_offset linear_t_at_delay linear_t_once_end linear_t_loop_end
      lerpf_def mkVec4_def)

lemma animCircular_offset_w [simp]: "vw (animOffset (animCircular l time)) = vw (animOffset l)"
  by (simp add: animCircular_def Let_def)

lemma animCircular_linear [simp]:
  "linear_params (anim (animCircular l time)) = linear_params (anim l)"
  by simp

lemma point_offset_linear:
  assumes "flags (anim l) AND ANIM_LINEAR \<noteq> 0" and "flags (anim l) AND ANIM_WAVE = 0"
  shows "animOffset (processPointLightAnimation l time) =
         animOffset (animLinear (animCircular (pointReset l) time) time)"
  using assms flag_not_none [OF assms(1)]
  by (simp add: processPointLightAnimation_def Let_def animWave_def)

lemma spot_offset_linear:
  assumes "flags (anim l) AND ANIM_LINEAR \<noteq> 0"
  shows "animOffset (processSpotLightAnimation l time) = animOffset (animLinear (spotReset l) time)"
  using assms flag_not_none [OF assms(1)]
  by (simp add: processSpotLightAnimation_def Let_def)

lemma rect_offset_linear:
  assumes "flags (anim l) AND ANIM_LINEAR \<noteq> 0"
  shows "animOffset (processRectLightAnimation l time) = animOffset (animLinear (rectReset l) time)"
  using assms flag_not_none [OF assms(1)]
  by (simp add: processRectLightAnimation_def Let_def)

lemma reset_offset [simp]:
  "animOffset (pointReset p) = mkVec4 0 0 0 0"
  "animOffset (spotReset sl) = mkVec4 0 0 0 0"
  "animOffset (rectReset r) = mkVec4 0 0 0 0"
  by (simp_all add: pointReset_def spotReset_def rectReset_def)

lemma linearEndpoints_point:
  assumes "flags (anim p) AND ANIM_LINEAR \<noteq> 0"
    and "0 < lin_duration (linear_params (anim p))"
    and "flags (anim p) AND ANIM_WAVE = 0"
  shows "linearEndpoints p (processPointLightAnimation p)"
proof -
  let ?m = "\<lambda>t. animCircular (pointReset p) t"
  have m: "flags (anim (?m t)) AND ANIM_LINEAR \<noteq> 0" "0 < lin_duration (linear_params (anim (?m t)))"
    "vw (animOffset (?m t)) = 0" for t
    using assms by (simp_all add: mkVec4_def)
  show ?thesis
    unfolding linearEndpoints_def Let_def point_offset_linear [OF assms(1,3)]
    using animLinear_endpoints [OF m, of "lin_delay (linear_params (anim p))"]
          animLinear_endpoints [OF m, of "lin_delay (linear_params (anim p)) + lin_duration (linear_params (anim p))"]
    by simp
qed

lemma linearEndpoints_spot:
  assumes "flags (anim sl) AND ANIM_LINEAR \<noteq> 0"
    and "0 < lin_duration (linear_params (anim sl))"
  shows "linearEndpoints sl (processSpotLightAnimation sl)"
proof -
  have m: "flags (anim (spotReset sl)) AND ANIM_LINEAR \<noteq> 0"
    "0 < lin_duration (linear_params (anim (spotReset sl)))"
    "vw (animOffset (spotReset sl)) = 0"
    using assms by (simp_all add: mkVec4_def)
  show ?thesis
    unfolding linearEndpoints_def Let_def spot_offset_linear [OF assms(1)]
    using animLinear_endpoints [OF m] by simp
qed

lemma linearEndpoints_rect:
  assumes "flags (anim r) AND ANIM_LINEAR \<noteq> 0"
    and "0 < lin_duration (linear_params (anim r))"
  shows "linearEndpoints r (processRectLightAnimation r)"
proof -
  have m: "flags (anim (rectReset r)) AND ANIM_LINEAR \<noteq> 0"
    "0 < lin_duration (linear_params (anim (rectReset r)))"
    "vw (animOffset (rectReset r)) = 0"
    using assms by (simp_all add: mkVec4_def)
  show ?thesis
    unfolding linearEndpoints_def Let_def rect_offset_linear [OF assms(1)]
    using animLinear_endpoints [OF m] by simp
qed

text \<open>
  Claim C7, amended. For every spot light and every rect light with Linear animation and
  positive duration, and for every point light with Linear animation, positive duration
  and no Wave effect: at \<open>time = delay\<close> the positional offset is zero; at
  \<open>time = delay + duration\<close> with mode Once it is \<open>targetPos - baseWorldPos\<close>; with mode Loop
  the offset at \<open>time = delay + duration\<close> equals the offset at \<open>time = delay\<close>.
\<close>

theorem linear_animation_endpoints:
  fixes p :: PointLight and sl :: SpotLight and r :: RectLight
  assumes "flags (anim p) AND ANIM_LINEAR \<noteq> 0"
    and "0 < lin_duration (linear_params (anim p))"
    and "flags (anim p) AND ANIM_WAVE = 0"
    and "flags (anim sl) AND ANIM_LINEAR \<noteq> 0"
    and "0 < lin_duration (linear_params (anim sl))"
    and "flags (anim r) AND ANIM_LINEAR \<noteq> 0"
    and "0 < lin_duration (linear_params (anim r))"
  shows "linearEndpoints p (processPointLightAnimation p) \<and>
         linearEndpoints sl (processSpotLightAnimation sl) \<and>
         linearEndpoints r (processRectLightAnimation r)"
  using assms by (intro conjI linearEndpoints_point linearEndpoints_spot linearEndpoints_rect)

lemma linearWaveLight_fields:
  "flags (anim linearWaveLight) = 0x06"
  "linear_params (anim linearWaveLight) =
     \<lparr>lin_targetPos = mkVec4 10 0 0 0, lin_duration = 2, lin_delay = 0, lin_mode = 0\<rparr>"
  "wave (anim linearWaveLight) =
     \<lparr>wave_axis = mkVec4 1 0 0 0, wave_speed = 0, wave_amplitude = 1, wave_phase = 1\<rparr>"
  "baseWorldPos linearWaveLight = mkVec4 0 0 0 5"
  by (simp_all add: linearWaveLight_def linearWavePoint_def addPointWithAnimation_def
      initState_def Let_def flag_bits normalizeAxis_def mkVec4_def)

text \<open>
  Claim C7 as stated fails for a point light with Linear and Wave: at \<open>time = delay\<close>
  the offset is the wave term.
\<close>

theorem linear_with_wave_counterexample:
  "flags (anim linearWaveLight) AND ANIM_LINEAR \<noteq> 0 \<and>
   0 < lin_duration (linear_params (anim linearWaveLight)) \<and>
   lin_delay (linear_params (anim linearWaveLight)) = 0 \<and>
   animOffset (processPointLightAnimation linearWaveLight 0) = mkVec4 (sin 1) 0 0 0 \<and>
   animOffset (processPointLightAnimation linearWaveLight 0) \<noteq> mkVec4 0 0 0 0"
proof -
  have s: "0 < sin (1 :: real)" by (rule sin_gt_zero_02) simp_all
  have t0: "linear_t \<lparr>lin_targetPos = tp, lin_duration = 2, lin_delay = 0, lin_mode = 0\<rparr> 0 = 0" for tp
    using linear_t_at_delay [of "\<lparr>lin_targetPos = tp, lin_duration = 2, lin_delay = 0, lin_mode = 0\<rparr>"]
    by simp
  have lin: "animOffset (animLinear (animCircular (pointReset linearWaveLight) 0) 0) = mkVec4 0 0 0 0"
    by (subst animLinear_offset)
       (simp_all add: linearWaveLight_fields flag_bits t0 lerpf_def mkVec4_def)
  have "animOffset (processPointLightAnimation linearWaveLight 0) = mkVec4 (sin 1) 0 0 0"
    by (simp add: processPointLightAnimation_def Let_def linearWaveLight_fields flag_bits
        animWave_def lin mkVec4_def)
  then show ?thesis using s by (simp add: linearWaveLight_fields flag_bits mkVec4_def)
qed

lemma linear_lights_fields:
  "flags (anim linearPointLight) = 0x02"
  "lin_duration (linear_params (anim linearPointLight)) = 2"
  "flags (anim linearSpotLight) = 0x02"
  "lin_duration (linear_params (anim linearSpotLight)) = 2"
  "flags (anim linearRectLight) = 0x02"
  "lin_duration (linear_params (anim linearRectLight)) = 2"
  by (simp_all add: linearPointLight_def linearPoint_def addPointWithAnimation_def
      linearSpotLight_def linearSpot_def addSpotWithAnimation_def
      linearRectLight_def linearRect_def addRectWithAnimation_def setupSpotRectAnim_def
      initState_def Let_def flag_bits)

lemma linear_lights_params:
  "linear_params (anim linearPointLight) =
     \<lparr>lin_targetPos = mkVec4 10 0 0 0, lin_duration = 2, lin_delay = 0, lin_mode = LINEAR_ONCE\<rparr>"
  "baseWorldPos linearPointLight = mkVec4 0 0 0 5"
  "linear_params (anim linearSpotLight) =
     \<lparr>lin_targetPos = mkVec4 10 0 0 0, lin_duration = 2, lin_delay = 0, lin_mode = LINEAR_ONCE\<rparr>"
  "baseWorldPos linearSpotLight = mkVec4 0 0 0 5"
  "linear_params (anim linearRectLight) =
     \<lparr>lin_targetPos = mkVec4 10 0 0 0, lin_duration = 2, lin_delay = 0, lin_mode = LINEAR_LOOP\<rparr>"
  by (simp_all add: linearPointLight_def linearPoint_def addPointWithAnimation_def
      linearSpotLight_def linearSpot_def addSpotWithAnimation_def
      linearRectLight_def linearRect_def addRectWithAnimation_def setupSpotRectAnim_def
      initState_def Let_def flag_bits mkVec4_def anim_consts)

theorem linear_animation_endpoints_witness:
  "flags (anim linearPointLight) AND ANIM_LINEAR \<noteq> 0 \<and>
   0 < lin_duration (linear_params (anim linearPointLight)) \<and>
   flags (anim linearPointLight) AND ANIM_WAVE = 0 \<and>
   flags (anim linearSpotLight) AND ANIM_LINEAR \<noteq> 0 \<and>
   0 < lin_duration (linear_params (anim linearSpotLight)) \<and>
   flags (anim linearRectLight) AND ANIM_LINEAR \<noteq> 0 \<and>
   0 < lin_duration (linear_params (anim linearRectLight)) \<and>
   animOffset (processPointLightAnimation linearPointLight 0) = mkVec4 0 0 0 0 \<and>
   animOffset (processPointLightAnimation linearPointLight 2) = mkVec4 10 0 0 0 \<and>
   animOffset (processSpotLightAnimation linearSpotLight 0) = mkVec4 0 0 0 0 \<and>
   animOffset (processSpotLightAnimation linearSpotLight 2) = mkVec4 10 0 0 0 \<and>
   animOffset (processRectLightAnimation linearRectLight 0) = mkVec4 0 0 0 0 \<and>
   animOffset (processRectLightAnimation linearRectLight 2) =
     animOffset (processRectLightAnimation linearRectLight 0)"
  using linear_animation_endpoints [of linearPointLight linearSpotLight linearRectLight]
  by (simp add: linear_lights_fields linear_lights_params flag_bits linearEndpoints_def Let_def
      mkVec4_def anim_consts)

subsection \<open>Culling\<close>

lemma upt_0_1: "[0..<nat 1] = [0]"
  by simp

lemma nearBoundaryPoint_update:
  "viewPos (pointLights (update False 0 nearBoundaryPoint) ! 0) = mkVec4 0 0 4.9 5"
  "worldPos (pointLights (update False 0 nearBoundaryPoint) ! 0) = mkVec4 0 0 4.9 5"
  "viewNear (update False 0 nearBoundaryPoint) = 0.1"
  "viewFar (update False 0 nearBoundaryPoint) = 1000"
  "visible (pointLights (update False 0 nearBoundaryPoint) ! 0) = 1"
  "vw (p_colorDecayVisible (pointLightTexture (update False 0 nearBoundaryPoint) ! 0)) = 213"
  by (simp_all add: nearBoundaryPoint_def add_def initState_def Let_def update_def
      cacheViewMatrix_def updatePoints_def updatePointScalar_def pointViewed_def pointAnimated_def
      worldToView_def calculateLOD_def mkVec4_def anim_consts
      pointTexel_def culledFlag_def visibleAndNotCulled_def packLightParams_def
      LOD_FULL_def LOD_SKIP_DISTANCE_def LOD_SIMPLE_DISTANCE_def LOD_MEDIUM_DISTANCE_def)

text \<open>
  Claim C5 as stated fails: the light of \<open>nearBoundaryPoint\<close> has \<open>viewZ = radius - near\<close>
  after the update, it is not culled, and its packed value is 213 (visible), not 203.
\<close>

theorem near_boundary_not_culled:
  "vz (viewPos (pointLights (update False 0 nearBoundaryPoint) ! 0)) =
     vw (worldPos (pointLights (update False 0 nearBoundaryPoint) ! 0))
       - viewNear (update False 0 nearBoundaryPoint) \<and>
   culledFlag (update False 0 nearBoundaryPoint)
     (pointLights (update False 0 nearBoundaryPoint) ! 0) = 0 \<and>
   vw (p_colorDecayVisible (pointLightTexture (update False 0 nearBoundaryPoint) ! 0)) = 213 \<and>
   packLightParams 2 1 LOD_FULL = 213 \<and> packLightParams 2 0 LOD_FULL = 203"
  by (simp add: nearBoundaryPoint_update culledFlag_def mkVec4_def packLightParams_def LOD_FULL_def)

subsection \<open>Frame updates leave the authored position and the key alone\<close>

lemma process_static [simp]:
  "staticFields (processPointLightAnimation p time) = staticFields p"
  "staticFields (processSpotLightAnimation sl time) = staticFields sl"
  "staticFields (processRectLightAnimation r time) = staticFields r"
  by (simp_all add: staticFields_def processPointLightAnimation_def processSpotLightAnimation_def
      processRectLightAnimation_def Let_def)

lemma step_static [simp]:
  "staticFields (pointAnimated p time) = staticFields p"
  "staticFields (pointViewed s p) = staticFields p"
  "staticFields (simdViewed s p) = staticFields p"
  "staticFields (spotViewed s time sl) = staticFields sl"
  "staticFields (rectViewed s time r) = staticFields r"
  "staticFields (l\<lparr>dirty := d\<rparr>) = staticFields l"
  "staticFields (l\<lparr>worldPos := w\<rparr>) = staticFields l"
proof -
  show "staticFields (pointAnimated p time) = staticFields p"
    using process_static(1) [of p time] by (simp add: pointAnimated_def staticFields_def)
  show "staticFields (pointViewed s p) = staticFields p"
    by (simp add: pointViewed_def Let_def staticFields_def)
  show "staticFields (simdViewed s p) = staticFields p"
    by (simp add: simdViewed_def Let_def staticFields_def)
  show "staticFields (spotViewed s time sl) = staticFields sl"
    using process_static(2) [of sl time] by (simp add: spotViewed_def Let_def staticFields_def)
  show "staticFields (rectViewed s time r) = staticFields r"
    using process_static(3) [of r time] by (simp add: rectViewed_def Let_def staticFields_def)
  show "staticFields (l\<lparr>dirty := d\<rparr>) = staticFields l" by (simp add: staticFields_def)
  show "staticFields (l\<lparr>worldPos := w\<rparr>) = staticFields l" by (simp add: staticFields_def)
qed

lemma map_list_update_same:
  assumes "map f ys = map f xs" and "f v = f (xs ! i)"
  shows "map f (ys[i := v]) = map f xs"
proof (cases "i < length xs")
  case True
  have "map f (ys[i := v]) = (map f xs)[i := f (xs ! i)]"
    using assms by (simp add: map_update)
  also have "\<dots> = map f xs"
    using True by (simp add: list_update_same_conv)
  finally show ?thesis .
next
  case False
  moreover have "length ys = length xs" using assms(1) by (rule map_eq_imp_length_eq)
  ultimately have "length ys \<le> i" by linarith
  then have "ys[i := v] = ys" by (rule list_update_beyond)
  then show ?thesis by (simp only: assms(1))
qed

lemma fold_preserves:
  assumes "\<And>x s. P (f x s) = P s"
  shows "P (fold f xs s) = P s"
  using assms by (induction xs arbitrary: s) simp_all

lemma updatePointScalar_static [simp]: "staticView (updatePointScalar time i s) = staticView s"
  by (simp add: staticView_def updatePointScalar_def Let_def map_list_update_same [OF refl])

lemma updateSpotScalar_static [simp]: "staticView (updateSpotScalar time i s) = staticView s"
  by (simp add: staticView_def updateSpotScalar_def Let_def map_list_update_same [OF refl])

lemma updateRectScalar_static [simp]: "staticView (updateRectScalar time i s) = staticView s"
  by (simp add: staticView_def updateRectScalar_def Let_def map_list_update_same [OF refl])

lemma simdBatch_static [simp]: "staticView (simdBatch time i s) = staticView s"
  unfolding staticView_def simdBatch_def Let_def
  by (simp, intro conjI impI map_list_update_same refl) simp_all

lemma simdLoop_static: "staticView (snd (simdLoop time n i s)) = staticView s"
proof (induction time n i s rule: simdLoop.induct)
  case (1 time n i s)
  show ?case
  proof (cases "i + 3 < n")
    case True
    then show ?thesis using 1 by (subst simdLoop.simps) simp
  next
    case False
    then show ?thesis by (subst simdLoop.simps) simp
  qed
qed

lemma updatePoints_static [simp]: "staticView (updatePoints simd time s) = staticView s"
proof (cases simd)
  case True
  obtain i s1 where l: "simdLoop time (nat (pointLightCount s)) 0 s = (i, s1)"
    by (cases "simdLoop time (nat (pointLightCount s)) 0 s")
  have "staticView s1 = staticView s"
    using simdLoop_static [of time "nat (pointLightCount s)" 0 s] l by simp
  then show ?thesis
    using True l by (simp add: updatePoints_def updatePointLightsSIMD_def fold_preserves)
next
  case False
  then show ?thesis by (simp add: updatePoints_def fold_preserves)
qed

lemma updateSpots_static [simp]: "staticView (updateSpots time s) = staticView s"
  by (simp add: updateSpots_def fold_preserves)

lemma updateRects_static [simp]: "staticView (updateRects time s) = staticView s"
  by (simp add: updateRects_def fold_preserves)

lemma cacheViewMatrix_static [simp]: "staticView (cacheViewMatrix s) = staticView s"
  by (simp add: cacheViewMatrix_def staticView_def Let_def)

lemma update_static: "staticView (update simd time s) = staticView s"
  by (simp add: update_def Let_def)

text \<open>
  Claim C3. Whatever the animation flags, the build and the sequence of times, frame
  updates leave \<^verbatim>\<open>baseWorldPos\<close> and \<^verbatim>\<open>morton\<close> of every slot of the three arrays as they
  were. Of the property setters, the position setter alone recomputes the key, from the new
  \<open>x\<close> and \<open>z\<close>; the radius setter changes only the fourth component of the authored
  position, and the colour and intensity setters change neither field.
\<close>

theorem frames_keep_base_position_and_key:
  "staticView (fold (update simd) ts s) = staticView s \<and>
   staticFields (UPDATE_POSITION px py pz l) =
     ((baseWorldPos l)\<lparr>vx := px, vy := py, vz := pz\<rparr>, computeMorton px pz) \<and>
   staticFields (UPDATE_RADIUS radius l) = ((baseWorldPos l)\<lparr>vw := radius\<rparr>, morton l) \<and>
   staticFields (UPDATE_COLOR r g b l) = staticFields l \<and>
   staticFields (UPDATE_INTENSITY intensity l) = staticFields l"
proof -
  have "staticView (fold (update simd) ts s) = staticView s"
    by (rule fold_preserves) (rule update_static)
  then show ?thesis
    by (simp add: staticFields_def UPDATE_POSITION_def UPDATE_RADIUS_def UPDATE_COLOR_def
        UPDATE_INTENSITY_def)
qed

subsection \<open>Every live record is written\<close>

lemma texel_dirty [simp]:
  "pointTexel (p\<lparr>dirty := d\<rparr>) c = pointTexel p c"
  "spotTexel (sl\<lparr>dirty := d\<rparr>) c = spotTexel sl c"
  "rectTexel (r\<lparr>dirty := d\<rparr>) c = rectTexel r c"
  by (simp_all add: pointTexel_def spotTexel_def rectTexel_def visibleAndNotCulled_def)

lemma culledFlag_dirty [simp]: "culledFlag s (l\<lparr>dirty := d\<rparr>) = culledFlag s l"
  by (simp add: culledFlag_def)

lemma culledFlag_cong:
  "viewNear s = viewNear s' \<Longrightarrow> viewFar s = viewFar s' \<Longrightarrow> culledFlag s l = culledFlag s' l"
  by (simp add: culledFlag_def)

lemma recordWritten_cong:
  "(pointLights s, pointLightTexture s, viewNear s, viewFar s) =
   (pointLights s', pointLightTexture s', viewNear s', viewFar s') \<Longrightarrow>
   pointRecordWritten s i = pointRecordWritten s' i"
  "(spotLights s, spotLightTexture s, viewNear s, viewFar s) =
   (spotLights s', spotLightTexture s', viewNear s', viewFar s') \<Longrightarrow>
   spotRecordWritten s i = spotRecordWritten s' i"
  "(rectLights s, rectLightTexture s, viewNear s, viewFar s) =
   (rectLights s', rectLightTexture s', viewNear s', viewFar s') \<Longrightarrow>
   rectRecordWritten s i = rectRecordWritten s' i"
  by (simp_all add: pointRecordWritten_def spotRecordWritten_def rectRecordWritten_def culledFlag_def)

text \<open>What a step on one kind leaves alone: the globals and the arrays of the other kinds.\<close>

lemma updatePointScalar_others:
  "(spotLights (updatePointScalar time i s), spotLightTexture (updatePointScalar time i s),
    rectLights (updatePointScalar time i s), rectLightTexture (updatePointScalar time i s),
    pointLightCount (updatePointScalar time i s), spotLightCount (updatePointScalar time i s),
    rectLightCount (updatePointScalar time i s), hasPointLights (updatePointScalar time i s),
    hasSpotLights (updatePointScalar time i s), hasRectLights (updatePointScalar time i s),
    viewNear (updatePointScalar time i s), viewFar (updatePointScalar time i s),
    length (pointLights (updatePointScalar time i s)),
    length (pointLightTexture (updatePointScalar time i s))) =
   (spotLights s, spotLightTexture s, rectLights s, rectLightTexture s,
    pointLightCount s, spotLightCount s, rectLightCount s, hasPointLights s,
    hasSpotLights s, hasRectLights s, viewNear s, viewFar s,
    length (pointLights s), length (pointLightTexture s))"
  by (simp add: updatePointScalar_def Let_def)

lemma simdBatch_others:
  "(spotLights (simdBatch time i s), spotLightTexture (simdBatch time i s),
    rectLights (simdBatch time i s), rectLightTexture (simdBatch time i s),
    pointLightCount (simdBatch time i s), spotLightCount (simdBatch time i s),
    rectLightCount (simdBatch time i s), hasPointLights (simdBatch time i s),
    hasSpotLights (simdBatch time i s), hasRectLights (simdBatch time i s),
    viewNear (simdBatch time i s), viewFar (simdBatch time i s),
    length (pointLights (simdBatch time i s)),
    length (pointLightTexture (simdBatch time i s))) =
   (spotLights s, spotLightTexture s, rectLights s, rectLightTexture s,
    pointLightCount s, spotLightCount s, rectLightCount s, hasPointLights s,
    hasSpotLights s, hasRectLights s, viewNear s, viewFar s,
    length (pointLights s), length (pointLightTexture s))"
  by (simp add: simdBatch_def Let_def)

lemma updateSpotScalar_others:
  "(pointLights (updateSpotScalar time i s), pointLightTexture (updateSpotScalar time i s),
    rectLights (updateSpotScalar time i s), rectLightTexture (updateSpotScalar time i s),
    pointLightCount (updateSpotScalar time i s), spotLightCount (updateSpotScalar time i s),
    rectLightCount (updateSpotScalar time i s), hasPointLights (updateSpotScalar time i s),
    hasSpotLights (updateSpotScalar time i s), hasRectLights (updateSpotScalar time i s),
    viewNear (updateSpotScalar time i s), viewFar (updateSpotScalar time i s),
    length (spotLights (updateSpotScalar time i s)),
    length (spotLightTexture (updateSpotScalar time i s))) =
   (pointLights s, pointLightTexture s, rectLights s, rectLightTexture s,
    pointLightCount s, spotLightCount s, rectLightCount s, hasPointLights s,
    hasSpotLights s, hasRectLights s, viewNear s, viewFar s,
    length (spotLights s), length (spotLightTexture s))"
  by (simp add: updateSpotScalar_def Let_def)

lemma updateRectScalar_others:
  "(pointLights (updateRectScalar time i s), pointLightTexture (updateRectScalar time i s),
    spotLights (updateRectScalar time i s), spotLightTexture (updateRectScalar time i s),
    pointLightCount (updateRectScalar time i s), spotLightCount (updateRectScalar time i s),
    rectLightCount (updateRectScalar time i s), hasPointLights (updateRectScalar time i s),
    hasSpotLights (updateRectScalar time i s), hasRectLights (updateRectScalar time i s),
    viewNear (updateRectScalar time i s), viewFar (updateRectScalar time i s),
    length (rectLights (updateRectScalar time i s)),
    length (rectLightTexture (updateRectScalar time i s))) =
   (pointLights s, pointLightTexture s, spotLights s, spotLightTexture s,
    pointLightCount s, spotLightCount s, rectLightCount s, hasPointLights s,
    hasSpotLights s, hasRectLights s, viewNear s, viewFar s,
    length (rectLights s), length (rectLightTexture s))"
  by (simp add: updateRectScalar_def Let_def)

text \<open>A step writes its own record and leaves the records at the other indices.\<close>

lemma updatePointScalar_written:
  assumes "i < length (pointLights s)" "i < length (pointLightTexture s)"
  shows "pointRecordWritten (updatePointScalar time i s) i"
    and "j \<noteq> i \<Longrightarrow> pointRecordWritten (updatePointScalar time i s) j = pointRecordWritten s j"
  using assms
  by (simp_all add: pointRecordWritten_def updatePointScalar_def Let_def culledFlag_def)

lemma updateSpotScalar_written:
  assumes "i < length (spotLights s)" "i < length (spotLightTexture s)"
  shows "spotRecordWritten (updateSpotScalar time i s) i"
    and "j \<noteq> i \<Longrightarrow> spotRecordWritten (updateSpotScalar time i s) j = spotRecordWritten s j"
  using assms
  by (simp_all add: spotRecordWritten_def updateSpotScalar_def Let_def culledFlag_def)

lemma updateRectScalar_written:
  assumes "i < length (rectLights s)" "i < length (rectLightTexture s)"
  shows "rectRecordWritten (updateRectScalar time i s) i"
    and "j \<noteq> i \<Longrightarrow> rectRecordWritten (updateRectScalar time i s) j = rectRecordWritten s j"
  using assms
  by (simp_all add: rectRecordWritten_def updateRectScalar_def Let_def culledFlag_def)

lemma simdBatch_written:
  assumes "i + 3 < length (pointLights s)" "i + 3 < length (pointLightTexture s)"
  shows "j < i + 4 \<Longrightarrow> i \<le> j \<Longrightarrow> pointRecordWritten (simdBatch time i s) j"
    and "j < i \<Longrightarrow> pointRecordWritten (simdBatch time i s) j = pointRecordWritten s j"
proof -
  assume "j < i + 4" "i \<le> j"
  then consider "j = i" | "j = i + 1" | "j = i + 2" | "j = i + 3" by linarith
  then show "pointRecordWritten (simdBatch time i s) j"
    using assms
    by cases (simp_all add: pointRecordWritten_def simdBatch_def Let_def culledFlag_def)
next
  assume "j < i"
  then show "pointRecordWritten (simdBatch time i s) j = pointRecordWritten s j"
    by (simp add: pointRecordWritten_def simdBatch_def Let_def culledFlag_def)
qed

lemma fold_updatePointScalar_others:
  "(spotLights (fold (updatePointScalar time) is s), spotLightTexture (fold (updatePointScalar time) is s),
    rectLights (fold (updatePointScalar time) is s), rectLightTexture (fold (updatePointScalar time) is s),
    pointLightCount (fold (updatePointScalar time) is s), spotLightCount (fold (updatePointScalar time) is s),
    rectLightCount (fold (updatePointScalar time) is s), hasPointLights (fold (updatePointScalar time) is s),
    hasSpotLights (fold (updatePointScalar time) is s), hasRectLights (fold (updatePointScalar time) is s),
    viewNear (fold (updatePointScalar time) is s), viewFar (fold (updatePointScalar time) is s),
    length (pointLights (fold (updatePointScalar time) is s)),
    length (pointLightTexture (fold (updatePointScalar time) is s))) =
   (spotLights s, spotLightTexture s, rectLights s, rectLightTexture s,
    pointLightCount s, spotLightCount s, rectLightCount s, hasPointLights s,
    hasSpotLights s, hasRectLights s, viewNear s, viewFar s,
    length (pointLights s), length (pointLightTexture s))"
  by (rule fold_preserves [where P = "\<lambda>s. (spotLights s, spotLightTexture s, rectLights s, rectLightTexture s,
    pointLightCount s, spotLightCount s, rectLightCount s, hasPointLights s,
    hasSpotLights s, hasRectLights s, viewNear s, viewFar s,
    length (pointLights s), length (pointLightTexture s))"]) (rule updatePointScalar_others)

lemma fold_updateSpotScalar_others:
  "(pointLights (fold (updateSpotScalar time) is s), pointLightTexture (fold (updateSpotScalar time) is s),
    rectLights (fold (updateSpotScalar time) is s), rectLightTexture (fold (updateSpotScalar time) is s),
    pointLightCount (fold (updateSpotScalar time) is s), spotLightCount (fold (updateSpotScalar time) is s),
    rectLightCount (fold (updateSpotScalar time) is s), hasPointLights (fold (updateSpotScalar time) is s),
    hasSpotLights (fold (updateSpotScalar time) is s), hasRectLights (fold (updateSpotScalar time) is s),
    viewNear (fold (updateSpotScalar time) is s), viewFar (fold (updateSpotScalar time) is s),
    length (spotLights (fold (updateSpotScalar time) is s)),
    length (spotLightTexture (fold (updateSpotScalar time) is s))) =
   (pointLights s, pointLightTexture s, rectLights s, rectLightTexture s,
    pointLightCount s, spotLightCount s, rectLightCount s, hasPointLights s,
    hasSpotLights s, hasRectLights s, viewNear s, viewFar s,
    length (spotLights s), length (spotLightTexture s))"
  by (rule fold_preserves [where P = "\<lambda>s. (pointLights s, pointLightTexture s, rectLights s, rectLightTexture s,
    pointLightCount s, spotLightCount s, rectLightCount s, hasPointLights s,
    hasSpotLights s, hasRectLights s, viewNear s, viewFar s,
    length (spotLights s), length (spotLightTexture s))"]) (rule updateSpotScalar_others)

lemma fold_updateRectScalar_others:
  "(pointLights (fold (updateRectScalar time) is s), pointLightTexture (fold (updateRectScalar time) is s),
    spotLights (fold (updateRectScalar time) is s), spotLightTexture (fold (updateRectScalar time) is s),
    pointLightCount (fold (updateRectScalar time) is s), spotLightCount (fold (updateRectScalar time) is s),
    rectLightCount (fold (updateRectScalar time) is s), hasPointLights (fold (updateRectScalar time) is s),
    hasSpotLights (fold (updateRectScalar time) is s), hasRectLights (fold (updateRectScalar time) is s),
    viewNear (fold (updateRectScalar time) is s), viewFar (fold (updateRectScalar time) is s),
    length (rectLights (fold (updateRectScalar time) is s)),
    length (rectLightTexture (fold (updateRectScalar time) is s))) =
   (pointLights s, pointLightTexture s, spotLights s, spotLightTexture s,
    pointLightCount s, spotLightCount s, rectLightCount s, hasPointLights s,
    hasSpotLights s, hasRectLights s, viewNear s, viewFar s,
    length (rectLights s), length (rectLightTexture s))"
  by (rule fold_preserves [where P = "\<lambda>s. (pointLights s, pointLightTexture s, spotLights s, spotLightTexture s,
    pointLightCount s, spotLightCount s, rectLightCount s, hasPointLights s,
    hasSpotLights s, hasRectLights s, viewNear s, viewFar s,
    length (rectLights s), length (rectLightTexture s))"]) (rule updateRectScalar_others)

lemma fold_updatePointScalar_written:
  assumes "\<forall>j<a. pointRecordWritten s j"
    and "b \<le> length (pointLights s)" "b \<le> length (pointLightTexture s)"
  shows "\<forall>j<b. pointRecordWritten (fold (updatePointScalar time) [a..<b] s) j"
  using assms(2,3)
proof (induction b)
  case 0
  then show ?case by simp
next
  case (Suc b)
  show ?case
  proof (cases "a \<le> b")
    case True
    let ?s1 = "fold (updatePointScalar time) [a..<b] s"
    have len: "b < length (pointLights ?s1)" "b < length (pointLightTexture ?s1)"
      using Suc.prems fold_updatePointScalar_others [of time "[a..<b]" s] by simp_all
    have ih: "\<forall>j<b. pointRecordWritten ?s1 j" using Suc by simp
    have "fold (updatePointScalar time) [a..<Suc b] s = updatePointScalar time b ?s1"
      using True by simp
    then show ?thesis
      using ih updatePointScalar_written [OF len, where time = time]
      by (auto simp: less_Suc_eq)
  next
    case False
    then show ?thesis using assms(1) by simp
  qed
qed

lemma fold_updateSpotScalar_written:
  assumes "b \<le> length (spotLights s)" "b \<le> length (spotLightTexture s)"
  shows "\<forall>j<b. spotRecordWritten (fold (updateSpotScalar time) [0..<b] s) j"
  using assms
proof (induction b)
  case 0
  then show ?case by simp
next
  case (Suc b)
  let ?s1 = "fold (updateSpotScalar time) [0..<b] s"
  have len: "b < length (spotLights ?s1)" "b < length (spotLightTexture ?s1)"
    using Suc.prems fold_updateSpotScalar_others [of time "[0..<b]" s] by simp_all
  have ih: "\<forall>j<b. spotRecordWritten ?s1 j" using Suc by simp
  have "fold (updateSpotScalar time) [0..<Suc b] s = updateSpotScalar time b ?s1" by simp
  then show ?case
    using ih updateSpotScalar_written [OF len, where time = time]
    by (auto simp: less_Suc_eq)
qed

lemma fold_updateRectScalar_written:
  assumes "b \<le> length (rectLights s)" "b \<le> length (rectLightTexture s)"
  shows "\<forall>j<b. rectRecordWritten (fold (updateRectScalar time) [0..<b] s) j"
  using assms
proof (induction b)
  case 0
  then show ?case by simp
next
  case (Suc b)
  let ?s1 = "fold (updateRectScalar time) [0..<b] s"
  have len: "b < length (rectLights ?s1)" "b < length (rectLightTexture ?s1)"
    using Suc.prems fold_updateRectScalar_others [of time "[0..<b]" s] by simp_all
  have ih: "\<forall>j<b. rectRecordWritten ?s1 j" using Suc by simp
  have "fold (updateRectScalar time) [0..<Suc b] s = updateRectScalar time b ?s1" by simp
  then show ?case
    using ih updateRectScalar_written [OF len, where time = time]
    by (auto simp: less_Suc_eq)
qed

lemma simdLoop_others:
  "(spotLights (snd (simdLoop time n i s)), spotLightTexture (snd (simdLoop time n i s)),
    rectLights (snd (simdLoop time n i s)), rectLightTexture (snd (simdLoop time n i s)),
    pointLightCount (snd (simdLoop time n i s)), spotLightCount (snd (simdLoop time n i s)),
    rectLightCount (snd (simdLoop time n i s)), hasPointLights (snd (simdLoop time n i s)),
    hasSpotLights (snd (simdLoop time n i s)), hasRectLights (snd (simdLoop time n i s)),
    viewNear (snd (simdLoop time n i s)), viewFar (snd (simdLoop time n i s)),
    length (pointLights (snd (simdLoop time n i s))),
    length (pointLightTexture (snd (simdLoop time n i s)))) =
   (spotLights s, spotLightTexture s, rectLights s, rectLightTexture s,
    pointLightCount s, spotLightCount s, rectLightCount s, hasPointLights s,
    hasSpotLights s, hasRectLights s, viewNear s, viewFar s,
    length (pointLights s), length (pointLightTexture s))"
proof (induction time n i s rule: simdLoop.induct)
  case (1 time n i s)
  show ?case
  proof (cases "i + 3 < n")
    case True
    then show ?thesis
      using 1 simdBatch_others [of time i s] by (subst (1 2 3 4 5 6 7 8 9 10 11 12 13 14) simdLoop.simps) simp
  next
    case False
    then show ?thesis by (subst (1 2 3 4 5 6 7 8 9 10 11 12 13 14) simdLoop.simps) simp
  qed
qed

lemma simdLoop_written:
  assumes "\<forall>j<i. pointRecordWritten s j"
    and "n \<le> length (pointLights s)" "n \<le> length (pointLightTexture s)"
  shows "\<forall>j<fst (simdLoop time n i s). pointRecordWritten (snd (simdLoop time n i s)) j"
  using assms
proof (induction time n i s rule: simdLoop.induct)
  case (1 time n i s)
  show ?case
  proof (cases "i + 3 < n")
    case True
    have len: "i + 3 < length (pointLights s)" "i + 3 < length (pointLightTexture s)"
      using True "1.prems" by simp_all
    have w: "\<forall>j<i + 4. pointRecordWritten (simdBatch time i s) j"
    proof (intro allI impI)
      fix j assume "j < i + 4"
      show "pointRecordWritten (simdBatch time i s) j"
      proof (cases "j < i")
        case True
        then show ?thesis using simdBatch_written(2) [OF len] "1.prems"(1) by simp
      next
        case False
        then show ?thesis using simdBatch_written(1) [OF len] \<open>j < i + 4\<close> by simp
      qed
    qed
    have "\<forall>j<fst (simdLoop time n (i + 4) (simdBatch time i s)).
            pointRecordWritten (snd (simdLoop time n (i + 4) (simdBatch time i s))) j"
      using "1.IH" [OF True w] "1.prems" simdBatch_others [of time i s] by simp
    then show ?thesis using True by (subst (1 2) simdLoop.simps) simp
  next
    case False
    then show ?thesis using "1.prems"(1) by (subst (1 2) simdLoop.simps) simp
  qed
qed

lemma updatePoints_others:
  "(spotLights (updatePoints simd time s), spotLightTexture (updatePoints simd time s),
    rectLights (updatePoints simd time s), rectLightTexture (updatePoints simd time s),
    pointLightCount (updatePoints simd time s), spotLightCount (updatePoints simd time s),
    rectLightCount (updatePoints simd time s), hasPointLights (updatePoints simd time s),
    hasSpotLights (updatePoints simd time s), hasRectLights (updatePoints simd time s),
    viewNear (updatePoints simd time s), viewFar (updatePoints simd time s),
    length (pointLights (updatePoints simd time s)),
    length (pointLightTexture (updatePoints simd time s))) =
   (spotLights s, spotLightTexture s, rectLights s, rectLightTexture s,
    pointLightCount s, spotLightCount s, rectLightCount s, hasPointLights s,
    hasSpotLights s, hasRectLights s, viewNear s, viewFar s,
    length (pointLights s), length (pointLightTexture s))"
proof (cases simd)
  case True
  obtain i s1 where l: "simdLoop time (nat (pointLightCount s)) 0 s = (i, s1)"
    by (cases "simdLoop time (nat (pointLightCount s)) 0 s")
  show ?thesis
    using True l simdLoop_others [of time "nat (pointLightCount s)" 0 s]
      fold_updatePointScalar_others [of time "[i..<nat (pointLightCount s)]" s1]
    by (simp add: updatePoints_def updatePointLightsSIMD_def)
next
  case False
  then show ?thesis
    using fold_updatePointScalar_others [of time "[0..<nat (pointLightCount s)]" s]
    by (simp add: updatePoints_def)
qed

lemma updatePoints_written:
  assumes "nat (pointLightCount s) \<le> length (pointLights s)"
    and "nat (pointLightCount s) \<le> length (pointLightTexture s)"
  shows "\<forall>j<nat (pointLightCount s). pointRecordWritten (updatePoints simd time s) j"
proof (cases simd)
  case True
  obtain i s1 where l: "simdLoop time (nat (pointLightCount s)) 0 s = (i, s1)"
    by (cases "simdLoop time (nat (pointLightCount s)) 0 s")
  have w: "\<forall>j<i. pointRecordWritten s1 j"
    using simdLoop_written [of 0 s "nat (pointLightCount s)" time] assms l by simp
  have len: "nat (pointLightCount s) \<le> length (pointLights s1)"
    "nat (pointLightCount s) \<le> length (pointLightTexture s1)"
    using simdLoop_others [of time "nat (pointLightCount s)" 0 s] assms l by simp_all
  have "\<forall>j<nat (pointLightCount s).
          pointRecordWritten (fold (updatePointScalar time) [i..<nat (pointLightCount s)] s1) j"
    using w len by (rule fold_updatePointScalar_written)
  then show ?thesis using True l by (simp add: updatePoints_def updatePointLightsSIMD_def)
next
  case False
  have "\<forall>j<nat (pointLightCount s).
          pointRecordWritten (fold (updatePointScalar time) [0..<nat (pointLightCount s)] s) j"
    using assms by (intro fold_updatePointScalar_written) simp_all
  then show ?thesis using False by (simp add: updatePoints_def)
qed

lemma update_general:
  "update simd time s =
    (let s0 = cacheViewMatrix s;
         s1 = (if hasPointLights s0 \<noteq> 0 then updatePoints simd time s0 else s0);
         s2 = (if hasSpotLights s1 \<noteq> 0 then updateSpots time s1 else s1)
     in if hasRectLights s2 \<noteq> 0 then updateRects time s2 else s2)"
proof -
  let ?s0 = "cacheViewMatrix s"
  have p: "hasSpotLights (updatePoints simd time ?s0) = hasSpotLights ?s0"
    "hasRectLights (updatePoints simd time ?s0) = hasRectLights ?s0"
    using updatePoints_others [of simd time ?s0] by simp_all
  have sp: "hasRectLights (updateSpots time ?s0) = hasRectLights ?s0"
    using fold_updateSpotScalar_others [of time "[0..<nat (spotLightCount ?s0)]" ?s0]
    by (simp add: updateSpots_def)
  show ?thesis
    by (simp add: update_def Let_def p sp)
qed

text \<open>The visible flag is not read before the packing: every block commutes with its update.\<close>

lemma block_visible [simp]:
  "pointReset (l0\<lparr>visible := v\<rparr>) = (pointReset l0)\<lparr>visible := v\<rparr>"
  "animCircular (l1\<lparr>visible := v\<rparr>) time = (animCircular l1 time)\<lparr>visible := v\<rparr>"
  "animWave (l2\<lparr>visible := v\<rparr>) time = (animWave l2 time)\<lparr>visible := v\<rparr>"
  "pointFlicker (l3\<lparr>visible := v\<rparr>) time = (pointFlicker l3 time)\<lparr>visible := v\<rparr>"
  "pointPulse (l4\<lparr>visible := v\<rparr>) time = (pointPulse l4 time)\<lparr>visible := v\<rparr>"
  "spotReset (l5\<lparr>visible := v\<rparr>) = (spotReset l5)\<lparr>visible := v\<rparr>"
  "spotRotate (l6\<lparr>visible := v\<rparr>) time = (spotRotate l6 time)\<lparr>visible := v\<rparr>"
  "spotPulse (l7\<lparr>visible := v\<rparr>) time = (spotPulse l7 time)\<lparr>visible := v\<rparr>"
  "rectReset (l8\<lparr>visible := v\<rparr>) = (rectReset l8)\<lparr>visible := v\<rparr>"
  "rectRotate (l9\<lparr>visible := v\<rparr>) time = (rectRotate l9 time)\<lparr>visible := v\<rparr>"
  "rectPulse (l10\<lparr>visible := v\<rparr>) time = (rectPulse l10 time)\<lparr>visible := v\<rparr>"
  "animLinear (l11\<lparr>visible := v\<rparr>) time = (animLinear l11 time)\<lparr>visible := v\<rparr>"
  "applyOffset (l12\<lparr>visible := v\<rparr>) = (applyOffset l12)\<lparr>visible := v\<rparr>"
  "colorFlicker (l13\<lparr>visible := v\<rparr>) time = (colorFlicker l13 time)\<lparr>visible := v\<rparr>"
  by (simp_all add: pointReset_def animCircular_def animWave_def pointFlicker_def pointPulse_def spotReset_def spotRotate_def spotPulse_def rectReset_def rectRotate_def rectPulse_def animLinear_def applyOffset_def colorFlicker_def Let_def)

lemma process_visible [simp]:
  "processPointLightAnimation (p\<lparr>visible := v\<rparr>) time = (processPointLightAnimation p time)\<lparr>visible := v\<rparr>"
  "processSpotLightAnimation (sl\<lparr>visible := v\<rparr>) time = (processSpotLightAnimation sl time)\<lparr>visible := v\<rparr>"
  "processRectLightAnimation (r\<lparr>visible := v\<rparr>) time = (processRectLightAnimation r time)\<lparr>visible := v\<rparr>"
  by (simp_all add: processPointLightAnimation_def processSpotLightAnimation_def
      processRectLightAnimation_def Let_def)


lemma texel_visible:
  "p_positionRadius (pointTexel (p\<lparr>visible := v\<rparr>) c) = p_positionRadius (pointTexel p c')"
  "(p_colorDecayVisible (pointTexel (p\<lparr>visible := v\<rparr>) c))\<lparr>vw := 0\<rparr> =
     (p_colorDecayVisible (pointTexel p c'))\<lparr>vw := 0\<rparr>"
  "(spotTexel (sl\<lparr>visible := v\<rparr>) c)\<lparr>s_angleParams := (s_angleParams (spotTexel (sl\<lparr>visible := v\<rparr>) c))\<lparr>vw := 0\<rparr>\<rparr> =
     (spotTexel sl c')\<lparr>s_angleParams := (s_angleParams (spotTexel sl c'))\<lparr>vw := 0\<rparr>\<rparr>"
  "(rectTexel (r\<lparr>visible := v\<rparr>) c)\<lparr>r_sizeParams := (r_sizeParams (rectTexel (r\<lparr>visible := v\<rparr>) c))\<lparr>vw := 0\<rparr>\<rparr> =
     (rectTexel r c')\<lparr>r_sizeParams := (r_sizeParams (rectTexel r c'))\<lparr>vw := 0\<rparr>\<rparr>"
  by (simp_all add: pointTexel_def spotTexel_def rectTexel_def mkVec4_def)

lemma updateSpots_written:
  assumes "nat (spotLightCount s) \<le> length (spotLights s)"
    and "nat (spotLightCount s) \<le> length (spotLightTexture s)"
  shows "\<forall>j<nat (spotLightCount s). spotRecordWritten (updateSpots time s) j"
  unfolding updateSpots_def using assms by (rule fold_updateSpotScalar_written)

lemma updateRects_written:
  assumes "nat (rectLightCount s) \<le> length (rectLights s)"
    and "nat (rectLightCount s) \<le> length (rectLightTexture s)"
  shows "\<forall>j<nat (rectLightCount s). rectRecordWritten (updateRects time s) j"
  unfolding updateRects_def using assms by (rule fold_updateRectScalar_written)

lemma updateSpots_others:
  "(pointLights (updateSpots time s), pointLightTexture (updateSpots time s),
    rectLights (updateSpots time s), rectLightTexture (updateSpots time s),
    pointLightCount (updateSpots time s), spotLightCount (updateSpots time s),
    rectLightCount (updateSpots time s), hasPointLights (updateSpots time s),
    hasSpotLights (updateSpots time s), hasRectLights (updateSpots time s),
    viewNear (updateSpots time s), viewFar (updateSpots time s),
    length (spotLights (updateSpots time s)),
    length (spotLightTexture (updateSpots time s))) =
   (pointLights s, pointLightTexture s, rectLights s, rectLightTexture s,
    pointLightCount s, spotLightCount s, rectLightCount s, hasPointLights s,
    hasSpotLights s, hasRectLights s, viewNear s, viewFar s,
    length (spotLights s), length (spotLightTexture s))"
  unfolding updateSpots_def by (rule fold_updateSpotScalar_others)

lemma updateRects_others:
  "(pointLights (updateRects time s), pointLightTexture (updateRects time s),
    spotLights (updateRects time s), spotLightTexture (updateRects time s),
    pointLightCount (updateRects time s), spotLightCount (updateRects time s),
    rectLightCount (updateRects time s), hasPointLights (updateRects time s),
    hasSpotLights (updateRects time s), hasRectLights (updateRects time s),
    viewNear (updateRects time s), viewFar (updateRects time s),
    length (rectLights (updateRects time s)),
    length (rectLightTexture (updateRects time s))) =
   (pointLights s, pointLightTexture s, spotLights s, spotLightTexture s,
    pointLightCount s, spotLightCount s, rectLightCount s, hasPointLights s,
    hasSpotLights s, hasRectLights s, viewNear s, viewFar s,
    length (rectLights s), length (rectLightTexture s))"
  unfolding updateRects_def by (rule fold_updateRectScalar_others)

lemma update_written:
  assumes "nat (pointLightCount s) \<le> length (pointLights s)"
    and "nat (pointLightCount s) \<le> length (pointLightTexture s)"
    and "nat (spotLightCount s) \<le> length (spotLights s)"
    and "nat (spotLightCount s) \<le> length (spotLightTexture s)"
    and "nat (rectLightCount s) \<le> length (rectLights s)"
    and "nat (rectLightCount s) \<le> length (rectLightTexture s)"
    and "0 < pointLightCount s \<longrightarrow> hasPointLights s \<noteq> 0"
    and "0 < spotLightCount s \<longrightarrow> hasSpotLights s \<noteq> 0"
    and "0 < rectLightCount s \<longrightarrow> hasRectLights s \<noteq> 0"
  shows "(\<forall>i<nat (pointLightCount s). pointRecordWritten (update simd time s) i) \<and>
         (\<forall>i<nat (spotLightCount s). spotRecordWritten (update simd time s) i) \<and>
         (\<forall>i<nat (rectLightCount s). rectRecordWritten (update simd time s) i)"
proof -
  define s0 where "s0 = cacheViewMatrix s"
  define s1 where "s1 = (if hasPointLights s0 \<noteq> 0 then updatePoints simd time s0 else s0)"
  define s2 where "s2 = (if hasSpotLights s1 \<noteq> 0 then updateSpots time s1 else s1)"
  define s3 where "s3 = (if hasRectLights s2 \<noteq> 0 then updateRects time s2 else s2)"
  have upd: "update simd time s = s3"
    by (simp add: update_general s0_def s1_def s2_def s3_def Let_def)
  have c0: "pointLights s0 = pointLights s" "pointLightTexture s0 = pointLightTexture s"
    "spotLights s0 = spotLights s" "spotLightTexture s0 = spotLightTexture s"
    "rectLights s0 = rectLights s" "rectLightTexture s0 = rectLightTexture s"
    "pointLightCount s0 = pointLightCount s" "spotLightCount s0 = spotLightCount s"
    "rectLightCount s0 = rectLightCount s" "hasPointLights s0 = hasPointLights s"
    "hasSpotLights s0 = hasSpotLights s" "hasRectLights s0 = hasRectLights s"
    by (simp_all add: s0_def cacheViewMatrix_def Let_def)
  have o1: "spotLights s1 = spotLights s" "spotLightTexture s1 = spotLightTexture s"
    "rectLights s1 = rectLights s" "rectLightTexture s1 = rectLightTexture s"
    "spotLightCount s1 = spotLightCount s" "rectLightCount s1 = rectLightCount s"
    "hasSpotLights s1 = hasSpotLights s" "hasRectLights s1 = hasRectLights s"
    using updatePoints_others [of simd time s0] by (simp_all add: s1_def c0)
  have w1: "\<forall>i<nat (pointLightCount s). pointRecordWritten s1 i"
  proof (cases "hasPointLights s0 \<noteq> 0")
    case True
    then show ?thesis
      using updatePoints_written [of s0 simd time] assms(1,2) by (simp add: s1_def c0)
  next
    case False
    then have "nat (pointLightCount s) = 0" using assms(7) c0 by auto
    then show ?thesis by simp
  qed
  have o2: "(pointLights s2, pointLightTexture s2, viewNear s2, viewFar s2) =
            (pointLights s1, pointLightTexture s1, viewNear s1, viewFar s1)"
    "rectLights s2 = rectLights s" "rectLightTexture s2 = rectLightTexture s"
    "rectLightCount s2 = rectLightCount s" "hasRectLights s2 = hasRectLights s"
    using updateSpots_others [of time s1] by (simp_all add: s2_def o1)
  have w2: "\<forall>i<nat (spotLightCount s). spotRecordWritten s2 i"
  proof (cases "hasSpotLights s1 \<noteq> 0")
    case True
    then show ?thesis
      using updateSpots_written [of s1 time] assms(3,4) by (simp add: s2_def o1)
  next
    case False
    then have "nat (spotLightCount s) = 0" using assms(8) o1 by auto
    then show ?thesis by simp
  qed
  have o3: "(pointLights s3, pointLightTexture s3, viewNear s3, viewFar s3) =
            (pointLights s2, pointLightTexture s2, viewNear s2, viewFar s2)"
    "(spotLights s3, spotLightTexture s3, viewNear s3, viewFar s3) =
     (spotLights s2, spotLightTexture s2, viewNear s2, viewFar s2)"
    using updateRects_others [of time s2] by (simp_all add: s3_def)
  have w3: "\<forall>i<nat (rectLightCount s). rectRecordWritten s3 i"
  proof (cases "hasRectLights s2 \<noteq> 0")
    case True
    then show ?thesis
      using updateRects_written [of s2 time] assms(5,6) by (simp add: s3_def o2)
  next
    case False
    then have "nat (rectLightCount s) = 0" using assms(9) o2 by auto
    then show ?thesis by simp
  qed
  have "pointRecordWritten s3 i = pointRecordWritten s1 i" for i
    using recordWritten_cong(1) [OF o3(1), of i] recordWritten_cong(1) [OF o2(1), of i] by simp
  moreover have "spotRecordWritten s3 i = spotRecordWritten s2 i" for i
    using recordWritten_cong(2) [OF o3(2), of i] by simp
  ultimately show ?thesis using w1 w2 w3 by (simp add: upd)
qed


subsection \<open>The record of a live light, from the state before the frame\<close>

text \<open>The level of detail of the batched path is the one of the scalar path, ties included.\<close>

lemma calculateLOD_SIMD_eq: "calculateLOD_SIMD s viewZ radius = calculateLOD s viewZ radius"
  by (simp add: calculateLOD_SIMD_def calculateLOD_def Let_def f2u8_def truncf_def
      LOD_SKIP_def LOD_SIMPLE_def LOD_MEDIUM_def LOD_FULL_def)

lemma simdViewed_eq: "simdViewed s l = pointViewed s l"
  by (simp add: simdViewed_def pointViewed_def worldToView_def calculateLOD_SIMD_eq Let_def
      add.assoc)

lemma viewGlobals_step:
  "viewGlobals (updatePointScalar time i s) = viewGlobals s"
  "viewGlobals (simdBatch time i s) = viewGlobals s"
  "viewGlobals (updateSpotScalar time i s) = viewGlobals s"
  "viewGlobals (updateRectScalar time i s) = viewGlobals s"
  by (simp_all add: viewGlobals_def updatePointScalar_def simdBatch_def updateSpotScalar_def
      updateRectScalar_def Let_def)

lemma viewGlobals_cong:
  assumes "viewGlobals s = viewGlobals s'"
  shows "pointViewed s l = pointViewed s' l"
    and "spotViewed s time sl = spotViewed s' time sl"
    and "rectViewed s time r = rectViewed s' time r"
    and "culledFlag s x = culledFlag s' x"
  using assms
  by (simp_all add: viewGlobals_def pointViewed_def spotViewed_def rectViewed_def culledFlag_def
      worldToView_def worldDirToView_def calculateLOD_def Let_def)

lemma viewGlobals_fold:
  "viewGlobals (fold (updatePointScalar time) js s) = viewGlobals s"
  "viewGlobals (fold (updateSpotScalar time) js s) = viewGlobals s"
  "viewGlobals (fold (updateRectScalar time) js s) = viewGlobals s"
  by (rule fold_preserves, rule viewGlobals_step)+

text \<open>A scalar loop rewrites the lights of its range, each from the light it found there.\<close>

lemma fold_updatePointScalar_nth:
  assumes "b \<le> length (pointLights s)"
  shows "pointLights (fold (updatePointScalar time) [a..<b] s) ! j =
         (if a \<le> j \<and> j < b then (pointViewed s (pointAnimated (pointLights s ! j) time))\<lparr>dirty := 0\<rparr>
          else pointLights s ! j)"
  using assms
proof (induction b arbitrary: j)
  case 0
  then show ?case by simp
next
  case (Suc b)
  show ?case
  proof (cases "a \<le> b")
    case True
    let ?s1 = "fold (updatePointScalar time) [a..<b] s"
    have len: "length (pointLights ?s1) = length (pointLights s)"
      using fold_updatePointScalar_others [of time "[a..<b]" s] by simp
    have g: "viewGlobals ?s1 = viewGlobals s" by (rule viewGlobals_fold)
    have ih: "pointLights ?s1 ! k =
         (if a \<le> k \<and> k < b then (pointViewed s (pointAnimated (pointLights s ! k) time))\<lparr>dirty := 0\<rparr>
          else pointLights s ! k)" for k
      using Suc by simp
    have st: "fold (updatePointScalar time) [a..<Suc b] s = updatePointScalar time b ?s1"
      using True by simp
    have b: "b < length (pointLights ?s1)" using Suc.prems len by simp
    show ?thesis
      unfolding st using True b ih [of b] ih [of j] viewGlobals_cong(1) [OF g]
      by (auto simp: updatePointScalar_def Let_def nth_list_update)
  next
    case False
    then show ?thesis by auto
  qed
qed

lemma fold_updateSpotScalar_nth:
  assumes "b \<le> length (spotLights s)"
  shows "spotLights (fold (updateSpotScalar time) [a..<b] s) ! j =
         (if a \<le> j \<and> j < b then (spotViewed s time (spotLights s ! j))\<lparr>dirty := 0\<rparr>
          else spotLights s ! j)"
  using assms
proof (induction b arbitrary: j)
  case 0
  then show ?case by simp
next
  case (Suc b)
  show ?case
  proof (cases "a \<le> b")
    case True
    let ?s1 = "fold (updateSpotScalar time) [a..<b] s"
    have len: "length (spotLights ?s1) = length (spotLights s)"
      using fold_updateSpotScalar_others [of time "[a..<b]" s] by simp
    have g: "viewGlobals ?s1 = viewGlobals s" by (rule viewGlobals_fold)
    have ih: "spotLights ?s1 ! k =
         (if a \<le> k \<and> k < b then (spotViewed s time (spotLights s ! k))\<lparr>dirty := 0\<rparr>
          else spotLights s ! k)" for k
      using Suc by simp
    have st: "fold (updateSpotScalar time) [a..<Suc b] s = updateSpotScalar time b ?s1"
      using True by simp
    have b: "b < length (spotLights ?s1)" using Suc.prems len by simp
    show ?thesis
      unfolding st using True b ih [of b] ih [of j] viewGlobals_cong(2) [OF g]
      by (auto simp: updateSpotScalar_def Let_def nth_list_update)
  next
    case False
    then show ?thesis by auto
  qed
qed

lemma fold_updateRectScalar_nth:
  assumes "b \<le> length (rectLights s)"
  shows "rectLights (fold (updateRectScalar time) [a..<b] s) ! j =
         (if a \<le> j \<and> j < b then (rectViewed s time (rectLights s ! j))\<lparr>dirty := 0\<rparr>
          else rectLights s ! j)"
  using assms
proof (induction b arbitrary: j)
  case 0
  then show ?case by simp
next
  case (Suc b)
  show ?case
  proof (cases "a \<le> b")
    case True
    let ?s1 = "fold (updateRectScalar time) [a..<b] s"
    have len: "length (rectLights ?s1) = length (rectLights s)"
      using fold_updateRectScalar_others [of time "[a..<b]" s] by simp
    have g: "viewGlobals ?s1 = viewGlobals s" by (rule viewGlobals_fold)
    have ih: "rectLights ?s1 ! k =
         (if a \<le> k \<and> k < b then (rectViewed s time (rectLights s ! k))\<lparr>dirty := 0\<rparr>
          else rectLights s ! k)" for k
      using Suc by simp
    have st: "fold (updateRectScalar time) [a..<Suc b] s = updateRectScalar time b ?s1"
      using True by simp
    have b: "b < length (rectLights ?s1)" using Suc.prems len by simp
    show ?thesis
      unfolding st using True b ih [of b] ih [of j] viewGlobals_cong(3) [OF g]
      by (auto simp: updateRectScalar_def Let_def nth_list_update)
  next
    case False
    then show ?thesis by auto
  qed
qed

text \<open>One batch of four, and the four-wide loop.\<close>

lemma batch_start:
  assumes "4 dvd i" "i \<le> j" "j < i + 4"
  shows "4 * (j div 4) = (i :: nat)"
  using assms by presburger

lemma simdBatch_nth:
  assumes "4 dvd i" "i + 3 < length (pointLights s)"
  shows "pointLights (simdBatch time i s) ! j =
         (if i \<le> j \<and> j < i + 4
          then (pointViewed s (if batchFlags s j \<noteq> ANIM_NONE
                               then processPointLightAnimation (pointLights s ! j) time
                               else pointAnimated (pointLights s ! j) time))\<lparr>dirty := 0\<rparr>
          else pointLights s ! j)"
proof (cases "i \<le> j \<and> j < i + 4")
  case True
  then have b: "4 * (j div 4) = i" using batch_start [OF assms(1)] by simp
  from True consider "j = i" | "j = i + 1" | "j = i + 2" | "j = i + 3" by linarith
  then show ?thesis
    using assms(2) b
    by cases (auto simp: simdBatch_def Let_def batchFlags_def simdViewed_eq or_eq_0_iff
        pointAnimated_def ANIM_NONE_def nth_list_update)
next
  case False
  then show ?thesis by (auto simp: simdBatch_def Let_def nth_list_update)
qed


lemma batch_later:
  assumes "4 dvd i" "i + 4 \<le> j"
  shows "i + 4 \<le> 4 * (j div 4 :: nat)"
  using assms by presburger

lemma simdBatch_batchFlags:
  assumes "4 dvd i" "i + 3 < length (pointLights s)" "i + 4 \<le> j"
  shows "batchFlags (simdBatch time i s) j = batchFlags s j"
proof -
  have b: "i + 4 \<le> 4 * (j div 4)" using batch_later [OF assms(1,3)] .
  have "pointLights (simdBatch time i s) ! k = pointLights s ! k" if "i + 4 \<le> k" for k
    using simdBatch_nth [OF assms(1,2), of time k] that by simp
  then show ?thesis using b by (simp add: batchFlags_def Let_def)
qed

lemma simdLoop_fst_ge: "i \<le> fst (simdLoop time n i s)"
proof (induction time n i s rule: simdLoop.induct)
  case (1 time n i s)
  show ?case
  proof (cases "i + 3 < n")
    case True
    then show ?thesis using 1 by (subst simdLoop.simps) simp
  next
    case False
    then show ?thesis by (subst simdLoop.simps) simp
  qed
qed

lemma simdLoop_fst:
  assumes "4 dvd i" "i \<le> j"
  shows "j < fst (simdLoop time n i s) \<longleftrightarrow> 4 * (j div 4) + 3 < n"
  using assms
proof (induction time n i s rule: simdLoop.induct)
  case (1 time n i s)
  show ?case
  proof (cases "i + 3 < n")
    case True
    have f: "fst (simdLoop time n i s) = fst (simdLoop time n (i + 4) (simdBatch time i s))"
      using True by (subst simdLoop.simps) simp
    have d: "4 dvd i + 4" using "1.prems"(1) by simp
    show ?thesis
    proof (cases "i + 4 \<le> j")
      case True
      then show ?thesis unfolding f using "1.IH" [OF \<open>i + 3 < n\<close> d] by simp
    next
      case False
      then have b: "4 * (j div 4) = i" using batch_start [OF "1.prems"(1,2)] by simp
      have ge: "i + 4 \<le> fst (simdLoop time n (i + 4) (simdBatch time i s))"
        by (rule simdLoop_fst_ge)
      show ?thesis unfolding f using False ge b True by simp
    qed
  next
    case False
    have f: "fst (simdLoop time n i s) = i" using False by (subst simdLoop.simps) simp
    have "i \<le> 4 * (j div 4)" using "1.prems" by presburger
    then show ?thesis unfolding f using False "1.prems"(2) by simp
  qed
qed


lemma viewGlobals_simdLoop: "viewGlobals (snd (simdLoop time n i s)) = viewGlobals s"
proof (induction time n i s rule: simdLoop.induct)
  case (1 time n i s)
  show ?case
  proof (cases "i + 3 < n")
    case True
    then show ?thesis using 1 by (subst simdLoop.simps) (simp add: viewGlobals_step)
  next
    case False
    then show ?thesis by (subst simdLoop.simps) simp
  qed
qed

lemma simdLoop_nth:
  assumes "4 dvd i" "n \<le> length (pointLights s)"
  shows "pointLights (snd (simdLoop time n i s)) ! j =
         (if i \<le> j \<and> 4 * (j div 4) + 3 < n
          then (pointViewed s (if batchFlags s j \<noteq> ANIM_NONE
                               then processPointLightAnimation (pointLights s ! j) time
                               else pointAnimated (pointLights s ! j) time))\<lparr>dirty := 0\<rparr>
          else pointLights s ! j)"
  using assms
proof (induction time n i s arbitrary: j rule: simdLoop.induct)
  case (1 time n i s)
  show ?case
  proof (cases "i + 3 < n")
    case True
    let ?s1 = "simdBatch time i s"
    have len: "i + 3 < length (pointLights s)" using True "1.prems" by simp
    have len1: "n \<le> length (pointLights ?s1)"
      using simdBatch_others [of time i s] "1.prems" by simp
    have d: "4 dvd i + 4" using "1.prems"(1) by simp
    have g: "viewGlobals ?s1 = viewGlobals s" by (rule viewGlobals_step)
    have sn: "snd (simdLoop time n i s) = snd (simdLoop time n (i + 4) ?s1)"
      using True by (subst simdLoop.simps) simp
    note ih = "1.IH" [OF True d len1, of j]
    show ?thesis
    proof (cases "i + 4 \<le> j")
      case True
      have f: "batchFlags ?s1 j = batchFlags s j"
        using simdBatch_batchFlags [OF "1.prems"(1) len True] .
      have l: "pointLights ?s1 ! j = pointLights s ! j"
        using simdBatch_nth [OF "1.prems"(1) len, of time j] True by simp
      show ?thesis
        unfolding sn ih f l using True viewGlobals_cong(1) [OF g] by simp
    next
      case False
      have b: "i \<le> j \<Longrightarrow> 4 * (j div 4) = i"
        using batch_start [OF "1.prems"(1), of j] False by simp
      show ?thesis
        unfolding sn ih using False \<open>i + 3 < n\<close> b simdBatch_nth [OF "1.prems"(1) len, of time j]
        by auto
    qed
  next
    case False
    have "i \<le> j \<Longrightarrow> i \<le> 4 * (j div 4)" using "1.prems"(1) by presburger
    then show ?thesis using False by (subst simdLoop.simps) auto
  qed
qed

text \<open>The point lights after \<^verbatim>\<open>updatePointLightsSIMD\<close> or the scalar loop.\<close>

lemma updatePoints_nth:
  assumes "nat (pointLightCount s) \<le> length (pointLights s)" "j < nat (pointLightCount s)"
  shows "pointLights (updatePoints simd time s) ! j =
         (pointViewed s (framePoint simd time s j))\<lparr>dirty := 0\<rparr>"
proof (cases simd)
  case True
  define n where "n = nat (pointLightCount s)"
  define r where "r = simdLoop time n 0 s"
  have len: "n \<le> length (pointLights (snd r))"
    unfolding r_def using simdLoop_others [of time n 0 s] assms(1) by (simp add: n_def)
  have g: "viewGlobals (snd r) = viewGlobals s"
    unfolding r_def by (rule viewGlobals_simdLoop)
  have k: "j < fst r \<longleftrightarrow> 4 * (j div 4) + 3 < n"
    unfolding r_def by (rule simdLoop_fst) simp_all
  have n0: "pointLights (snd r) ! j =
         (if 0 \<le> j \<and> 4 * (j div 4) + 3 < n
          then (pointViewed s (if batchFlags s j \<noteq> ANIM_NONE
                               then processPointLightAnimation (pointLights s ! j) time
                               else pointAnimated (pointLights s ! j) time))\<lparr>dirty := 0\<rparr>
          else pointLights s ! j)"
    unfolding r_def using assms(1) by (intro simdLoop_nth) (simp_all add: n_def)
  have "updatePoints simd time s = fold (updatePointScalar time) [fst r..<n] (snd r)"
    unfolding updatePoints_def updatePointLightsSIMD_def r_def n_def case_prod_beta
    using True by (simp only: if_True)
  then have "pointLights (updatePoints simd time s) ! j =
        pointLights (fold (updatePointScalar time) [fst r..<n] (snd r)) ! j"
    by (simp only:)
  also have "\<dots> = (if fst r \<le> j \<and> j < n
          then (pointViewed (snd r) (pointAnimated (pointLights (snd r) ! j) time))\<lparr>dirty := 0\<rparr>
          else pointLights (snd r) ! j)"
    by (rule fold_updatePointScalar_nth [OF len])
  also have "\<dots> = (pointViewed s (framePoint simd time s j))\<lparr>dirty := 0\<rparr>"
  proof (cases "j < fst r")
    case True
    then show ?thesis using \<open>simd\<close> k n0 by (simp add: framePoint_def inBatch_def n_def)
  next
    case False
    then show ?thesis
      using \<open>simd\<close> k n0 assms(2) viewGlobals_cong(1) [OF g]
      by (simp add: framePoint_def inBatch_def n_def)
  qed
  finally show ?thesis .
next
  case False
  then show ?thesis
    using fold_updatePointScalar_nth [OF assms(1), of time 0 j] assms(2)
    by (simp add: updatePoints_def framePoint_def)
qed

lemma viewGlobals_updates:
  "viewGlobals (updatePoints simd time s) = viewGlobals s"
  "viewGlobals (updateSpots time s) = viewGlobals s"
  "viewGlobals (updateRects time s) = viewGlobals s"
proof -
  show "viewGlobals (updatePoints simd time s) = viewGlobals s"
  proof (cases simd)
    case True
    have "updatePoints simd time s =
          fold (updatePointScalar time)
            [fst (simdLoop time (nat (pointLightCount s)) 0 s)..<nat (pointLightCount s)]
            (snd (simdLoop time (nat (pointLightCount s)) 0 s))"
      unfolding updatePoints_def updatePointLightsSIMD_def case_prod_beta
      using True by (simp only: if_True)
    then show ?thesis
      by (simp only: viewGlobals_fold viewGlobals_simdLoop)
  next
    case False
    then show ?thesis by (simp add: updatePoints_def viewGlobals_fold)
  qed
qed (simp_all add: updateSpots_def updateRects_def viewGlobals_fold)


text \<open>Nor is the dirty mask read.\<close>

lemma block_dirty [simp]:
  "pointReset (l0\<lparr>dirty := d\<rparr>) = (pointReset l0)\<lparr>dirty := d\<rparr>"
  "animCircular (l1\<lparr>dirty := d\<rparr>) time = (animCircular l1 time)\<lparr>dirty := d\<rparr>"
  "animWave (l2\<lparr>dirty := d\<rparr>) time = (animWave l2 time)\<lparr>dirty := d\<rparr>"
  "pointFlicker (l3\<lparr>dirty := d\<rparr>) time = (pointFlicker l3 time)\<lparr>dirty := d\<rparr>"
  "pointPulse (l4\<lparr>dirty := d\<rparr>) time = (pointPulse l4 time)\<lparr>dirty := d\<rparr>"
  "spotReset (l5\<lparr>dirty := d\<rparr>) = (spotReset l5)\<lparr>dirty := d\<rparr>"
  "spotRotate (l6\<lparr>dirty := d\<rparr>) time = (spotRotate l6 time)\<lparr>dirty := d\<rparr>"
  "spotPulse (l7\<lparr>dirty := d\<rparr>) time = (spotPulse l7 time)\<lparr>dirty := d\<rparr>"
  "rectReset (l8\<lparr>dirty := d\<rparr>) = (rectReset l8)\<lparr>dirty := d\<rparr>"
  "rectRotate (l9\<lparr>dirty := d\<rparr>) time = (rectRotate l9 time)\<lparr>dirty := d\<rparr>"
  "rectPulse (l10\<lparr>dirty := d\<rparr>) time = (rectPulse l10 time)\<lparr>dirty := d\<rparr>"
  "animLinear (l11\<lparr>dirty := d\<rparr>) time = (animLinear l11 time)\<lparr>dirty := d\<rparr>"
  "applyOffset (l12\<lparr>dirty := d\<rparr>) = (applyOffset l12)\<lparr>dirty := d\<rparr>"
  "colorFlicker (l13\<lparr>dirty := d\<rparr>) time = (colorFlicker l13 time)\<lparr>dirty := d\<rparr>"
  by (simp_all add: pointReset_def animCircular_def animWave_def pointFlicker_def pointPulse_def spotReset_def spotRotate_def spotPulse_def rectReset_def rectRotate_def rectPulse_def animLinear_def applyOffset_def colorFlicker_def Let_def)

lemma process_dirty [simp]:
  "processPointLightAnimation (p\<lparr>dirty := d\<rparr>) time = (processPointLightAnimation p time)\<lparr>dirty := d\<rparr>"
  "processSpotLightAnimation (sl\<lparr>dirty := d\<rparr>) time = (processSpotLightAnimation sl time)\<lparr>dirty := d\<rparr>"
  "processRectLightAnimation (r\<lparr>dirty := d\<rparr>) time = (processRectLightAnimation r time)\<lparr>dirty := d\<rparr>"
  by (simp_all add: processPointLightAnimation_def processSpotLightAnimation_def
      processRectLightAnimation_def Let_def)


lemma framed_fields:
  "decay (framePoint simd time s i) = decay (pointLights s ! i)"
  "visible (framePoint simd time s i) = visible (pointLights s ! i)"
  "decay (frameSpot time s i) = decay (spotLights s ! i)"
  "visible (frameSpot time s i) = visible (spotLights s ! i)"
  "angle (frameSpot time s i) = angle (spotLights s ! i)"
  "penumbra (frameSpot time s i) = penumbra (spotLights s ! i)"
  "viewDir (frameSpot time s i) = viewDir (spotLights s ! i)"
  "decay (frameRect time s i) = decay (rectLights s ! i)"
  "visible (frameRect time s i) = visible (rectLights s ! i)"
  "rsize (frameRect time s i) = rsize (rectLights s ! i)"
  "viewNormal (frameRect time s i) = viewNormal (rectLights s ! i)"
  "viewTangent (frameRect time s i) = viewTangent (rectLights s ! i)"
  by (simp_all add: framePoint_def frameSpot_def frameRect_def pointAnimated_def
      processPointLightAnimation_def processSpotLightAnimation_def processRectLightAnimation_def
      Let_def)

lemma framed_cacheViewMatrix:
  "framePoint simd time (cacheViewMatrix s) i = framePoint simd time s i"
  "frameSpot time (cacheViewMatrix s) i = frameSpot time s i"
  "frameRect time (cacheViewMatrix s) i = frameRect time s i"
  by (simp_all add: framePoint_def frameSpot_def frameRect_def inBatch_def batchFlags_def
      cacheViewMatrix_def Let_def)

lemma viewed_framed:
  "spotViewed g time (spotLights s ! i) =
     (let a = frameSpot time s i;
          l2 = a\<lparr>viewPos := worldToView g (vx (worldPos a)) (vy (worldPos a)) (vz (worldPos a)) (vw (worldPos a))\<rparr>;
          l3 = l2\<lparr>viewDir := worldDirToView g (direction l2) (viewDir l2)\<rparr>
      in l3\<lparr>lodLevel := calculateLOD g (vz (viewPos l3)) (vw (worldPos l3))\<rparr>)"
  "rectViewed g time (rectLights s ! i) =
     (let a = frameRect time s i;
          l2 = a\<lparr>viewPos := worldToView g (vx (worldPos a)) (vy (worldPos a)) (vz (worldPos a)) (vw (worldPos a))\<rparr>;
          l3 = l2\<lparr>viewNormal := worldDirToView g (normal l2) (viewNormal l2)\<rparr>;
          l4 = l3\<lparr>viewTangent := worldDirToView g (tangent l3) (viewTangent l3)\<rparr>
      in l4\<lparr>lodLevel := calculateLOD g (vz (viewPos l4)) (vw (worldPos l4))\<rparr>)"
  by (simp_all add: spotViewed_def rectViewed_def frameSpot_def frameRect_def Let_def)

lemma worldToView_viewSpace:
  "worldToView (cacheViewMatrix s) (vx p) (vy p) (vz p) (vw p) = viewSpace (cameraMatrix s) p"
  by (simp add: worldToView_def cacheViewMatrix_def viewSpace_def Let_def)

lemma worldDirToView_viewDirection:
  "worldDirToView (cacheViewMatrix s) d old = viewDirection (cameraMatrix s) d old"
  by (cases old) (simp add: worldDirToView_def cacheViewMatrix_def viewDirection_def Let_def divide_inverse)

text \<open>The lights after the frame, from the lights before it.\<close>

lemma update_lights:
  assumes "nat (pointLightCount s) \<le> length (pointLights s)"
    and "nat (pointLightCount s) \<le> length (pointLightTexture s)"
    and "nat (spotLightCount s) \<le> length (spotLights s)"
    and "nat (spotLightCount s) \<le> length (spotLightTexture s)"
    and "nat (rectLightCount s) \<le> length (rectLights s)"
    and "nat (rectLightCount s) \<le> length (rectLightTexture s)"
    and "0 < pointLightCount s \<longrightarrow> hasPointLights s \<noteq> 0"
    and "0 < spotLightCount s \<longrightarrow> hasSpotLights s \<noteq> 0"
    and "0 < rectLightCount s \<longrightarrow> hasRectLights s \<noteq> 0"
  shows "i < nat (pointLightCount s) \<Longrightarrow>
           pointLights (update simd time s) ! i =
           (pointViewed (cacheViewMatrix s) (framePoint simd time s i))\<lparr>dirty := 0\<rparr>"
    and "i < nat (spotLightCount s) \<Longrightarrow>
           spotLights (update simd time s) ! i =
           (spotViewed (cacheViewMatrix s) time (spotLights s ! i))\<lparr>dirty := 0\<rparr>"
    and "i < nat (rectLightCount s) \<Longrightarrow>
           rectLights (update simd time s) ! i =
           (rectViewed (cacheViewMatrix s) time (rectLights s ! i))\<lparr>dirty := 0\<rparr>"
    and "viewGlobals (update simd time s) = viewGlobals (cacheViewMatrix s)"
proof -
  define s0 where "s0 = cacheViewMatrix s"
  define s1 where "s1 = (if hasPointLights s0 \<noteq> 0 then updatePoints simd time s0 else s0)"
  define s2 where "s2 = (if hasSpotLights s1 \<noteq> 0 then updateSpots time s1 else s1)"
  define s3 where "s3 = (if hasRectLights s2 \<noteq> 0 then updateRects time s2 else s2)"
  have upd: "update simd time s = s3"
    by (simp add: update_general s0_def s1_def s2_def s3_def Let_def)
  have c0: "pointLights s0 = pointLights s" "spotLights s0 = spotLights s"
    "rectLights s0 = rectLights s"
    "pointLightCount s0 = pointLightCount s" "spotLightCount s0 = spotLightCount s"
    "rectLightCount s0 = rectLightCount s" "hasPointLights s0 = hasPointLights s"
    "hasSpotLights s0 = hasSpotLights s" "hasRectLights s0 = hasRectLights s"
    by (simp_all add: s0_def cacheViewMatrix_def Let_def)
  have g1: "viewGlobals s1 = viewGlobals s0" by (simp add: s1_def viewGlobals_updates)
  have g2: "viewGlobals s2 = viewGlobals s0" by (simp add: s2_def viewGlobals_updates g1)
  have g3: "viewGlobals s3 = viewGlobals s0" by (simp add: s3_def viewGlobals_updates g2)
  have o1: "spotLights s1 = spotLights s" "rectLights s1 = rectLights s"
    "spotLightCount s1 = spotLightCount s" "rectLightCount s1 = rectLightCount s"
    "hasSpotLights s1 = hasSpotLights s" "hasRectLights s1 = hasRectLights s"
    using updatePoints_others [of simd time s0] by (simp_all add: s1_def c0)
  have o2: "pointLights s2 = pointLights s1" "rectLights s2 = rectLights s"
    "rectLightCount s2 = rectLightCount s" "hasRectLights s2 = hasRectLights s"
    using updateSpots_others [of time s1] by (simp_all add: s2_def o1)
  have o3: "pointLights s3 = pointLights s2" "spotLights s3 = spotLights s2"
    using updateRects_others [of time s2] by (simp_all add: s3_def)
  show "viewGlobals (update simd time s) = viewGlobals (cacheViewMatrix s)"
    using g3 by (simp add: upd s0_def)
  show "pointLights (update simd time s) ! i =
           (pointViewed (cacheViewMatrix s) (framePoint simd time s i))\<lparr>dirty := 0\<rparr>"
    if i: "i < nat (pointLightCount s)"
  proof -
    have "hasPointLights s0 \<noteq> 0" using i assms(7) c0 by auto
    then have "pointLights s1 ! i = (pointViewed s0 (framePoint simd time s0 i))\<lparr>dirty := 0\<rparr>"
      using updatePoints_nth [of s0 i simd time] assms(1) i by (simp add: s1_def c0)
    then show ?thesis by (simp add: upd o3 o2 s0_def framed_cacheViewMatrix)
  qed
  show "spotLights (update simd time s) ! i =
           (spotViewed (cacheViewMatrix s) time (spotLights s ! i))\<lparr>dirty := 0\<rparr>"
    if i: "i < nat (spotLightCount s)"
  proof -
    have "hasSpotLights s1 \<noteq> 0" using i assms(8) o1 by auto
    then have "spotLights s2 ! i = (spotViewed s1 time (spotLights s1 ! i))\<lparr>dirty := 0\<rparr>"
      using fold_updateSpotScalar_nth [of "nat (spotLightCount s1)" s1 time 0 i] assms(3) i
      by (simp add: s2_def updateSpots_def o1)
    then show ?thesis
      using viewGlobals_cong(2) [OF g1] by (simp add: upd o3 o1 s0_def)
  qed
  show "rectLights (update simd time s) ! i =
           (rectViewed (cacheViewMatrix s) time (rectLights s ! i))\<lparr>dirty := 0\<rparr>"
    if i: "i < nat (rectLightCount s)"
  proof -
    have "hasRectLights s2 \<noteq> 0" using i assms(9) o2 by auto
    then have "rectLights s3 ! i = (rectViewed s2 time (rectLights s2 ! i))\<lparr>dirty := 0\<rparr>"
      using fold_updateRectScalar_nth [of "nat (rectLightCount s2)" s2 time 0 i] assms(5) i
      by (simp add: s3_def updateRects_def o2)
    then show ?thesis
      using viewGlobals_cong(3) [OF g2] by (simp add: upd o2 s0_def)
  qed
qed


text \<open>The records after the frame, from the lights before it.\<close>

lemma cacheViewMatrix_frustum:
  "viewNear (cacheViewMatrix s) = viewNear s" "viewFar (cacheViewMatrix s) = viewFar s"
  by (simp_all add: cacheViewMatrix_def Let_def)

lemma update_point_record:
  assumes "nat (pointLightCount s) \<le> length (pointLights s)"
    and "nat (pointLightCount s) \<le> length (pointLightTexture s)"
    and "nat (spotLightCount s) \<le> length (spotLights s)"
    and "nat (spotLightCount s) \<le> length (spotLightTexture s)"
    and "nat (rectLightCount s) \<le> length (rectLights s)"
    and "nat (rectLightCount s) \<le> length (rectLightTexture s)"
    and "0 < pointLightCount s \<longrightarrow> hasPointLights s \<noteq> 0"
    and "0 < spotLightCount s \<longrightarrow> hasSpotLights s \<noteq> 0"
    and "0 < rectLightCount s \<longrightarrow> hasRectLights s \<noteq> 0"
    and "i < nat (pointLightCount s)"
  shows "pointLightTexture (update simd time s) ! i =
    \<lparr>p_positionRadius = viewSpace (cameraMatrix s) (worldPos (framePoint simd time s i)),
     p_colorDecayVisible = mkVec4
       (vx (color (framePoint simd time s i)) * vw (color (framePoint simd time s i)))
       (vy (color (framePoint simd time s i)) * vw (color (framePoint simd time s i)))
       (vz (color (framePoint simd time s i)) * vw (color (framePoint simd time s i)))
       (decay (pointLights s ! i) * 100 +
        (if visible (pointLights s ! i) \<noteq> 0 \<and>
            \<not> (vz (viewSpace (cameraMatrix s) (worldPos (framePoint simd time s i)))
                   > vw (worldPos (framePoint simd time s i)) - viewNear s \<or>
                 vz (viewSpace (cameraMatrix s) (worldPos (framePoint simd time s i)))
                   < - viewFar s - vw (worldPos (framePoint simd time s i)))
         then 10 else 0) +
        real (unat (lodLevel (pointLights (update simd time s) ! i))))\<rparr>"
proof -
  let ?s' = "update simd time s"
  note h = assms(1-9)
  have w: "pointLightTexture ?s' ! i =
           pointTexel (pointLights ?s' ! i) (culledFlag ?s' (pointLights ?s' ! i))"
    using update_written [OF h, of simd time] assms(10) by (simp add: pointRecordWritten_def)
  have c: "culledFlag ?s' x = culledFlag (cacheViewMatrix s) x" for x :: PointLight
    by (rule viewGlobals_cong(4) [OF update_lights(4) [OF h]])
  show ?thesis
    unfolding w c update_lights(1) [OF h assms(10)]
    by (simp add: pointTexel_def pointViewed_def Let_def worldToView_viewSpace culledFlag_def
        visibleAndNotCulled_def packLightParams_def framed_fields
        cacheViewMatrix_frustum mkVec4_def)
qed

lemma update_spot_record:
  assumes "nat (pointLightCount s) \<le> length (pointLights s)"
    and "nat (pointLightCount s) \<le> length (pointLightTexture s)"
    and "nat (spotLightCount s) \<le> length (spotLights s)"
    and "nat (spotLightCount s) \<le> length (spotLightTexture s)"
    and "nat (rectLightCount s) \<le> length (rectLights s)"
    and "nat (rectLightCount s) \<le> length (rectLightTexture s)"
    and "0 < pointLightCount s \<longrightarrow> hasPointLights s \<noteq> 0"
    and "0 < spotLightCount s \<longrightarrow> hasSpotLights s \<noteq> 0"
    and "0 < rectLightCount s \<longrightarrow> hasRectLights s \<noteq> 0"
    and "i < nat (spotLightCount s)"
  shows "spotLightTexture (update simd time s) ! i =
    \<lparr>s_positionRadius = viewSpace (cameraMatrix s) (worldPos (frameSpot time s i)),
     s_colorIntensity = color (frameSpot time s i),
     s_direction = viewDirection (cameraMatrix s) (direction (frameSpot time s i))
                     (viewDir (spotLights s ! i)),
     s_angleParams = mkVec4 (cos (angle (spotLights s ! i)))
       (cos (angle (spotLights s ! i) - penumbra (spotLights s ! i)))
       (decay (spotLights s ! i))
       ((if visible (spotLights s ! i) \<noteq> 0 \<and>
            \<not> (vz (viewSpace (cameraMatrix s) (worldPos (frameSpot time s i)))
                   > vw (worldPos (frameSpot time s i)) - viewNear s \<or>
                 vz (viewSpace (cameraMatrix s) (worldPos (frameSpot time s i)))
                   < - viewFar s - vw (worldPos (frameSpot time s i)))
         then 10 else 0) +
        real (unat (lodLevel (spotLights (update simd time s) ! i))))\<rparr>"
proof -
  let ?s' = "update simd time s"
  note h = assms(1-9)
  have w: "spotLightTexture ?s' ! i =
           spotTexel (spotLights ?s' ! i) (culledFlag ?s' (spotLights ?s' ! i))"
    using update_written [OF h, of simd time] assms(10) by (simp add: spotRecordWritten_def)
  have c: "culledFlag ?s' x = culledFlag (cacheViewMatrix s) x" for x :: SpotLight
    by (rule viewGlobals_cong(4) [OF update_lights(4) [OF h]])
  show ?thesis
    unfolding w c update_lights(2) [OF h assms(10)] viewed_framed
    by (simp add: spotTexel_def Let_def worldToView_viewSpace worldDirToView_viewDirection
        culledFlag_def visibleAndNotCulled_def packVisibleLOD_def framed_fields
        cacheViewMatrix_frustum mkVec4_def)
qed

lemma update_rect_record:
  assumes "nat (pointLightCount s) \<le> length (pointLights s)"
    and "nat (pointLightCount s) \<le> length (pointLightTexture s)"
    and "nat (spotLightCount s) \<le> length (spotLights s)"
    and "nat (spotLightCount s) \<le> length (spotLightTexture s)"
    and "nat (rectLightCount s) \<le> length (rectLights s)"
    and "nat (rectLightCount s) \<le> length (rectLightTexture s)"
    and "0 < pointLightCount s \<longrightarrow> hasPointLights s \<noteq> 0"
    and "0 < spotLightCount s \<longrightarrow> hasSpotLights s \<noteq> 0"
    and "0 < rectLightCount s \<longrightarrow> hasRectLights s \<noteq> 0"
    and "i < nat (rectLightCount s)"
  shows "rectLightTexture (update simd time s) ! i =
    \<lparr>r_positionRadius = viewSpace (cameraMatrix s) (worldPos (frameRect time s i)),
     r_colorIntensity = color (frameRect time s i),
     r_sizeParams = mkVec4 (vx (rsize (rectLights s ! i))) (vy (rsize (rectLights s ! i)))
       (decay (rectLights s ! i))
       ((if visible (rectLights s ! i) \<noteq> 0 \<and>
            \<not> (vz (viewSpace (cameraMatrix s) (worldPos (frameRect time s i)))
                   > vw (worldPos (frameRect time s i)) - viewNear s \<or>
                 vz (viewSpace (cameraMatrix s) (worldPos (frameRect time s i)))
                   < - viewFar s - vw (worldPos (frameRect time s i)))
         then 10 else 0) +
        real (unat (lodLevel (rectLights (update simd time s) ! i)))),
     r_normal = viewDirection (cameraMatrix s) (normal (frameRect time s i))
                  (viewNormal (rectLights s ! i)),
     r_tangent = viewDirection (cameraMatrix s) (tangent (frameRect time s i))
                   (viewTangent (rectLights s ! i))\<rparr>"
proof -
  let ?s' = "update simd time s"
  note h = assms(1-9)
  have w: "rectLightTexture ?s' ! i =
           rectTexel (rectLights ?s' ! i) (culledFlag ?s' (rectLights ?s' ! i))"
    using update_written [OF h, of simd time] assms(10) by (simp add: rectRecordWritten_def)
  have c: "culledFlag ?s' x = culledFlag (cacheViewMatrix s) x" for x :: RectLight
    by (rule viewGlobals_cong(4) [OF update_lights(4) [OF h]])
  show ?thesis
    unfolding w c update_lights(3) [OF h assms(10)] viewed_framed
    by (simp add: rectTexel_def Let_def worldToView_viewSpace worldDirToView_viewDirection
        culledFlag_def visibleAndNotCulled_def packVisibleLOD_def framed_fields
        cacheViewMatrix_frustum mkVec4_def)
qed


text \<open>
  The visibility setters change the visible flag and the dirty mask of one light: the light
  as the frame animates it keeps every other field.
\<close>

lemma viewSpace_w [simp]: "vw (viewSpace m p) = vw p"
  by (simp add: viewSpace_def)








subsection \<open>Every live record is written in full\<close>



text \<open>The level of detail stored by the frame (for \<open>radius * lodBias \<noteq> 0\<close>).\<close>

lemma calculateLOD_cacheViewMatrix: "calculateLOD (cacheViewMatrix s) z r = calculateLOD s z r"
  by (simp add: calculateLOD_def cacheViewMatrix_def Let_def)

lemma update_lod:
  assumes "nat (pointLightCount s) \<le> length (pointLights s)"
    and "nat (pointLightCount s) \<le> length (pointLightTexture s)"
    and "nat (spotLightCount s) \<le> length (spotLights s)"
    and "nat (spotLightCount s) \<le> length (spotLightTexture s)"
    and "nat (rectLightCount s) \<le> length (rectLights s)"
    and "nat (rectLightCount s) \<le> length (rectLightTexture s)"
    and "0 < pointLightCount s \<longrightarrow> hasPointLights s \<noteq> 0"
    and "0 < spotLightCount s \<longrightarrow> hasSpotLights s \<noteq> 0"
    and "0 < rectLightCount s \<longrightarrow> hasRectLights s \<noteq> 0"
  shows "i < nat (pointLightCount s) \<Longrightarrow>
           lodLevel (pointLights (update simd time s) ! i) =
           calculateLOD s (vz (viewSpace (cameraMatrix s) (worldPos (framePoint simd time s i))))
             (vw (worldPos (framePoint simd time s i)))"
    and "i < nat (spotLightCount s) \<Longrightarrow>
           lodLevel (spotLights (update simd time s) ! i) =
           calculateLOD s (vz (viewSpace (cameraMatrix s) (worldPos (frameSpot time s i))))
             (vw (worldPos (frameSpot time s i)))"
    and "i < nat (rectLightCount s) \<Longrightarrow>
           lodLevel (rectLights (update simd time s) ! i) =
           calculateLOD s (vz (viewSpace (cameraMatrix s) (worldPos (frameRect time s i))))
             (vw (worldPos (frameRect time s i)))"
proof -
  show "lodLevel (pointLights (update simd time s) ! i) =
           calculateLOD s (vz (viewSpace (cameraMatrix s) (worldPos (framePoint simd time s i))))
             (vw (worldPos (framePoint simd time s i)))" if "i < nat (pointLightCount s)"
    unfolding update_lights(1) [OF assms that]
    by (simp add: pointViewed_def Let_def worldToView_viewSpace calculateLOD_cacheViewMatrix)
  show "lodLevel (spotLights (update simd time s) ! i) =
           calculateLOD s (vz (viewSpace (cameraMatrix s) (worldPos (frameSpot time s i))))
             (vw (worldPos (frameSpot time s i)))" if "i < nat (spotLightCount s)"
    unfolding update_lights(2) [OF assms that] viewed_framed
    by (simp add: Let_def worldToView_viewSpace calculateLOD_cacheViewMatrix)
  show "lodLevel (rectLights (update simd time s) ! i) =
           calculateLOD s (vz (viewSpace (cameraMatrix s) (worldPos (frameRect time s i))))
             (vw (worldPos (frameRect time s i)))" if "i < nat (rectLightCount s)"
    unfolding update_lights(3) [OF assms that] viewed_framed
    by (simp add: Let_def worldToView_viewSpace calculateLOD_cacheViewMatrix)
qed









subsection \<open>Culling in the frame\<close>

text \<open>
  Claim C5, amended. In every path of \<^verbatim>\<open>update\<close> (the three fast paths and the general
  path, either build) and for every live light of the three kinds, the near test is strict:
  with \<open>viewZ\<close> and the radius as the frame writes them to the record, the light is culled
  exactly when \<open>viewZ > radius - near\<close> or \<open>viewZ < - far - radius\<close>, so a light at or below
  \<open>viewZ = radius - near\<close> that is not beyond the far plane is not culled; the tens digit of
  the packed float is set exactly when the host-set visible flag is set and the light is not
  culled.
\<close>

theorem culling_near_boundary:
  assumes "nat (pointLightCount s) \<le> length (pointLights s)"
    and "nat (pointLightCount s) \<le> length (pointLightTexture s)"
    and "nat (spotLightCount s) \<le> length (spotLights s)"
    and "nat (spotLightCount s) \<le> length (spotLightTexture s)"
    and "nat (rectLightCount s) \<le> length (rectLights s)"
    and "nat (rectLightCount s) \<le> length (rectLightTexture s)"
    and "0 < pointLightCount s \<longrightarrow> hasPointLights s \<noteq> 0"
    and "0 < spotLightCount s \<longrightarrow> hasSpotLights s \<noteq> 0"
    and "0 < rectLightCount s \<longrightarrow> hasRectLights s \<noteq> 0"
  shows
  "(\<forall>i<nat (pointLightCount s).
      (let T = pointLightTexture (update simd time s) ! i; P = p_positionRadius T; l = pointLights s ! i;
           lod = real (unat (lodLevel (pointLights (update simd time s) ! i)))
       in P = viewSpace (cameraMatrix s) (worldPos (framePoint simd time s i)) \<and>
          vw (p_colorDecayVisible T) =
            decay l * 100 + (if visible l \<noteq> 0 \<and> \<not> (vz P > vw P - viewNear s \<or> vz P < - viewFar s - vw P)
             then 10 else 0) + lod \<and>
          (vz P \<le> vw P - viewNear s \<and> - viewFar s - vw P \<le> vz P \<longrightarrow>
             vw (p_colorDecayVisible T) = decay l * 100 + (if visible l \<noteq> 0 then 10 else 0) + lod))) \<and>
   (\<forall>i<nat (spotLightCount s).
      (let T = spotLightTexture (update simd time s) ! i; P = s_positionRadius T; l = spotLights s ! i;
           lod = real (unat (lodLevel (spotLights (update simd time s) ! i)))
       in P = viewSpace (cameraMatrix s) (worldPos (frameSpot time s i)) \<and>
          vw (s_angleParams T) =
            (if visible l \<noteq> 0 \<and> \<not> (vz P > vw P - viewNear s \<or> vz P < - viewFar s - vw P)
             then 10 else 0) + lod \<and>
          (vz P \<le> vw P - viewNear s \<and> - viewFar s - vw P \<le> vz P \<longrightarrow>
             vw (s_angleParams T) = (if visible l \<noteq> 0 then 10 else 0) + lod))) \<and>
   (\<forall>i<nat (rectLightCount s).
      (let T = rectLightTexture (update simd time s) ! i; P = r_positionRadius T; l = rectLights s ! i;
           lod = real (unat (lodLevel (rectLights (update simd time s) ! i)))
       in P = viewSpace (cameraMatrix s) (worldPos (frameRect time s i)) \<and>
          vw (r_sizeParams T) =
            (if visible l \<noteq> 0 \<and> \<not> (vz P > vw P - viewNear s \<or> vz P < - viewFar s - vw P)
             then 10 else 0) + lod \<and>
          (vz P \<le> vw P - viewNear s \<and> - viewFar s - vw P \<le> vz P \<longrightarrow>
             vw (r_sizeParams T) = (if visible l \<noteq> 0 then 10 else 0) + lod)))"
proof -
  have "(\<forall>i<nat (pointLightCount s).
      (let T = pointLightTexture (update simd time s) ! i; P = p_positionRadius T; l = pointLights s ! i;
           lod = real (unat (lodLevel (pointLights (update simd time s) ! i)))
       in P = viewSpace (cameraMatrix s) (worldPos (framePoint simd time s i)) \<and>
          vw (p_colorDecayVisible T) =
            decay l * 100 + (if visible l \<noteq> 0 \<and> \<not> (vz P > vw P - viewNear s \<or> vz P < - viewFar s - vw P)
             then 10 else 0) + lod \<and>
          (vz P \<le> vw P - viewNear s \<and> - viewFar s - vw P \<le> vz P \<longrightarrow>
             vw (p_colorDecayVisible T) = decay l * 100 + (if visible l \<noteq> 0 then 10 else 0) + lod)))"
    using update_point_record [OF assms, of _ simd time] by (simp add: Let_def mkVec4_def)
  moreover have "(\<forall>i<nat (spotLightCount s).
      (let T = spotLightTexture (update simd time s) ! i; P = s_positionRadius T; l = spotLights s ! i;
           lod = real (unat (lodLevel (spotLights (update simd time s) ! i)))
       in P = viewSpace (cameraMatrix s) (worldPos (frameSpot time s i)) \<and>
          vw (s_angleParams T) =
            (if visible l \<noteq> 0 \<and> \<not> (vz P > vw P - viewNear s \<or> vz P < - viewFar s - vw P)
             then 10 else 0) + lod \<and>
          (vz P \<le> vw P - viewNear s \<and> - viewFar s - vw P \<le> vz P \<longrightarrow>
             vw (s_angleParams T) = (if visible l \<noteq> 0 then 10 else 0) + lod)))"
    using update_spot_record [OF assms, of _ simd time] by (simp add: Let_def mkVec4_def)
  moreover have "(\<forall>i<nat (rectLightCount s).
      (let T = rectLightTexture (update simd time s) ! i; P = r_positionRadius T; l = rectLights s ! i;
           lod = real (unat (lodLevel (rectLights (update simd time s) ! i)))
       in P = viewSpace (cameraMatrix s) (worldPos (frameRect time s i)) \<and>
          vw (r_sizeParams T) =
            (if visible l \<noteq> 0 \<and> \<not> (vz P > vw P - viewNear s \<or> vz P < - viewFar s - vw P)
             then 10 else 0) + lod \<and>
          (vz P \<le> vw P - viewNear s \<and> - viewFar s - vw P \<le> vz P \<longrightarrow>
             vw (r_sizeParams T) = (if visible l \<noteq> 0 then 10 else 0) + lod)))"
    using update_rect_record [OF assms, of _ simd time] by (simp add: Let_def mkVec4_def)
  ultimately show ?thesis by (intro conjI)
qed

lemma nearBoundaryPoint_facts:
  "pointLightCount nearBoundaryPoint = 1" "spotLightCount nearBoundaryPoint = 0"
  "rectLightCount nearBoundaryPoint = 0" "hasPointLights nearBoundaryPoint = 1"
  "length (pointLights nearBoundaryPoint) = 1" "length (pointLightTexture nearBoundaryPoint) = 1"
  "cameraMatrix nearBoundaryPoint = [1, 0, 0, 0, 0, 1, 0, 0, 0, 0, 1, 0, 0, 0, 0, 1]"
  "viewNear nearBoundaryPoint = 0.1" "viewFar nearBoundaryPoint = 1000"
  "lodBias nearBoundaryPoint = 1"
  "decay (pointLights nearBoundaryPoint ! 0) = 2" "visible (pointLights nearBoundaryPoint ! 0) = 1"
  "worldPos (framePoint False 0 nearBoundaryPoint 0) = mkVec4 0 0 4.9 5"
  by (simp_all add: nearBoundaryPoint_def add_def initState_def Let_def framePoint_def
      pointAnimated_def mkVec4_def anim_consts)

lemma nearBoundaryPoint_hyps:
    "nat (pointLightCount nearBoundaryPoint) \<le> length (pointLights nearBoundaryPoint)"
    "nat (pointLightCount nearBoundaryPoint) \<le> length (pointLightTexture nearBoundaryPoint)"
    "nat (spotLightCount nearBoundaryPoint) \<le> length (spotLights nearBoundaryPoint)"
    "nat (spotLightCount nearBoundaryPoint) \<le> length (spotLightTexture nearBoundaryPoint)"
    "nat (rectLightCount nearBoundaryPoint) \<le> length (rectLights nearBoundaryPoint)"
    "nat (rectLightCount nearBoundaryPoint) \<le> length (rectLightTexture nearBoundaryPoint)"
    "0 < pointLightCount nearBoundaryPoint \<longrightarrow> hasPointLights nearBoundaryPoint \<noteq> 0"
    "0 < spotLightCount nearBoundaryPoint \<longrightarrow> hasSpotLights nearBoundaryPoint \<noteq> 0"
    "0 < rectLightCount nearBoundaryPoint \<longrightarrow> hasRectLights nearBoundaryPoint \<noteq> 0"
  by (simp_all add: nearBoundaryPoint_facts)

lemma nearBoundaryPoint_lod: "lodLevel (pointLights (update False 0 nearBoundaryPoint) ! 0) = 3"
  by (simp add: update_lod [OF nearBoundaryPoint_hyps] nearBoundaryPoint_facts viewSpace_def
      calculateLOD_def Let_def mkVec4_def LOD_FULL_def
      LOD_SKIP_DISTANCE_def LOD_SIMPLE_DISTANCE_def LOD_MEDIUM_DISTANCE_def)

theorem culling_near_boundary_witness:
  "nat (pointLightCount nearBoundaryPoint) \<le> length (pointLights nearBoundaryPoint) \<and>
   nat (pointLightCount nearBoundaryPoint) \<le> length (pointLightTexture nearBoundaryPoint) \<and>
   nat (spotLightCount nearBoundaryPoint) \<le> length (spotLights nearBoundaryPoint) \<and>
   nat (spotLightCount nearBoundaryPoint) \<le> length (spotLightTexture nearBoundaryPoint) \<and>
   nat (rectLightCount nearBoundaryPoint) \<le> length (rectLights nearBoundaryPoint) \<and>
   nat (rectLightCount nearBoundaryPoint) \<le> length (rectLightTexture nearBoundaryPoint) \<and>
   hasPointLights nearBoundaryPoint \<noteq> 0 \<and> spotLightCount nearBoundaryPoint = 0 \<and>
   rectLightCount nearBoundaryPoint = 0 \<and> 0 < nat (pointLightCount nearBoundaryPoint) \<and>
   visible (pointLights nearBoundaryPoint ! 0) \<noteq> 0 \<and>
   viewNear nearBoundaryPoint = 0.1 \<and>
   p_positionRadius (pointLightTexture (update False 0 nearBoundaryPoint) ! 0) = mkVec4 0 0 4.9 5 \<and>
   vz (p_positionRadius (pointLightTexture (update False 0 nearBoundaryPoint) ! 0)) =
     vw (p_positionRadius (pointLightTexture (update False 0 nearBoundaryPoint) ! 0))
       - viewNear nearBoundaryPoint \<and>
   vw (p_colorDecayVisible (pointLightTexture (update False 0 nearBoundaryPoint) ! 0)) = 213"
proof -
  note t = culling_near_boundary [OF nearBoundaryPoint_hyps, of False 0, THEN conjunct1]
  have p: "p_positionRadius (pointLightTexture (update False 0 nearBoundaryPoint) ! 0) = mkVec4 0 0 4.9 5"
    using t by (simp add: Let_def nearBoundaryPoint_facts viewSpace_def mkVec4_def)
  have "vw (p_colorDecayVisible (pointLightTexture (update False 0 nearBoundaryPoint) ! 0)) = 213"
    using t unfolding Let_def p
    by (simp add: nearBoundaryPoint_facts nearBoundaryPoint_lod viewSpace_def mkVec4_def)
  then show ?thesis
    using p by (simp add: nearBoundaryPoint_facts mkVec4_def)
qed

subsection \<open>Capacity\<close>








lemma batchCount_0 [simp]: "batchCount types ty 0 = 0"
  by (simp add: batchCount_def)














subsection \<open>Bulk ingestion against single-light creation\<close>

lemma normalizedDir_sample: "normalizedDir 0 0 2 = mkVec4 0 0 1 0"
  by (simp add: normalizedDir_def Let_def mkVec4_def)

text \<open>
  Claim C8, evaluated at one spot light with direction \<open>(0, 0, 2)\<close>: \<^verbatim>\<open>bulkAddLights\<close> accepts
  it and stores the direction as given, \<^verbatim>\<open>addSpot\<close> and \<^verbatim>\<open>addSpotWithAnimation\<close> store the unit
  vector; the records differ.
\<close>

theorem bulk_spot_direction_not_normalized:
  "pointLightCount bulkSpotStore = 0 \<and> spotLightCount bulkSpotStore = 1 \<and>
   direction (spotLights bulkSpotStore ! 0) = mkVec4 0 0 2 0 \<and>
   baseDir (spotLights bulkSpotStore ! 0) = mkVec4 0 0 2 0 \<and>
   direction (spotLights singleSpotStore ! 0) = mkVec4 0 0 1 0 \<and>
   baseDir (spotLights singleSpotStore ! 0) = mkVec4 0 0 1 0 \<and>
   direction (spotLights singleSpotAnimStore ! 0) = mkVec4 0 0 1 0 \<and>
   spotLights bulkSpotStore ! 0 \<noteq> spotLights singleSpotStore ! 0 \<and>
   spotLights bulkSpotStore ! 0 \<noteq> spotLights singleSpotAnimStore ! 0"
proof -
  have b: "spotLightCount bulkSpotStore = 1" "pointLightCount bulkSpotStore = 0"
    "direction (spotLights bulkSpotStore ! 0) = mkVec4 0 0 2 0"
    "baseDir (spotLights bulkSpotStore ! 0) = mkVec4 0 0 2 0"
    by (simp_all add: bulkSpotStore_def bulkAddLights_def bulkAddLightsStep_def bulkSpotLight_def
        initState_def Let_def)
  have s: "direction (spotLights singleSpotStore ! 0) = mkVec4 0 0 1 0"
    "baseDir (spotLights singleSpotStore ! 0) = mkVec4 0 0 1 0"
    by (simp_all add: singleSpotStore_def addSpot_def initState_def Let_def normalizedDir_sample)
  have a: "direction (spotLights singleSpotAnimStore ! 0) = mkVec4 0 0 1 0"
    by (simp add: singleSpotAnimStore_def addSpotWithAnimation_def initState_def Let_def
        normalizedDir_sample)
  have ne: "mkVec4 0 0 2 0 \<noteq> mkVec4 0 0 1 0" by (simp add: mkVec4_def)
  have "spotLights bulkSpotStore ! 0 \<noteq> spotLights singleSpotStore ! 0"
    using b(3) s(1) ne by metis
  moreover have "spotLights bulkSpotStore ! 0 \<noteq> spotLights singleSpotAnimStore ! 0"
    using b(3) a ne by metis
  ultimately show ?thesis using b s a by simp
qed

subsection \<open>The batched path against the scalar path\<close>

text \<open>A level of detail read back from its \<^verbatim>\<open>uint8_t\<close> is the level itself.\<close>

lemma lod_full_lane: "n < 2 ^ k \<Longrightarrow> take_bit k n = (n :: nat)"
  by (rule take_bit_nat_eq_self)

lemma mixedBatch_facts:
  "pointLightCount mixedBatch = 4" "hasPointLights mixedBatch = 1"
  "hasSpotLights mixedBatch = 0" "hasRectLights mixedBatch = 0"
  "flags (anim (pointLights mixedBatch ! 0)) = ANIM_CIRCULAR"
  "flags (anim (pointLights mixedBatch ! 1)) = ANIM_NONE"
  "color (pointLights mixedBatch ! 1) = mkVec4 0.5 0.5 0.5 1"
  "baseColor (pointLights mixedBatch ! 1) = mkVec4 1 1 1 1"
  by (simp_all add: mixedBatch_def updatePointLightColor_def UPDATE_COLOR_def add_def
      initState_def Let_def anim_consts eval_nat_numeral mkVec4_def)

text \<open>
  Claim C4, evaluated at four point lights of which the first is animated and the second
  has had its colour set: the batched path writes the authored colour of the second light,
  the scalar path its current colour.
\<close>

theorem batched_path_resets_color:
  "p_colorDecayVisible (pointLightTexture (update True 0 mixedBatch) ! 1) = mkVec4 1 1 1 213 \<and>
   p_colorDecayVisible (pointLightTexture (update False 0 mixedBatch) ! 1) = mkVec4 0.5 0.5 0.5 213 \<and>
   pointLightTexture (update True 0 mixedBatch) ! 1 \<noteq> pointLightTexture (update False 0 mixedBatch) ! 1"
proof -
  have t: "p_colorDecayVisible (pointLightTexture (update True 0 mixedBatch) ! 1) = mkVec4 1 1 1 213"
    by (simp add: mixedBatch_def updatePointLightColor_def UPDATE_COLOR_def add_def
      initState_def Let_def update_def cacheViewMatrix_def updatePoints_def
      updatePointLightsSIMD_def simdLoop.simps simdBatch_def simdViewed_def
      processPointLightAnimation_def pointReset_def
      calculateLOD_SIMD_eq calculateLOD_def pointTexel_def culledFlag_def lod_full_lane
      visibleAndNotCulled_def packLightParams_def mkVec4_def anim_consts eval_nat_numeral
      LOD_FULL_def DIRTY_ALL_def DIRTY_COLOR_def
      LOD_SKIP_DISTANCE_def LOD_SIMPLE_DISTANCE_def LOD_MEDIUM_DISTANCE_def)
  have f: "p_colorDecayVisible (pointLightTexture (update False 0 mixedBatch) ! 1) = mkVec4 0.5 0.5 0.5 213"
    by (simp add: mixedBatch_def updatePointLightColor_def UPDATE_COLOR_def add_def
      initState_def Let_def update_def cacheViewMatrix_def updatePoints_def
      updatePointScalar_def pointViewed_def pointAnimated_def worldToView_def
      processPointLightAnimation_def pointReset_def
      calculateLOD_def pointTexel_def culledFlag_def lod_full_lane
      visibleAndNotCulled_def packLightParams_def mkVec4_def anim_consts eval_nat_numeral
      LOD_FULL_def DIRTY_ALL_def DIRTY_COLOR_def
      LOD_SKIP_DISTANCE_def LOD_SIMPLE_DISTANCE_def LOD_MEDIUM_DISTANCE_def)
  have "mkVec4 1 1 1 213 \<noteq> mkVec4 0.5 0.5 0.5 213" by (simp add: mkVec4_def)
  then have "pointLightTexture (update True 0 mixedBatch) ! 1 \<noteq> pointLightTexture (update False 0 mixedBatch) ! 1"
    using t f by metis
  then show ?thesis using t f by simp
qed

end
